theory Spec2Isabelle
  imports Main "HOL-Library.Word" "HOL-Library.AList"
begin

section \<open>The staking keeper: delegations, unbonding delegations, redelegations\<close>

text \<open>
  A shallow embedding of \<^verbatim>\<open>x/staking/keeper/delegation.go\<close>. Every keeper method takes
  the context (block header, store, collaborators) and returns its result together with
  the context it leaves behind; an error return and a panic are values.
\<close>

subsection \<open>Addresses, time, amounts\<close>

text \<open>\<^verbatim>\<open>sdk.AccAddress\<close> and \<^verbatim>\<open>sdk.ValAddress\<close> are byte slices.\<close>

type_synonym address = "8 word list"

text \<open>
  Modelled from the spec: the Bech32 text form of an address held in the records
  (\<^verbatim>\<open>sdk.AccAddressFromBech32\<close>, \<^verbatim>\<open>sdk.ValAddressFromBech32\<close> are not under src/).
  A stored address string is the account form of a byte address, the validator form of
  one, or a malformed encoding.
\<close>

datatype bech32 = AccBech32 address | ValBech32 address | BadBech32

fun AccAddressFromBech32 :: "bech32 \<Rightarrow> address option" where
  "AccAddressFromBech32 (AccBech32 a) = Some a"
| "AccAddressFromBech32 _ = None"

fun ValAddressFromBech32 :: "bech32 \<Rightarrow> address option" where
  "ValAddressFromBech32 (ValBech32 a) = Some a"
| "ValAddressFromBech32 _ = None"

text \<open>
  \<^verbatim>\<open>time.Time\<close> is a number of nanoseconds counted from the zero value \<^verbatim>\<open>time.Time{}\<close>;
  a \<^verbatim>\<open>time.Duration\<close> is a number of nanoseconds. \<^verbatim>\<open>sdk.Int\<close> is an unbounded integer.
  \<^verbatim>\<open>sdk.Dec\<close> is a decimal with 18 places, held as the integer value times \<open>10 ^ 18\<close>.
\<close>

type_synonym time = int
type_synonym Dec = int

definition Precision :: int where
  "Precision = 10 ^ 18"

subsection \<open>Errors\<close>

datatype error =
    ErrNoDelegatorForAddress
  | ErrNotEnoughDelegationShares
  | ErrNoValidatorFound
  | ErrMaxUnbondingDelegationEntries
  | ErrNoUnbondingDelegation
  | ErrSelfRedelegation
  | ErrBadRedelegationDst
  | ErrTransitiveRedelegation
  | ErrMaxRedelegationEntries
  | ErrTinyRedelegationAmount
  | ErrDelegatorShareExRateInvalid
  | ErrNoRedelegation
  | ErrBech32
  | ErrInsufficientFunds
  | Panic

subsection \<open>Records of the ledger\<close>

record UnbondingDelegationEntry =
  CreationHeight :: int
  CompletionTime :: time
  InitialBalance :: int
  Balance :: int
  Id :: "64 word"
  OnHold :: bool

record UnbondingDelegation =
  DelegatorAddress :: bech32
  ValidatorAddress :: bech32
  Entries :: "UnbondingDelegationEntry list"

record RedelegationEntry =
  CreationHeight_R :: int
  CompletionTime_R :: time
  InitialBalance_R :: int
  SharesDst :: Dec
  Id_R :: "64 word"
  OnHold_R :: bool

record Redelegation =
  DelegatorAddress_R :: bech32
  ValidatorSrcAddress :: bech32
  ValidatorDstAddress :: bech32
  Entries_R :: "RedelegationEntry list"

record Delegation =
  DelegatorAddress_D :: bech32
  ValidatorAddress_D :: bech32
  Shares :: Dec

datatype BondStatus = Unspecified | Unbonded | Unbonding | Bonded

record Validator =
  OperatorAddress :: bech32
  Jailed :: bool
  Status :: BondStatus
  Tokens :: int
  DelegatorShares :: Dec
  UnbondingHeight :: int
  UnbondingTime_V :: time
  MinSelfDelegation :: int

type_synonym DVPair = "bech32 \<times> bech32"
type_synonym DVVTriplet = "bech32 \<times> bech32 \<times> bech32"

text \<open>
  Modelled from the spec: \<^verbatim>\<open>IsMature\<close> of an entry (package types, not under src/):
  an entry is mature when \<open>completionTime \<le> currentBlockTime\<close>.
\<close>

definition IsMature :: "UnbondingDelegationEntry \<Rightarrow> time \<Rightarrow> bool" where
  "IsMature e currentTime \<longleftrightarrow> CompletionTime e \<le> currentTime"

definition IsMature_R :: "RedelegationEntry \<Rightarrow> time \<Rightarrow> bool" where
  "IsMature_R e currentTime \<longleftrightarrow> CompletionTime_R e \<le> currentTime"

subsection \<open>Go slices\<close>

text \<open>
  The entries of a record in memory are a Go slice: a backing array and a length. A
  pointer \<^verbatim>\<open>&s[i]\<close> is the slot \<open>i\<close> of the backing array, and reads whatever the slot
  holds at the time of the read.
\<close>

type_synonym 'a slice = "'a list \<times> nat"

definition slice_of :: "'a list \<Rightarrow> 'a slice" where
  "slice_of xs = (xs, length xs)"

definition elems :: "'a slice \<Rightarrow> 'a list" where
  "elems s = take (snd s) (fst s)"

text \<open>\<^verbatim>\<open>s[i]\<close> is checked against the length of the slice.\<close>

definition index :: "'a slice \<Rightarrow> nat \<Rightarrow> 'a option" where
  "index s i = (if i < snd s then Some (fst s ! i) else None)"

text \<open>
  Modelled from the spec: \<^verbatim>\<open>RemoveEntry(i)\<close> of an unbonding delegation and of a
  redelegation (package types, not under src/): an in-place entry removal, removing entry
  \<open>i\<close> shifts the subsequent entries down. The slice is shortened by one on the same
  backing array, whose last slot in use keeps its old content; an index beyond the
  entries is a panic (\<open>None\<close>).
\<close>

definition RemoveEntry :: "'a slice \<Rightarrow> nat \<Rightarrow> 'a slice option" where
  "RemoveEntry s i =
     (case s of (arr, n) \<Rightarrow>
        if i < n
        then Some (take i arr @ drop (Suc i) (take n arr) @ drop (n - 1) arr, n - 1)
        else None)"

subsection \<open>The context: block header, parameters, store, collaborators\<close>

text \<open>
  Modelled from the spec: the token custody collaborator (the bank keeper, not under
  src/) with its two pools; \<open>Released\<close> lists the transfers made from the not-bonded
  pool to accounts, in the order of the calls.
\<close>

record Bank =
  BondedPool :: int
  NotBondedPool :: int
  Accounts :: "(address \<times> int) list"
  Released :: "(address \<times> int) list"

definition GetBalance :: "Bank \<Rightarrow> address \<Rightarrow> int" where
  "GetBalance b addr = (case map_of (Accounts b) addr of None \<Rightarrow> 0 | Some amt \<Rightarrow> amt)"

text \<open>The notifications sent to the hooks collaborator, in the order of the calls.\<close>

datatype hook =
    BeforeDelegationCreated address address
  | BeforeDelegationSharesModified address address
  | BeforeDelegationRemoved address address
  | AfterDelegationModified address address
  | AfterUnbondingOpInitiated "64 word"

text \<open>
  Modelled from the spec: the persisted key layout (the key constructors of package
  types are not under src/). The reverse index \<^verbatim>\<open>unbondingOpIndex/id\<close> holds the primary
  key of the owning record.
\<close>

datatype store_key =
    UBDKey address address
  | REDKey address address address

record Context =
  BlockTime :: time
  BlockHeight :: int
  UnbondingTime :: int
  MaxEntries :: "32 word"
  unbondingOpId :: "64 word option"
  delegations :: "((address \<times> address) \<times> Delegation) list"
  ubds :: "((address \<times> address) \<times> UnbondingDelegation) list"
  ubdsByValIndex :: "(address \<times> address) list"
  reds :: "((address \<times> address \<times> address) \<times> Redelegation) list"
  redsByValSrcIndex :: "(address \<times> address \<times> address) list"
  redsByValDstIndex :: "(address \<times> address \<times> address) list"
  ubdQueue :: "(time \<times> DVPair list) list"
  redQueue :: "(time \<times> DVVTriplet list) list"
  unbondingOpIndex :: "(64 word \<times> store_key) list"
  validators :: "(address \<times> Validator) list"
  bank :: Bank
  hooks :: "hook list"

definition callHook :: "hook \<Rightarrow> Context \<Rightarrow> Context" where
  "callHook h ctx = ctx\<lparr>hooks := hooks ctx @ [h]\<rparr>"

text \<open>
  Modelled from the spec: \<^verbatim>\<open>sdk.NewCoin\<close> (package types, not under src/) builds an
  amount of the bond denomination; a negative amount is an invariant violation, a panic.
\<close>

definition NewCoin :: "int \<Rightarrow> error + int" where
  "NewCoin amount = (if amount < 0 then Inl Panic else Inr amount)"

text \<open>
  Modelled from the spec: \<^verbatim>\<open>moveFromPoolToAccount\<close> from the not-bonded pool
  (\<^verbatim>\<open>bankKeeper.UndelegateCoinsFromModuleToAccount\<close>, not under src/); it fails when
  the pool does not hold the amount.
\<close>

definition UndelegateCoinsFromModuleToAccount ::
    "Context \<Rightarrow> address \<Rightarrow> int \<Rightarrow> error + Context" where
  "UndelegateCoinsFromModuleToAccount ctx addr amt =
     (if NotBondedPool (bank ctx) < amt then Inl ErrInsufficientFunds
      else Inr (ctx\<lparr>bank := (bank ctx)\<lparr>
              NotBondedPool := NotBondedPool (bank ctx) - amt,
              Accounts := AList.update addr (GetBalance (bank ctx) addr + amt) (Accounts (bank ctx)),
              Released := Released (bank ctx) @ [(addr, amt)]\<rparr>\<rparr>))"

text \<open>
  Modelled from the spec: \<^verbatim>\<open>moveFromAccountToPool\<close> (\<^verbatim>\<open>DelegateCoinsFromAccountToModule\<close>)
  and \<^verbatim>\<open>movePoolToPool\<close> between the two pools (\<^verbatim>\<open>notBondedTokensToBonded\<close>,
  \<^verbatim>\<open>bondedTokensToNotBonded\<close> of the keeper, not under src/). The first returns its
  failure; the keeper's pool moves panic on a failure.
\<close>

definition DelegateCoinsFromAccountToModule ::
    "Context \<Rightarrow> address \<Rightarrow> bool \<Rightarrow> int \<Rightarrow> error + Context" where
  "DelegateCoinsFromAccountToModule ctx addr toBondedPool amt =
     (if GetBalance (bank ctx) addr < amt then Inl ErrInsufficientFunds
      else Inr (ctx\<lparr>bank := (bank ctx)\<lparr>
              BondedPool := BondedPool (bank ctx) + (if toBondedPool then amt else 0),
              NotBondedPool := NotBondedPool (bank ctx) + (if toBondedPool then 0 else amt),
              Accounts := AList.update addr (GetBalance (bank ctx) addr - amt) (Accounts (bank ctx))\<rparr>\<rparr>))"

definition notBondedTokensToBonded :: "Context \<Rightarrow> int \<Rightarrow> error + Context" where
  "notBondedTokensToBonded ctx tokens =
     (case NewCoin tokens of
        Inl e \<Rightarrow> Inl e
      | Inr amt \<Rightarrow>
          if NotBondedPool (bank ctx) < amt then Inl Panic
          else Inr (ctx\<lparr>bank := (bank ctx)\<lparr>
                  BondedPool := BondedPool (bank ctx) + amt,
                  NotBondedPool := NotBondedPool (bank ctx) - amt\<rparr>\<rparr>))"

definition bondedTokensToNotBonded :: "Context \<Rightarrow> int \<Rightarrow> error + Context" where
  "bondedTokensToNotBonded ctx tokens =
     (case NewCoin tokens of
        Inl e \<Rightarrow> Inl e
      | Inr amt \<Rightarrow>
          if BondedPool (bank ctx) < amt then Inl Panic
          else Inr (ctx\<lparr>bank := (bank ctx)\<lparr>
                  BondedPool := BondedPool (bank ctx) - amt,
                  NotBondedPool := NotBondedPool (bank ctx) + amt\<rparr>\<rparr>))"

subsection \<open>The operation-ID counter\<close>

definition IncrementUnbondingOpId :: "Context \<Rightarrow> 64 word \<times> Context" where
  "IncrementUnbondingOpId ctx =
     (let unbondingDelegationEntryId =
            (case unbondingOpId ctx of None \<Rightarrow> 0 | Some bz \<Rightarrow> bz) + 1
      in (unbondingDelegationEntryId,
          ctx\<lparr>unbondingOpId := Some unbondingDelegationEntryId\<rparr>))"

subsection \<open>Unbonding delegations\<close>

definition GetUnbondingDelegation ::
    "Context \<Rightarrow> address \<Rightarrow> address \<Rightarrow> UnbondingDelegation option" where
  "GetUnbondingDelegation ctx delAddr valAddr = map_of (ubds ctx) (delAddr, valAddr)"

text \<open>
  The index gives a key, and the value under that key is decoded as an unbonding
  delegation. Modelled from the spec: the codec (\<^verbatim>\<open>MustUnmarshalUBD\<close>, package types) is
  not under src/; the value under the key of a redelegation is taken not to decode as an
  unbonding delegation, a panic. The properties below look up the IDs of entries of
  unbonding delegations with this function, never the ID of a redelegation.
\<close>

definition GetUnbondingDelegationByUnbondingOpId ::
    "Context \<Rightarrow> 64 word \<Rightarrow> error + UnbondingDelegation option" where
  "GetUnbondingDelegationByUnbondingOpId ctx id' =
     (case map_of (unbondingOpIndex ctx) id' of
        None \<Rightarrow> Inr None
      | Some (UBDKey d v) \<Rightarrow> Inr (map_of (ubds ctx) (d, v))
      | Some (REDKey d s t) \<Rightarrow>
          (case map_of (reds ctx) (d, s, t) of None \<Rightarrow> Inr None | Some _ \<Rightarrow> Inl Panic))"

definition SetUBDByUnbondingOpIndex ::
    "Context \<Rightarrow> UnbondingDelegation \<Rightarrow> 64 word \<Rightarrow> error + Context" where
  "SetUBDByUnbondingOpIndex ctx ubd id' =
     (case AccAddressFromBech32 (DelegatorAddress ubd) of
        None \<Rightarrow> Inl Panic
      | Some delAddr \<Rightarrow>
          (case ValAddressFromBech32 (ValidatorAddress ubd) of
             None \<Rightarrow> Inl Panic
           | Some valAddr \<Rightarrow>
               Inr (ctx\<lparr>unbondingOpIndex :=
                      AList.update id' (UBDKey delAddr valAddr) (unbondingOpIndex ctx)\<rparr>)))"

definition DeleteUBDByUnbondingOpIndex :: "Context \<Rightarrow> 64 word \<Rightarrow> Context" where
  "DeleteUBDByUnbondingOpIndex ctx id' =
     ctx\<lparr>unbondingOpIndex := AList.delete id' (unbondingOpIndex ctx)\<rparr>"

definition HasMaxUnbondingDelegationEntries :: "Context \<Rightarrow> address \<Rightarrow> address \<Rightarrow> bool" where
  "HasMaxUnbondingDelegationEntries ctx delegatorAddr validatorAddr =
     (case GetUnbondingDelegation ctx delegatorAddr validatorAddr of
        None \<Rightarrow> False
      | Some ubd \<Rightarrow> length (Entries ubd) \<ge> unat (MaxEntries ctx))"

definition SetUnbondingDelegation :: "Context \<Rightarrow> UnbondingDelegation \<Rightarrow> error + Context" where
  "SetUnbondingDelegation ctx ubd =
     (case AccAddressFromBech32 (DelegatorAddress ubd) of
        None \<Rightarrow> Inl Panic
      | Some delegatorAddress \<Rightarrow>
          (case ValAddressFromBech32 (ValidatorAddress ubd) of
             None \<Rightarrow> Inl Panic
           | Some addr \<Rightarrow>
               Inr (ctx\<lparr>ubds := AList.update (delegatorAddress, addr) ubd (ubds ctx),
                        ubdsByValIndex := List.insert (delegatorAddress, addr) (ubdsByValIndex ctx)\<rparr>)))"

definition RemoveUnbondingDelegation :: "Context \<Rightarrow> UnbondingDelegation \<Rightarrow> error + Context" where
  "RemoveUnbondingDelegation ctx ubd =
     (case AccAddressFromBech32 (DelegatorAddress ubd) of
        None \<Rightarrow> Inl Panic
      | Some delegatorAddress \<Rightarrow>
          (case ValAddressFromBech32 (ValidatorAddress ubd) of
             None \<Rightarrow> Inl Panic
           | Some addr \<Rightarrow>
               Inr (ctx\<lparr>ubds := AList.delete (delegatorAddress, addr) (ubds ctx),
                        ubdsByValIndex := removeAll (delegatorAddress, addr) (ubdsByValIndex ctx)\<rparr>)))"

text \<open>
  Modelled from the spec: \<^verbatim>\<open>NewUnbondingDelegation\<close> and \<^verbatim>\<open>AddEntry\<close> (package types, not
  under src/): if the record is absent, one with a single entry is created; if present, a
  new entry is appended. A new entry is not on hold and its balance is its initial
  balance.
\<close>

definition NewUnbondingDelegationEntry ::
    "int \<Rightarrow> time \<Rightarrow> int \<Rightarrow> 64 word \<Rightarrow> UnbondingDelegationEntry" where
  "NewUnbondingDelegationEntry creationHeight minTime balance id' =
     \<lparr>CreationHeight = creationHeight, CompletionTime = minTime,
      InitialBalance = balance, Balance = balance, Id = id', OnHold = False\<rparr>"

definition NewUnbondingDelegation ::
    "address \<Rightarrow> address \<Rightarrow> int \<Rightarrow> time \<Rightarrow> int \<Rightarrow> 64 word \<Rightarrow> UnbondingDelegation" where
  "NewUnbondingDelegation delegatorAddr validatorAddr creationHeight minTime balance id' =
     \<lparr>DelegatorAddress = AccBech32 delegatorAddr, ValidatorAddress = ValBech32 validatorAddr,
      Entries = [NewUnbondingDelegationEntry creationHeight minTime balance id']\<rparr>"

definition AddEntry ::
    "UnbondingDelegation \<Rightarrow> int \<Rightarrow> time \<Rightarrow> int \<Rightarrow> 64 word \<Rightarrow> UnbondingDelegation" where
  "AddEntry ubd creationHeight minTime balance id' =
     ubd\<lparr>Entries := Entries ubd @ [NewUnbondingDelegationEntry creationHeight minTime balance id']\<rparr>"

definition SetUnbondingDelegationEntry ::
    "Context \<Rightarrow> address \<Rightarrow> address \<Rightarrow> int \<Rightarrow> time \<Rightarrow> int \<Rightarrow> (error + UnbondingDelegation) \<times> Context" where
  "SetUnbondingDelegationEntry ctx delegatorAddr validatorAddr creationHeight minTime balance =
     (let found = GetUnbondingDelegation ctx delegatorAddr validatorAddr;
          (id', ctx1) = IncrementUnbondingOpId ctx;
          ubd = (case found of
                   Some ubd0 \<Rightarrow> AddEntry ubd0 creationHeight minTime balance id'
                 | None \<Rightarrow> NewUnbondingDelegation delegatorAddr validatorAddr
                             creationHeight minTime balance id')
      in case SetUnbondingDelegation ctx1 ubd of
           Inl e \<Rightarrow> (Inl e, ctx1)
         | Inr ctx2 \<Rightarrow>
             (case SetUBDByUnbondingOpIndex ctx2 ubd id' of
                Inl e \<Rightarrow> (Inl e, ctx2)
              | Inr ctx3 \<Rightarrow> (Inr ubd, callHook (AfterUnbondingOpInitiated id') ctx3)))"

subsection \<open>The unbonding queue\<close>

definition GetUBDQueueTimeSlice :: "Context \<Rightarrow> time \<Rightarrow> DVPair list" where
  "GetUBDQueueTimeSlice ctx timestamp =
     (case map_of (ubdQueue ctx) timestamp of None \<Rightarrow> [] | Some pairs \<Rightarrow> pairs)"

definition SetUBDQueueTimeSlice :: "Context \<Rightarrow> time \<Rightarrow> DVPair list \<Rightarrow> Context" where
  "SetUBDQueueTimeSlice ctx timestamp keys =
     ctx\<lparr>ubdQueue := AList.update timestamp keys (ubdQueue ctx)\<rparr>"

definition InsertUBDQueue :: "Context \<Rightarrow> UnbondingDelegation \<Rightarrow> time \<Rightarrow> Context" where
  "InsertUBDQueue ctx ubd completionTime =
     (let dvPair = (DelegatorAddress ubd, ValidatorAddress ubd);
          timeSlice = GetUBDQueueTimeSlice ctx completionTime
      in if length timeSlice = 0
         then SetUBDQueueTimeSlice ctx completionTime [dvPair]
         else SetUBDQueueTimeSlice ctx completionTime (timeSlice @ [dvPair]))"

text \<open>
  Modelled from the spec: the ordered cursor of the store over the time buckets (the
  store and the time key encoding are not under src/): the buckets from the queue prefix
  to the inclusive upper bound \<open>endTime\<close>, each key once, in ascending timestamp order.
\<close>

definition queueIterator :: "(time \<times> 'a) list \<Rightarrow> time \<Rightarrow> (time \<times> 'a) list" where
  "queueIterator q endTime =
     concat (map (\<lambda>t. case map_of q t of None \<Rightarrow> [] | Some v \<Rightarrow> [(t, v)])
                 (sort (remdups (filter (\<lambda>t. t \<le> endTime) (map fst q)))))"

definition UBDQueueIterator :: "Context \<Rightarrow> time \<Rightarrow> (time \<times> DVPair list) list" where
  "UBDQueueIterator ctx endTime = queueIterator (ubdQueue ctx) endTime"

fun DequeueAllMatureUBDQueue_loop ::
    "(time \<times> DVPair list) list \<Rightarrow> Context \<Rightarrow> DVPair list \<Rightarrow> DVPair list \<times> Context" where
  "DequeueAllMatureUBDQueue_loop [] ctx matureUnbonds = (matureUnbonds, ctx)"
| "DequeueAllMatureUBDQueue_loop ((key, timeslice) # it) ctx matureUnbonds =
     DequeueAllMatureUBDQueue_loop it
       (ctx\<lparr>ubdQueue := AList.delete key (ubdQueue ctx)\<rparr>)
       (matureUnbonds @ timeslice)"

text \<open>The iterator is opened on the time of the block header; \<open>currTime\<close> is not read.\<close>

definition DequeueAllMatureUBDQueue :: "Context \<Rightarrow> time \<Rightarrow> DVPair list \<times> Context" where
  "DequeueAllMatureUBDQueue ctx currTime =
     DequeueAllMatureUBDQueue_loop (UBDQueueIterator ctx (BlockTime ctx)) ctx []"

subsection \<open>Completing unbonding delegations\<close>

text \<open>
  The block \<^verbatim>\<open>if !balance.IsZero() { ... UndelegateCoinsFromModuleToAccount ... }\<close>:
  the undelegation is tracked only when the balance is non-zero.
\<close>

definition releaseBalance :: "Context \<Rightarrow> address \<Rightarrow> int \<Rightarrow> error + Context" where
  "releaseBalance ctx delegatorAddress balance =
     (if balance \<noteq> 0
      then (case NewCoin balance of
              Inl e \<Rightarrow> Inl e
            | Inr amt \<Rightarrow> UndelegateCoinsFromModuleToAccount ctx delegatorAddress amt)
      else Inr ctx)"

text \<open>Set the unbonding delegation or remove it if there are no more entries.\<close>

definition SetOrRemoveUnbondingDelegation ::
    "Context \<Rightarrow> UnbondingDelegation \<Rightarrow> error + Context" where
  "SetOrRemoveUnbondingDelegation ctx ubd =
     (if length (Entries ubd) = 0
      then RemoveUnbondingDelegation ctx ubd
      else SetUnbondingDelegation ctx ubd)"

text \<open>
  The loop of \<^verbatim>\<open>CompleteUnbonding\<close> over the slice \<open>s\<close> of the entries. \<^verbatim>\<open>entry\<close> is
  the pointer \<^verbatim>\<open>&ubd.Entries[i]\<close>: maturity and the hold are read through it before
  \<^verbatim>\<open>RemoveEntry\<close>, the balance after it. After a removal \<^verbatim>\<open>i--\<close> and the \<^verbatim>\<open>i++\<close> of the
  loop leave \<open>i\<close> as it is.
\<close>

function CompleteUnbonding_loop ::
    "time \<Rightarrow> address \<Rightarrow> UnbondingDelegationEntry slice \<Rightarrow> nat \<Rightarrow> Context \<Rightarrow> int
      \<Rightarrow> (error + UnbondingDelegationEntry slice \<times> int) \<times> Context" where
  "CompleteUnbonding_loop ctxTime delegatorAddress s i ctx balances =
     (if i < snd s
      then
        (if IsMature (fst s ! i) ctxTime \<and> \<not> OnHold (fst s ! i)
         then
           (case RemoveEntry s i of
              None \<Rightarrow> (Inl Panic, ctx)
            | Some s' \<Rightarrow>
                (case releaseBalance ctx delegatorAddress (Balance (fst s' ! i)) of
                   Inl e \<Rightarrow> (Inl e, ctx)
                 | Inr ctx' \<Rightarrow>
                     CompleteUnbonding_loop ctxTime delegatorAddress s' i ctx'
                       (balances + Balance (fst s' ! i))))
         else CompleteUnbonding_loop ctxTime delegatorAddress s (Suc i) ctx balances)
      else (Inr (s, balances), ctx))"
  by pat_completeness auto
termination
  by (relation "measure (\<lambda>(ctxTime, delegatorAddress, s, i, ctx, balances). snd s + (snd s - i))")
     (auto simp: RemoveEntry_def split: prod.splits if_splits)

declare CompleteUnbonding_loop.simps [simp del]

definition CompleteUnbonding ::
    "Context \<Rightarrow> address \<Rightarrow> address \<Rightarrow> (error + int) \<times> Context" where
  "CompleteUnbonding ctx delAddr valAddr =
     (case GetUnbondingDelegation ctx delAddr valAddr of
        None \<Rightarrow> (Inl ErrNoUnbondingDelegation, ctx)
      | Some ubd \<Rightarrow>
          (case AccAddressFromBech32 (DelegatorAddress ubd) of
             None \<Rightarrow> (Inl ErrBech32, ctx)
           | Some delegatorAddress \<Rightarrow>
               (case CompleteUnbonding_loop (BlockTime ctx) delegatorAddress
                       (slice_of (Entries ubd)) 0 ctx 0 of
                  (Inl e, ctx1) \<Rightarrow> (Inl e, ctx1)
                | (Inr (s, balances), ctx1) \<Rightarrow>
                    (case SetOrRemoveUnbondingDelegation ctx1 (ubd\<lparr>Entries := elems s\<rparr>) of
                       Inl e \<Rightarrow> (Inl e, ctx1)
                     | Inr ctx2 \<Rightarrow> (Inr balances, ctx2)))))"

subsection \<open>The hold protocol on unbonding delegation entries\<close>

text \<open>The index of the first element that satisfies \<open>P\<close>, as the \<^verbatim>\<open>range\<close> loops find it.\<close>

fun arrayIndex :: "('a \<Rightarrow> bool) \<Rightarrow> 'a list \<Rightarrow> nat option" where
  "arrayIndex P [] = None"
| "arrayIndex P (x # xs) = (if P x then Some 0 else map_option Suc (arrayIndex P xs))"

definition unbondingDelegationEntryArrayIndex ::
    "UnbondingDelegation \<Rightarrow> 64 word \<Rightarrow> nat option" where
  "unbondingDelegationEntryArrayIndex ubd id' = arrayIndex (\<lambda>entry. Id entry = id') (Entries ubd)"

definition PutUnbondingDelegationEntryOnHold ::
    "Context \<Rightarrow> 64 word \<Rightarrow> (error + bool) \<times> Context" where
  "PutUnbondingDelegationEntryOnHold ctx id' =
     (case GetUnbondingDelegationByUnbondingOpId ctx id' of
        Inl e \<Rightarrow> (Inl e, ctx)
      | Inr None \<Rightarrow> (Inr False, ctx)
      | Inr (Some ubd) \<Rightarrow>
          (case unbondingDelegationEntryArrayIndex ubd id' of
             None \<Rightarrow> (Inr False, ctx)
           | Some i \<Rightarrow>
               (case SetUnbondingDelegation ctx
                       (ubd\<lparr>Entries := (Entries ubd)[i := (Entries ubd ! i)\<lparr>OnHold := True\<rparr>]\<rparr>) of
                  Inl e \<Rightarrow> (Inl e, ctx)
                | Inr ctx1 \<Rightarrow> (Inr True, ctx1))))"

text \<open>
  The result is the pair \<^verbatim>\<open>(found, err)\<close> of the source; a panic is reported as the
  error \<open>Panic\<close>.
\<close>

definition UnbondingDelegationCanComplete_finish ::
    "Context \<Rightarrow> UnbondingDelegation \<Rightarrow> (bool \<times> error option) \<times> Context" where
  "UnbondingDelegationCanComplete_finish ctx ubd =
     (case SetOrRemoveUnbondingDelegation ctx ubd of
        Inl e \<Rightarrow> ((False, Some e), ctx)
      | Inr ctx1 \<Rightarrow> ((True, None), ctx1))"

definition UnbondingDelegationCanComplete ::
    "Context \<Rightarrow> 64 word \<Rightarrow> (bool \<times> error option) \<times> Context" where
  "UnbondingDelegationCanComplete ctx id' =
     (case GetUnbondingDelegationByUnbondingOpId ctx id' of
        Inl e \<Rightarrow> ((False, Some e), ctx)
      | Inr None \<Rightarrow> ((False, None), ctx)
      | Inr (Some ubd) \<Rightarrow>
          (case unbondingDelegationEntryArrayIndex ubd id' of
             None \<Rightarrow> ((False, None), ctx)
           | Some i \<Rightarrow>
               if \<not> IsMature (Entries ubd ! i) (BlockTime ctx)
               then UnbondingDelegationCanComplete_finish ctx
                      (ubd\<lparr>Entries := (Entries ubd)[i := (Entries ubd ! i)\<lparr>OnHold := False\<rparr>]\<rparr>)
               else
                 (case AccAddressFromBech32 (DelegatorAddress ubd) of
                    None \<Rightarrow> ((True, Some ErrBech32), ctx)
                  | Some delegatorAddress \<Rightarrow>
                      (case RemoveEntry (slice_of (Entries ubd)) i of
                         None \<Rightarrow> ((False, Some Panic), ctx)
                       | Some s \<Rightarrow>
                           (case index s i of
                              None \<Rightarrow> ((False, Some Panic), ctx)
                            | Some entry \<Rightarrow>
                                (let ctx1 = DeleteUBDByUnbondingOpIndex ctx (Id entry)
                                 in case releaseBalance ctx1 delegatorAddress (Balance entry) of
                                      Inl e \<Rightarrow> ((False, Some e), ctx1)
                                    | Inr ctx2 \<Rightarrow>
                                        UnbondingDelegationCanComplete_finish ctx2
                                          (ubd\<lparr>Entries := elems s\<rparr>)))))))"

subsection \<open>Redelegations\<close>

definition GetRedelegation ::
    "Context \<Rightarrow> address \<Rightarrow> address \<Rightarrow> address \<Rightarrow> Redelegation option" where
  "GetRedelegation ctx delAddr valSrcAddr valDstAddr =
     map_of (reds ctx) (delAddr, valSrcAddr, valDstAddr)"

text \<open>
  As for unbonding delegations. Modelled from the spec: the codec
  (\<^verbatim>\<open>MustUnmarshalRED\<close>, package types) is not under src/; the value under the key of an
  unbonding delegation is taken not to decode as a redelegation, a panic.
\<close>

definition GetRedelegationByUnbondingOpId ::
    "Context \<Rightarrow> 64 word \<Rightarrow> error + Redelegation option" where
  "GetRedelegationByUnbondingOpId ctx id' =
     (case map_of (unbondingOpIndex ctx) id' of
        None \<Rightarrow> Inr None
      | Some (REDKey d s t) \<Rightarrow> Inr (map_of (reds ctx) (d, s, t))
      | Some (UBDKey d v) \<Rightarrow>
          (case map_of (ubds ctx) (d, v) of None \<Rightarrow> Inr None | Some _ \<Rightarrow> Inl Panic))"

text \<open>The three addresses of a redelegation, decoded; a malformed one is a panic.\<close>

definition redelegationAddresses :: "Redelegation \<Rightarrow> (address \<times> address \<times> address) option" where
  "redelegationAddresses red =
     (case AccAddressFromBech32 (DelegatorAddress_R red) of
        None \<Rightarrow> None
      | Some delAddr \<Rightarrow>
          (case ValAddressFromBech32 (ValidatorSrcAddress red) of
             None \<Rightarrow> None
           | Some valSrcAddr \<Rightarrow>
               (case ValAddressFromBech32 (ValidatorDstAddress red) of
                  None \<Rightarrow> None
                | Some valDstAddr \<Rightarrow> Some (delAddr, valSrcAddr, valDstAddr))))"

definition SetREDByUnbondingOpIndex ::
    "Context \<Rightarrow> Redelegation \<Rightarrow> 64 word \<Rightarrow> error + Context" where
  "SetREDByUnbondingOpIndex ctx red id' =
     (case redelegationAddresses red of
        None \<Rightarrow> Inl Panic
      | Some (delAddr, valSrcAddr, valDstAddr) \<Rightarrow>
          Inr (ctx\<lparr>unbondingOpIndex :=
                 AList.update id' (REDKey delAddr valSrcAddr valDstAddr) (unbondingOpIndex ctx)\<rparr>))"

definition DeleteREDByUnbondingOpIndex :: "Context \<Rightarrow> 64 word \<Rightarrow> Context" where
  "DeleteREDByUnbondingOpIndex ctx id' =
     ctx\<lparr>unbondingOpIndex := AList.delete id' (unbondingOpIndex ctx)\<rparr>"

text \<open>The prefix iterator over the by-destination index is valid when a key has the prefix.\<close>

definition HasReceivingRedelegation :: "Context \<Rightarrow> address \<Rightarrow> address \<Rightarrow> bool" where
  "HasReceivingRedelegation ctx delAddr valDstAddr =
     list_ex (\<lambda>(d, s, t). d = delAddr \<and> t = valDstAddr) (redsByValDstIndex ctx)"

definition HasMaxRedelegationEntries ::
    "Context \<Rightarrow> address \<Rightarrow> address \<Rightarrow> address \<Rightarrow> bool" where
  "HasMaxRedelegationEntries ctx delegatorAddr validatorSrcAddr validatorDstAddr =
     (case GetRedelegation ctx delegatorAddr validatorSrcAddr validatorDstAddr of
        None \<Rightarrow> False
      | Some red \<Rightarrow> length (Entries_R red) \<ge> unat (MaxEntries ctx))"

definition SetRedelegation :: "Context \<Rightarrow> Redelegation \<Rightarrow> error + Context" where
  "SetRedelegation ctx red =
     (case redelegationAddresses red of
        None \<Rightarrow> Inl Panic
      | Some key \<Rightarrow>
          Inr (ctx\<lparr>reds := AList.update key red (reds ctx),
                   redsByValSrcIndex := List.insert key (redsByValSrcIndex ctx),
                   redsByValDstIndex := List.insert key (redsByValDstIndex ctx)\<rparr>))"

definition RemoveRedelegation :: "Context \<Rightarrow> Redelegation \<Rightarrow> error + Context" where
  "RemoveRedelegation ctx red =
     (case redelegationAddresses red of
        None \<Rightarrow> Inl Panic
      | Some key \<Rightarrow>
          Inr (ctx\<lparr>reds := AList.delete key (reds ctx),
                   redsByValSrcIndex := removeAll key (redsByValSrcIndex ctx),
                   redsByValDstIndex := removeAll key (redsByValDstIndex ctx)\<rparr>))"

text \<open>
  Modelled from the spec: \<^verbatim>\<open>NewRedelegation\<close> and \<^verbatim>\<open>AddEntry\<close> of a redelegation (package
  types, not under src/): a record with a single entry when absent, a new entry appended
  when present. The keeper does not hand the operation ID to either, so the entry holds
  the zero value of the field; a new entry is not on hold.
\<close>

definition NewRedelegationEntry :: "int \<Rightarrow> time \<Rightarrow> int \<Rightarrow> Dec \<Rightarrow> RedelegationEntry" where
  "NewRedelegationEntry creationHeight minTime balance sharesDst =
     \<lparr>CreationHeight_R = creationHeight, CompletionTime_R = minTime,
      InitialBalance_R = balance, SharesDst = sharesDst, Id_R = 0, OnHold_R = False\<rparr>"

definition NewRedelegation ::
    "address \<Rightarrow> address \<Rightarrow> address \<Rightarrow> int \<Rightarrow> time \<Rightarrow> int \<Rightarrow> Dec \<Rightarrow> Redelegation" where
  "NewRedelegation delegatorAddr validatorSrcAddr validatorDstAddr
       creationHeight minTime balance sharesDst =
     \<lparr>DelegatorAddress_R = AccBech32 delegatorAddr,
      ValidatorSrcAddress = ValBech32 validatorSrcAddr,
      ValidatorDstAddress = ValBech32 validatorDstAddr,
      Entries_R = [NewRedelegationEntry creationHeight minTime balance sharesDst]\<rparr>"

definition AddEntry_R :: "Redelegation \<Rightarrow> int \<Rightarrow> time \<Rightarrow> int \<Rightarrow> Dec \<Rightarrow> Redelegation" where
  "AddEntry_R red creationHeight minTime balance sharesDst =
     red\<lparr>Entries_R := Entries_R red @ [NewRedelegationEntry creationHeight minTime balance sharesDst]\<rparr>"

definition SetRedelegationEntry ::
    "Context \<Rightarrow> address \<Rightarrow> address \<Rightarrow> address \<Rightarrow> int \<Rightarrow> time \<Rightarrow> int \<Rightarrow> Dec \<Rightarrow> Dec
      \<Rightarrow> (error + Redelegation) \<times> Context" where
  "SetRedelegationEntry ctx delegatorAddr validatorSrcAddr validatorDstAddr
       creationHeight minTime balance sharesSrc sharesDst =
     (let found = GetRedelegation ctx delegatorAddr validatorSrcAddr validatorDstAddr;
          (id', ctx1) = IncrementUnbondingOpId ctx;
          red = (case found of
                   Some red0 \<Rightarrow> AddEntry_R red0 creationHeight minTime balance sharesDst
                 | None \<Rightarrow> NewRedelegation delegatorAddr validatorSrcAddr validatorDstAddr
                             creationHeight minTime balance sharesDst)
      in case SetRedelegation ctx1 red of
           Inl e \<Rightarrow> (Inl e, ctx1)
         | Inr ctx2 \<Rightarrow>
             (case SetREDByUnbondingOpIndex ctx2 red id' of
                Inl e \<Rightarrow> (Inl e, ctx2)
              | Inr ctx3 \<Rightarrow> (Inr red, callHook (AfterUnbondingOpInitiated id') ctx3)))"

subsection \<open>The redelegation queue\<close>

definition GetRedelegationQueueTimeSlice :: "Context \<Rightarrow> time \<Rightarrow> DVVTriplet list" where
  "GetRedelegationQueueTimeSlice ctx timestamp =
     (case map_of (redQueue ctx) timestamp of None \<Rightarrow> [] | Some triplets \<Rightarrow> triplets)"

definition SetRedelegationQueueTimeSlice :: "Context \<Rightarrow> time \<Rightarrow> DVVTriplet list \<Rightarrow> Context" where
  "SetRedelegationQueueTimeSlice ctx timestamp keys =
     ctx\<lparr>redQueue := AList.update timestamp keys (redQueue ctx)\<rparr>"

definition InsertRedelegationQueue :: "Context \<Rightarrow> Redelegation \<Rightarrow> time \<Rightarrow> Context" where
  "InsertRedelegationQueue ctx red completionTime =
     (let timeSlice = GetRedelegationQueueTimeSlice ctx completionTime;
          dvvTriplet = (DelegatorAddress_R red, ValidatorSrcAddress red, ValidatorDstAddress red)
      in if length timeSlice = 0
         then SetRedelegationQueueTimeSlice ctx completionTime [dvvTriplet]
         else SetRedelegationQueueTimeSlice ctx completionTime (timeSlice @ [dvvTriplet]))"

definition RedelegationQueueIterator :: "Context \<Rightarrow> time \<Rightarrow> (time \<times> DVVTriplet list) list" where
  "RedelegationQueueIterator ctx endTime = queueIterator (redQueue ctx) endTime"

fun DequeueAllMatureRedelegationQueue_loop ::
    "(time \<times> DVVTriplet list) list \<Rightarrow> Context \<Rightarrow> DVVTriplet list
      \<Rightarrow> DVVTriplet list \<times> Context" where
  "DequeueAllMatureRedelegationQueue_loop [] ctx matureRedelegations =
     (matureRedelegations, ctx)"
| "DequeueAllMatureRedelegationQueue_loop ((key, timeslice) # it) ctx matureRedelegations =
     DequeueAllMatureRedelegationQueue_loop it
       (ctx\<lparr>redQueue := AList.delete key (redQueue ctx)\<rparr>)
       (matureRedelegations @ timeslice)"

definition DequeueAllMatureRedelegationQueue ::
    "Context \<Rightarrow> time \<Rightarrow> DVVTriplet list \<times> Context" where
  "DequeueAllMatureRedelegationQueue ctx currTime =
     DequeueAllMatureRedelegationQueue_loop
       (RedelegationQueueIterator ctx (BlockTime ctx)) ctx []"

subsection \<open>The hold protocol on redelegation entries and the dispatch on the ID\<close>

definition redelegationEntryArrayIndex :: "Redelegation \<Rightarrow> 64 word \<Rightarrow> nat option" where
  "redelegationEntryArrayIndex red id' = arrayIndex (\<lambda>entry. Id_R entry = id') (Entries_R red)"

definition PutRedelegationEntryOnHold :: "Context \<Rightarrow> 64 word \<Rightarrow> (error + bool) \<times> Context" where
  "PutRedelegationEntryOnHold ctx id' =
     (case GetRedelegationByUnbondingOpId ctx id' of
        Inl e \<Rightarrow> (Inl e, ctx)
      | Inr None \<Rightarrow> (Inr False, ctx)
      | Inr (Some red) \<Rightarrow>
          (case redelegationEntryArrayIndex red id' of
             None \<Rightarrow> (Inr False, ctx)
           | Some i \<Rightarrow>
               (case SetRedelegation ctx
                       (red\<lparr>Entries_R := (Entries_R red)[i := (Entries_R red ! i)\<lparr>OnHold_R := True\<rparr>]\<rparr>) of
                  Inl e \<Rightarrow> (Inl e, ctx)
                | Inr ctx1 \<Rightarrow> (Inr True, ctx1))))"

definition RedelegationCanComplete ::
    "Context \<Rightarrow> 64 word \<Rightarrow> (bool \<times> error option) \<times> Context" where
  "RedelegationCanComplete ctx id' =
     (case GetRedelegationByUnbondingOpId ctx id' of
        Inl e \<Rightarrow> ((False, Some e), ctx)
      | Inr None \<Rightarrow> ((False, None), ctx)
      | Inr (Some red) \<Rightarrow>
          (case redelegationEntryArrayIndex red id' of
             None \<Rightarrow> ((False, None), ctx)
           | Some i \<Rightarrow>
               if \<not> IsMature_R (Entries_R red ! i) (BlockTime ctx)
               then ((True, None), ctx)
               else
                 (case RemoveEntry (slice_of (Entries_R red)) i of
                    None \<Rightarrow> ((False, Some Panic), ctx)
                  | Some s \<Rightarrow>
                      (case index s i of
                         None \<Rightarrow> ((False, Some Panic), ctx)
                       | Some entry \<Rightarrow>
                           (let ctx1 = DeleteREDByUnbondingOpIndex ctx (Id_R entry);
                                red1 = red\<lparr>Entries_R := elems s\<rparr>
                            in case (if length (Entries_R red1) = 0
                                     then RemoveRedelegation ctx1 red1
                                     else SetRedelegation ctx1 red1) of
                                 Inl e \<Rightarrow> ((False, Some e), ctx1)
                               | Inr ctx2 \<Rightarrow> ((True, None), ctx2))))))"

definition PutUnbondingOpOnHold :: "Context \<Rightarrow> 64 word \<Rightarrow> (error + bool) \<times> Context" where
  "PutUnbondingOpOnHold ctx id' =
     (case GetUnbondingDelegationByUnbondingOpId ctx id' of
        Inl e \<Rightarrow> (Inl e, ctx)
      | Inr (Some _) \<Rightarrow> PutUnbondingDelegationEntryOnHold ctx id'
      | Inr None \<Rightarrow>
          (case GetRedelegationByUnbondingOpId ctx id' of
             Inl e \<Rightarrow> (Inl e, ctx)
           | Inr (Some _) \<Rightarrow> PutRedelegationEntryOnHold ctx id'
           | Inr None \<Rightarrow> (Inr False, ctx)))"

definition UnbondingOpCanComplete ::
    "Context \<Rightarrow> 64 word \<Rightarrow> (bool \<times> error option) \<times> Context" where
  "UnbondingOpCanComplete ctx id' =
     (case GetUnbondingDelegationByUnbondingOpId ctx id' of
        Inl e \<Rightarrow> ((False, Some e), ctx)
      | Inr (Some _) \<Rightarrow> UnbondingDelegationCanComplete ctx id'
      | Inr None \<Rightarrow>
          (case GetRedelegationByUnbondingOpId ctx id' of
             Inl e \<Rightarrow> ((False, Some e), ctx)
           | Inr (Some _) \<Rightarrow> RedelegationCanComplete ctx id'
           | Inr None \<Rightarrow> ((False, None), ctx)))"

subsection \<open>The validator registry and the share accounting\<close>

text \<open>
  Modelled from the spec: the validator registry (\<^verbatim>\<open>GetValidator\<close>, \<^verbatim>\<open>SetValidator\<close>,
  \<^verbatim>\<open>mustGetValidator\<close>, \<^verbatim>\<open>RemoveValidator\<close>, \<^verbatim>\<open>jailValidator\<close> of the keeper and
  \<^verbatim>\<open>GetOperator\<close>, \<^verbatim>\<open>InvalidExRate\<close>, \<^verbatim>\<open>TokensFromShares\<close> of package types are not
  under src/): get, set and remove by operator address; a malformed operator address and
  a missing record in \<^verbatim>\<open>mustGetValidator\<close> are panics; jailing sets the jailed flag of
  a validator that is not jailed yet; a validator that is removed is removed entirely.
\<close>

definition GetValidator :: "Context \<Rightarrow> address \<Rightarrow> Validator option" where
  "GetValidator ctx valAddr = map_of (validators ctx) valAddr"

definition GetOperator :: "Validator \<Rightarrow> address option" where
  "GetOperator v = ValAddressFromBech32 (OperatorAddress v)"

definition SetValidator :: "Context \<Rightarrow> Validator \<Rightarrow> error + Context" where
  "SetValidator ctx v =
     (case GetOperator v of
        None \<Rightarrow> Inl Panic
      | Some operator \<Rightarrow> Inr (ctx\<lparr>validators := AList.update operator v (validators ctx)\<rparr>))"

definition mustGetValidator :: "Context \<Rightarrow> address \<Rightarrow> error + Validator" where
  "mustGetValidator ctx valAddr =
     (case GetValidator ctx valAddr of None \<Rightarrow> Inl Panic | Some v \<Rightarrow> Inr v)"

definition RemoveValidator :: "Context \<Rightarrow> address \<Rightarrow> Context" where
  "RemoveValidator ctx valAddr = ctx\<lparr>validators := AList.delete valAddr (validators ctx)\<rparr>"

definition jailValidator :: "Context \<Rightarrow> Validator \<Rightarrow> error + Context" where
  "jailValidator ctx v =
     (if Jailed v then Inl Panic else SetValidator ctx (v\<lparr>Jailed := True\<rparr>))"

definition IsBonded :: "Validator \<Rightarrow> bool" where
  "IsBonded v \<longleftrightarrow> Status v = Bonded"

definition IsUnbonded :: "Validator \<Rightarrow> bool" where
  "IsUnbonded v \<longleftrightarrow> Status v = Unbonded"

definition IsUnbonding :: "Validator \<Rightarrow> bool" where
  "IsUnbonding v \<longleftrightarrow> Status v = Unbonding"

text \<open>
  Modelled from the spec: the exchange rate is poisoned with zero shares and non-zero
  tokens, or the other way round.
\<close>

definition InvalidExRate :: "Validator \<Rightarrow> bool" where
  "InvalidExRate v \<longleftrightarrow>
     (DelegatorShares v = 0 \<and> Tokens v \<noteq> 0) \<or> (DelegatorShares v \<noteq> 0 \<and> Tokens v = 0)"

text \<open>Division of integers that truncates toward zero, and that rounds half to even.\<close>

definition tdiv :: "int \<Rightarrow> int \<Rightarrow> int" where
  "tdiv a b = sgn a * sgn b * (\<bar>a\<bar> div \<bar>b\<bar>)"

definition rdiv :: "int \<Rightarrow> int \<Rightarrow> int" where
  "rdiv a b =
     (let q = \<bar>a\<bar> div \<bar>b\<bar>; r = \<bar>a\<bar> mod \<bar>b\<bar>
      in sgn a * sgn b *
           (if 2 * r < \<bar>b\<bar> then q
            else if \<bar>b\<bar> < 2 * r then q + 1
            else if even q then q else q + 1))"

definition TruncateInt :: "Dec \<Rightarrow> int" where
  "TruncateInt d = tdiv d Precision"

text \<open>
  Modelled from the spec: \<^verbatim>\<open>tokensFromShares\<close>, the proportional conversion
  \<open>shares * tokens / delegatorShares\<close> rounded at the last place of the decimal; a
  division by zero is a panic.
\<close>

definition TokensFromShares :: "Validator \<Rightarrow> Dec \<Rightarrow> error + Dec" where
  "TokensFromShares v shares =
     (if DelegatorShares v = 0 then Inl Panic
      else Inr (rdiv (shares * Tokens v * Precision) (DelegatorShares v)))"

text \<open>
  Modelled from the spec: \<^verbatim>\<open>removeTokensAndShares\<close> (\<^verbatim>\<open>RemoveValidatorTokensAndShares\<close>
  of the keeper, not under src/) removes the shares and the proportional tokens,
  truncated toward zero, from the validator aggregate and returns the validator and the
  tokens; removing all the shares takes all the tokens; tokens below zero are a panic.
\<close>

definition RemoveDelShares :: "Validator \<Rightarrow> Dec \<Rightarrow> error + Validator \<times> int" where
  "RemoveDelShares v delShares =
     (let remainingShares = DelegatorShares v - delShares
      in if remainingShares = 0
         then Inr (v\<lparr>Tokens := 0, DelegatorShares := remainingShares\<rparr>, Tokens v)
         else
           (case TokensFromShares v delShares of
              Inl e \<Rightarrow> Inl e
            | Inr t \<Rightarrow>
                (let issuedTokens = TruncateInt t
                 in if Tokens v - issuedTokens < 0 then Inl Panic
                    else Inr (v\<lparr>Tokens := Tokens v - issuedTokens,
                                DelegatorShares := remainingShares\<rparr>, issuedTokens))))"

definition RemoveValidatorTokensAndShares ::
    "Context \<Rightarrow> Validator \<Rightarrow> Dec \<Rightarrow> error + Validator \<times> int \<times> Context" where
  "RemoveValidatorTokensAndShares ctx validator sharesToRemove =
     (case RemoveDelShares validator sharesToRemove of
        Inl e \<Rightarrow> Inl e
      | Inr (v, removedTokens) \<Rightarrow>
          (case SetValidator ctx v of
             Inl e \<Rightarrow> Inl e
           | Inr ctx1 \<Rightarrow> Inr (v, removedTokens, ctx1)))"

text \<open>
  Modelled from the spec: \<^verbatim>\<open>addTokensAndShares\<close> (\<^verbatim>\<open>AddValidatorTokensAndShares\<close> of the
  keeper, not under src/) converts the tokens to shares at the exchange rate of the
  validator, one share a token for a validator without shares, adds both to the
  aggregate and returns the shares issued; a conversion that fails is a panic.
\<close>

definition AddTokensFromDel :: "Validator \<Rightarrow> int \<Rightarrow> error + Validator \<times> Dec" where
  "AddTokensFromDel v amount =
     (if DelegatorShares v = 0
      then Inr (v\<lparr>Tokens := Tokens v + amount,
                  DelegatorShares := DelegatorShares v + amount * Precision\<rparr>,
                amount * Precision)
      else if Tokens v = 0 then Inl Panic
      else
        (let issuedShares = tdiv (DelegatorShares v * amount) (Tokens v)
         in Inr (v\<lparr>Tokens := Tokens v + amount,
                    DelegatorShares := DelegatorShares v + issuedShares\<rparr>, issuedShares)))"

definition AddValidatorTokensAndShares ::
    "Context \<Rightarrow> Validator \<Rightarrow> int \<Rightarrow> error + Validator \<times> Dec \<times> Context" where
  "AddValidatorTokensAndShares ctx validator tokensToAdd =
     (case AddTokensFromDel validator tokensToAdd of
        Inl e \<Rightarrow> Inl e
      | Inr (v, addedShares) \<Rightarrow>
          (case SetValidator ctx v of
             Inl e \<Rightarrow> Inl e
           | Inr ctx1 \<Rightarrow> Inr (v, addedShares, ctx1)))"

subsection \<open>Delegations\<close>

definition GetDelegation :: "Context \<Rightarrow> address \<Rightarrow> address \<Rightarrow> Delegation option" where
  "GetDelegation ctx delAddr valAddr = map_of (delegations ctx) (delAddr, valAddr)"

text \<open>
  Modelled from the spec: \<^verbatim>\<open>NewDelegation\<close> and \<^verbatim>\<open>GetValidatorAddr\<close> of a delegation
  (package types, not under src/); a malformed validator address is a panic.
\<close>

definition NewDelegation :: "address \<Rightarrow> address \<Rightarrow> Dec \<Rightarrow> Delegation" where
  "NewDelegation delegatorAddr validatorAddr shares =
     \<lparr>DelegatorAddress_D = AccBech32 delegatorAddr,
      ValidatorAddress_D = ValBech32 validatorAddr, Shares = shares\<rparr>"

definition GetValidatorAddr :: "Delegation \<Rightarrow> address option" where
  "GetValidatorAddr d = ValAddressFromBech32 (ValidatorAddress_D d)"

definition SetDelegation :: "Context \<Rightarrow> Delegation \<Rightarrow> error + Context" where
  "SetDelegation ctx delegation =
     (case AccAddressFromBech32 (DelegatorAddress_D delegation) of
        None \<Rightarrow> Inl Panic
      | Some delegatorAddress \<Rightarrow>
          (case GetValidatorAddr delegation of
             None \<Rightarrow> Inl Panic
           | Some valAddr \<Rightarrow>
               Inr (ctx\<lparr>delegations :=
                      AList.update (delegatorAddress, valAddr) delegation (delegations ctx)\<rparr>)))"

definition RemoveDelegation :: "Context \<Rightarrow> Delegation \<Rightarrow> error + Context" where
  "RemoveDelegation ctx delegation =
     (case AccAddressFromBech32 (DelegatorAddress_D delegation) of
        None \<Rightarrow> Inl Panic
      | Some delegatorAddress \<Rightarrow>
          (case GetValidatorAddr delegation of
             None \<Rightarrow> Inl Panic
           | Some valAddr \<Rightarrow>
               (let ctx1 = callHook (BeforeDelegationRemoved delegatorAddress valAddr) ctx
                in Inr (ctx1\<lparr>delegations :=
                         AList.delete (delegatorAddress, valAddr) (delegations ctx1)\<rparr>))))"

subsection \<open>Delegate\<close>

text \<open>The movement of the tokens in \<^verbatim>\<open>Delegate\<close>: from the account, or between the pools.\<close>

definition Delegate_transfer ::
    "Context \<Rightarrow> address \<Rightarrow> int \<Rightarrow> BondStatus \<Rightarrow> Validator \<Rightarrow> bool \<Rightarrow> error + Context" where
  "Delegate_transfer ctx delegatorAddress bondAmt tokenSrc validator subtractAccount =
     (if subtractAccount
      then
        (if tokenSrc = Bonded then Inl Panic
         else if IsBonded validator \<or> IsUnbonding validator \<or> IsUnbonded validator
         then
           (case NewCoin bondAmt of
              Inl e \<Rightarrow> Inl e
            | Inr coins \<Rightarrow>
                DelegateCoinsFromAccountToModule ctx delegatorAddress (IsBonded validator) coins)
         else Inl Panic)
      else
        (if tokenSrc = Bonded \<and> IsBonded validator then Inr ctx
         else if (tokenSrc = Unbonded \<or> tokenSrc = Unbonding) \<and> \<not> IsBonded validator then Inr ctx
         else if (tokenSrc = Unbonded \<or> tokenSrc = Unbonding) \<and> IsBonded validator
         then notBondedTokensToBonded ctx bondAmt
         else if tokenSrc = Bonded \<and> \<not> IsBonded validator
         then bondedTokensToNotBonded ctx bondAmt
         else Inl Panic))"

text \<open>Add the tokens to the validator, update the delegation and call the hook.\<close>

definition Delegate_store ::
    "Context \<Rightarrow> Delegation \<Rightarrow> address \<Rightarrow> Validator \<Rightarrow> int \<Rightarrow> (error + Dec) \<times> Context" where
  "Delegate_store ctx delegation delegatorAddress validator bondAmt =
     (case AddValidatorTokensAndShares ctx validator bondAmt of
        Inl e \<Rightarrow> (Inl e, ctx)
      | Inr (v, newShares, ctx1) \<Rightarrow>
          (let delegation1 = delegation\<lparr>Shares := Shares delegation + newShares\<rparr>
           in case SetDelegation ctx1 delegation1 of
                Inl e \<Rightarrow> (Inl e, ctx1)
              | Inr ctx2 \<Rightarrow>
                  (case GetValidatorAddr delegation1 of
                     None \<Rightarrow> (Inl Panic, ctx2)
                   | Some valAddr \<Rightarrow>
                       (Inr newShares,
                        callHook (AfterDelegationModified delegatorAddress valAddr) ctx2))))"

definition Delegate ::
    "Context \<Rightarrow> address \<Rightarrow> int \<Rightarrow> BondStatus \<Rightarrow> Validator \<Rightarrow> bool \<Rightarrow> (error + Dec) \<times> Context" where
  "Delegate ctx delAddr bondAmt tokenSrc validator subtractAccount =
     (if InvalidExRate validator then (Inl ErrDelegatorShareExRateInvalid, ctx)
      else
        (case GetOperator validator of
           None \<Rightarrow> (Inl Panic, ctx)
         | Some operator \<Rightarrow>
             (let found = GetDelegation ctx delAddr operator;
                  delegation = (case found of
                                  None \<Rightarrow> NewDelegation delAddr operator 0
                                | Some d \<Rightarrow> d);
                  ctx1 = (if found \<noteq> None
                          then callHook (BeforeDelegationSharesModified delAddr operator) ctx
                          else callHook (BeforeDelegationCreated delAddr operator) ctx)
              in case AccAddressFromBech32 (DelegatorAddress_D delegation) of
                   None \<Rightarrow> (Inl Panic, ctx1)
                 | Some delegatorAddress \<Rightarrow>
                     (case Delegate_transfer ctx1 delegatorAddress bondAmt tokenSrc validator
                             subtractAccount of
                        Inl e \<Rightarrow> (Inl e, ctx1)
                      | Inr ctx2 \<Rightarrow>
                          Delegate_store ctx2 delegation delegatorAddress validator bondAmt))))"

subsection \<open>Unbond\<close>

text \<open>
  If the delegator is the operator of the validator and undelegating will decrease the
  validator's self-delegation below their minimum, the validator is jailed and read
  again.
\<close>

definition Unbond_jail ::
    "Context \<Rightarrow> Validator \<Rightarrow> Delegation \<Rightarrow> bool \<Rightarrow> error + Validator \<times> Context" where
  "Unbond_jail ctx validator delegation isValidatorOperator =
     (if isValidatorOperator \<and> \<not> Jailed validator
      then
        (case TokensFromShares validator (Shares delegation) of
           Inl e \<Rightarrow> Inl e
         | Inr t \<Rightarrow>
             if TruncateInt t < MinSelfDelegation validator
             then
               (case jailValidator ctx validator of
                  Inl e \<Rightarrow> Inl e
                | Inr ctx1 \<Rightarrow>
                    (case GetOperator validator of
                       None \<Rightarrow> Inl Panic
                     | Some operator \<Rightarrow>
                         (case mustGetValidator ctx1 operator of
                            Inl e \<Rightarrow> Inl e
                          | Inr v \<Rightarrow> Inr (v, ctx1))))
             else Inr (validator, ctx))
      else Inr (validator, ctx))"

text \<open>Remove the delegation when its shares are zero, else set it and call the hook.\<close>

definition Unbond_store ::
    "Context \<Rightarrow> Delegation \<Rightarrow> address \<Rightarrow> error + Context" where
  "Unbond_store ctx delegation delegatorAddress =
     (if Shares delegation = 0
      then RemoveDelegation ctx delegation
      else
        (case SetDelegation ctx delegation of
           Inl e \<Rightarrow> Inl e
         | Inr ctx1 \<Rightarrow>
             (case GetValidatorAddr delegation of
                None \<Rightarrow> Inl Panic
              | Some valAddr \<Rightarrow>
                  Inr (callHook (AfterDelegationModified delegatorAddress valAddr) ctx1))))"

text \<open>Remove the shares and coins from the validator, and the validator when it is empty
  and unbonded.\<close>

definition Unbond_validator ::
    "Context \<Rightarrow> Validator \<Rightarrow> Dec \<Rightarrow> error + int \<times> Context" where
  "Unbond_validator ctx validator shares =
     (case RemoveValidatorTokensAndShares ctx validator shares of
        Inl e \<Rightarrow> Inl e
      | Inr (v, amount, ctx1) \<Rightarrow>
          if DelegatorShares v = 0 \<and> IsUnbonded v
          then
            (case GetOperator v of
               None \<Rightarrow> Inl Panic
             | Some operator \<Rightarrow> Inr (amount, RemoveValidator ctx1 operator))
          else Inr (amount, ctx1))"

definition Unbond :: "Context \<Rightarrow> address \<Rightarrow> address \<Rightarrow> Dec \<Rightarrow> (error + int) \<times> Context" where
  "Unbond ctx delAddr valAddr shares =
     (case GetDelegation ctx delAddr valAddr of
        None \<Rightarrow> (Inl ErrNoDelegatorForAddress, ctx)
      | Some delegation0 \<Rightarrow>
          (let ctx1 = callHook (BeforeDelegationSharesModified delAddr valAddr) ctx
           in if Shares delegation0 < shares then (Inl ErrNotEnoughDelegationShares, ctx1)
              else
                (case GetValidator ctx1 valAddr of
                   None \<Rightarrow> (Inl ErrNoValidatorFound, ctx1)
                 | Some validator \<Rightarrow>
                     (let delegation = delegation0\<lparr>Shares := Shares delegation0 - shares\<rparr>
                      in case AccAddressFromBech32 (DelegatorAddress_D delegation) of
                           None \<Rightarrow> (Inl ErrBech32, ctx1)
                         | Some delegatorAddress \<Rightarrow>
                             (case GetOperator validator of
                                None \<Rightarrow> (Inl Panic, ctx1)
                              | Some operator \<Rightarrow>
                                  (case Unbond_jail ctx1 validator delegation
                                          (delegatorAddress = operator) of
                                     Inl e \<Rightarrow> (Inl e, ctx1)
                                   | Inr (validator1, ctx2) \<Rightarrow>
                                       (case Unbond_store ctx2 delegation delegatorAddress of
                                          Inl e \<Rightarrow> (Inl e, ctx2)
                                        | Inr ctx3 \<Rightarrow>
                                            (case Unbond_validator ctx3 validator1 shares of
                                               Inl e \<Rightarrow> (Inl e, ctx3)
                                             | Inr (amount, ctx4) \<Rightarrow> (Inr amount, ctx4)))))))))"

subsection \<open>Undelegate\<close>

definition Undelegate :: "Context \<Rightarrow> address \<Rightarrow> address \<Rightarrow> Dec \<Rightarrow> (error + time) \<times> Context" where
  "Undelegate ctx delAddr valAddr sharesAmount =
     (case GetValidator ctx valAddr of
        None \<Rightarrow> (Inl ErrNoDelegatorForAddress, ctx)
      | Some validator \<Rightarrow>
          if HasMaxUnbondingDelegationEntries ctx delAddr valAddr
          then (Inl ErrMaxUnbondingDelegationEntries, ctx)
          else
            (case Unbond ctx delAddr valAddr sharesAmount of
               (Inl e, ctx1) \<Rightarrow> (Inl e, ctx1)
             | (Inr returnAmount, ctx1) \<Rightarrow>
                 (case (if IsBonded validator
                        then bondedTokensToNotBonded ctx1 returnAmount
                        else Inr ctx1) of
                    Inl e \<Rightarrow> (Inl e, ctx1)
                  | Inr ctx2 \<Rightarrow>
                      (let completionTime = BlockTime ctx2 + UnbondingTime ctx2
                       in case SetUnbondingDelegationEntry ctx2 delAddr valAddr
                                 (BlockHeight ctx2) completionTime returnAmount of
                            (Inl e, ctx3) \<Rightarrow> (Inl e, ctx3)
                          | (Inr ubd, ctx3) \<Rightarrow>
                              (Inr completionTime, InsertUBDQueue ctx3 ubd completionTime)))))"

subsection \<open>BeginRedelegation\<close>

text \<open>
  The completion time and height of a redelegation, and whether it is complete now,
  from the source validator as the store holds it when \<^verbatim>\<open>getBeginInfo\<close> is called.
\<close>

definition getBeginInfo :: "Context \<Rightarrow> address \<Rightarrow> error + time \<times> int \<times> bool" where
  "getBeginInfo ctx valSrcAddr =
     (case GetValidator ctx valSrcAddr of
        None \<Rightarrow> Inr (BlockTime ctx + UnbondingTime ctx, BlockHeight ctx, False)
      | Some validator \<Rightarrow>
          if IsBonded validator
          then Inr (BlockTime ctx + UnbondingTime ctx, BlockHeight ctx, False)
          else if IsUnbonded validator then Inr (0, 0, True)
          else if IsUnbonding validator
          then Inr (UnbondingTime_V validator, UnbondingHeight validator, False)
          else Inl Panic)"

definition BeginRedelegation ::
    "Context \<Rightarrow> address \<Rightarrow> address \<Rightarrow> address \<Rightarrow> Dec \<Rightarrow> (error + time) \<times> Context" where
  "BeginRedelegation ctx delAddr valSrcAddr valDstAddr sharesAmount =
     (if valSrcAddr = valDstAddr then (Inl ErrSelfRedelegation, ctx)
      else
        (case GetValidator ctx valDstAddr of
           None \<Rightarrow> (Inl ErrBadRedelegationDst, ctx)
         | Some dstValidator \<Rightarrow>
             (case GetValidator ctx valSrcAddr of
                None \<Rightarrow> (Inl ErrBadRedelegationDst, ctx)
              | Some srcValidator \<Rightarrow>
                  if HasReceivingRedelegation ctx delAddr valSrcAddr
                  then (Inl ErrTransitiveRedelegation, ctx)
                  else if HasMaxRedelegationEntries ctx delAddr valSrcAddr valDstAddr
                  then (Inl ErrMaxRedelegationEntries, ctx)
                  else
                    (case Unbond ctx delAddr valSrcAddr sharesAmount of
                       (Inl e, ctx1) \<Rightarrow> (Inl e, ctx1)
                     | (Inr returnAmount, ctx1) \<Rightarrow>
                         if returnAmount = 0 then (Inl ErrTinyRedelegationAmount, ctx1)
                         else
                           (case Delegate ctx1 delAddr returnAmount (Status srcValidator)
                                   dstValidator False of
                              (Inl e, ctx2) \<Rightarrow> (Inl e, ctx2)
                            | (Inr sharesCreated, ctx2) \<Rightarrow>
                                (case getBeginInfo ctx2 valSrcAddr of
                                   Inl e \<Rightarrow> (Inl e, ctx2)
                                 | Inr (completionTime, height, completeNow) \<Rightarrow>
                                     if completeNow then (Inr completionTime, ctx2)
                                     else
                                       (case SetRedelegationEntry ctx2 delAddr valSrcAddr valDstAddr
                                               height completionTime returnAmount sharesAmount
                                               sharesCreated of
                                          (Inl e, ctx3) \<Rightarrow> (Inl e, ctx3)
                                        | (Inr red, ctx3) \<Rightarrow>
                                            (Inr completionTime,
                                             InsertRedelegationQueue ctx3 red completionTime))))))))"

subsection \<open>Well-keyed stores\<close>

text \<open>
  The keeper writes a record under the key that the addresses inside the record decode
  to. A store is well-keyed when every record sits under that key.
\<close>

definition wellKeyed :: "Context \<Rightarrow> bool" where
  "wellKeyed ctx \<longleftrightarrow>
     list_all (\<lambda>(a, v). OperatorAddress v = ValBech32 a) (validators ctx) \<and>
     list_all (\<lambda>((d, a), x). DelegatorAddress_D x = AccBech32 d \<and> ValidatorAddress_D x = ValBech32 a)
       (delegations ctx) \<and>
     list_all (\<lambda>((d, a), x). DelegatorAddress x = AccBech32 d \<and> ValidatorAddress x = ValBech32 a)
       (ubds ctx) \<and>
     list_all (\<lambda>((d, a, b), x). DelegatorAddress_R x = AccBech32 d \<and>
                 ValidatorSrcAddress x = ValBech32 a \<and> ValidatorDstAddress x = ValBech32 b)
       (reds ctx)"

subsection \<open>What an operation leaves alone, and what a redelegation entry adds\<close>

text \<open>
  \<open>stakeOnly ctx ctx1\<close>: the context \<open>ctx1\<close> differs from \<open>ctx\<close> at most in the
  validators, the delegations, the bank and the notifications sent.
\<close>

definition stakeOnly :: "Context \<Rightarrow> Context \<Rightarrow> bool" where
  "stakeOnly ctx ctx1 \<longleftrightarrow>
     BlockTime ctx1 = BlockTime ctx \<and> BlockHeight ctx1 = BlockHeight ctx \<and>
     UnbondingTime ctx1 = UnbondingTime ctx \<and> MaxEntries ctx1 = MaxEntries ctx \<and>
     unbondingOpId ctx1 = unbondingOpId ctx \<and> unbondingOpIndex ctx1 = unbondingOpIndex ctx \<and>
     ubds ctx1 = ubds ctx \<and> ubdsByValIndex ctx1 = ubdsByValIndex ctx \<and>
     ubdQueue ctx1 = ubdQueue ctx \<and>
     reds ctx1 = reds ctx \<and> redsByValSrcIndex ctx1 = redsByValSrcIndex ctx \<and>
     redsByValDstIndex ctx1 = redsByValDstIndex ctx \<and> redQueue ctx1 = redQueue ctx"

text \<open>
  \<open>redelegationEntryCreated ctx ctx1 \<dots> completionTime height\<close>: the redelegation of
  the triple in \<open>ctx1\<close> holds the entries it held in \<open>ctx\<close> followed by one entry with
  the given completion time and creation height, and the bucket of the redelegation
  queue at the completion time has the triple as its new last element.
\<close>

definition redelegationEntryCreated ::
    "Context \<Rightarrow> Context \<Rightarrow> address \<Rightarrow> address \<Rightarrow> address \<Rightarrow> time \<Rightarrow> int \<Rightarrow> bool" where
  "redelegationEntryCreated ctx ctx1 delAddr valSrcAddr valDstAddr completionTime height \<longleftrightarrow>
     (case GetRedelegation ctx1 delAddr valSrcAddr valDstAddr of
        None \<Rightarrow> False
      | Some red \<Rightarrow>
          Entries_R red \<noteq> [] \<and>
          butlast (Entries_R red) =
            (case GetRedelegation ctx delAddr valSrcAddr valDstAddr of
               None \<Rightarrow> []
             | Some red0 \<Rightarrow> Entries_R red0) \<and>
          CompletionTime_R (last (Entries_R red)) = completionTime \<and>
          CreationHeight_R (last (Entries_R red)) = height) \<and>
     GetRedelegationQueueTimeSlice ctx1 completionTime =
       GetRedelegationQueueTimeSlice ctx completionTime @
         [(AccBech32 delAddr, ValBech32 valSrcAddr, ValBech32 valDstAddr)]"

subsection \<open>What the sweep of CompleteUnbonding keeps and what it reads\<close>

text \<open>
  Two descriptions of the loop of \<^verbatim>\<open>CompleteUnbonding\<close> on the list of entries, for the
  properties below; they are not functions of the source. An entry is kept unless it is
  mature and not on hold. For every entry that is not kept, the balance the loop reads
  is that of the entry after it, and its own when it is the last one.
\<close>

definition keepEntry :: "time \<Rightarrow> UnbondingDelegationEntry \<Rightarrow> bool" where
  "keepEntry t e \<longleftrightarrow> \<not> (IsMature e t \<and> \<not> OnHold e)"

fun balancesRead :: "time \<Rightarrow> UnbondingDelegationEntry list \<Rightarrow> int list" where
  "balancesRead t [] = []"
| "balancesRead t [e] = (if keepEntry t e then [] else [Balance e])"
| "balancesRead t (e # e' # es) =
     (if keepEntry t e then balancesRead t (e' # es)
      else Balance e' # balancesRead t (e' # es))"

subsection \<open>Example ledgers\<close>

text \<open>
  Block time 100, unbonding period 50, at most two entries a record. The delegator is
  \<open>[1]\<close>, the validators are \<open>[2]\<close> and \<open>[3]\<close>.
\<close>

definition emptyLedger :: Context where
  "emptyLedger =
     \<lparr>BlockTime = 100, BlockHeight = 7, UnbondingTime = 50, MaxEntries = 2,
      unbondingOpId = None, delegations = [], ubds = [], ubdsByValIndex = [],
      reds = [], redsByValSrcIndex = [], redsByValDstIndex = [],
      ubdQueue = [], redQueue = [], unbondingOpIndex = [], validators = [],
      bank = \<lparr>BondedPool = 1100, NotBondedPool = 100, Accounts = [], Released = []\<rparr>,
      hooks = []\<rparr>"

text \<open>Entry 1 completed at time 90 with balance 10; entry 2 completes at 200 with balance 20.\<close>

definition entryA :: UnbondingDelegationEntry where
  "entryA = \<lparr>CreationHeight = 1, CompletionTime = 90, InitialBalance = 10, Balance = 10,
             Id = 1, OnHold = False\<rparr>"

definition entryB :: UnbondingDelegationEntry where
  "entryB = \<lparr>CreationHeight = 2, CompletionTime = 200, InitialBalance = 20, Balance = 20,
             Id = 2, OnHold = False\<rparr>"

definition ubdLedger :: "UnbondingDelegationEntry list \<Rightarrow> Context" where
  "ubdLedger es =
     emptyLedger\<lparr>
       unbondingOpId := Some 2,
       ubds := [(([1], [2]),
                 \<lparr>DelegatorAddress = AccBech32 [1], ValidatorAddress = ValBech32 [2],
                  Entries = es\<rparr>)],
       ubdsByValIndex := [([1], [2])],
       ubdQueue := [(200, [(AccBech32 [1], ValBech32 [2])]), (90, [(AccBech32 [1], ValBech32 [2])])],
       unbondingOpIndex := [(1, UBDKey [1] [2]), (2, UBDKey [1] [2])]\<rparr>"

definition rentryA :: RedelegationEntry where
  "rentryA = \<lparr>CreationHeight_R = 1, CompletionTime_R = 90, InitialBalance_R = 10,
              SharesDst = 10 * Precision, Id_R = 1, OnHold_R = False\<rparr>"

definition rentryB :: RedelegationEntry where
  "rentryB = \<lparr>CreationHeight_R = 2, CompletionTime_R = 200, InitialBalance_R = 20,
              SharesDst = 20 * Precision, Id_R = 2, OnHold_R = False\<rparr>"

definition redLedger :: "RedelegationEntry list \<Rightarrow> Context" where
  "redLedger es =
     emptyLedger\<lparr>
       unbondingOpId := Some 2,
       reds := [(([1], [2], [3]),
                 \<lparr>DelegatorAddress_R = AccBech32 [1], ValidatorSrcAddress = ValBech32 [2],
                  ValidatorDstAddress = ValBech32 [3], Entries_R = es\<rparr>)],
       redsByValSrcIndex := [([1], [2], [3])],
       redsByValDstIndex := [([1], [2], [3])],
       redQueue := [(200, [(AccBech32 [1], ValBech32 [2], ValBech32 [3])]),
                    (90, [(AccBech32 [1], ValBech32 [2], ValBech32 [3])])],
       unbondingOpIndex := [(1, REDKey [1] [2] [3]), (2, REDKey [1] [2] [3])]\<rparr>"

text \<open>A validator with one share a token, and a ledger where \<open>[1]\<close> holds all the 100
  shares of validator \<open>[2]\<close>, which has the given status; validator \<open>[3]\<close> is bonded.\<close>

definition exampleValidator :: "address \<Rightarrow> BondStatus \<Rightarrow> int \<Rightarrow> Validator" where
  "exampleValidator a st t =
     \<lparr>OperatorAddress = ValBech32 a, Jailed = False, Status = st, Tokens = t,
      DelegatorShares = t * Precision, UnbondingHeight = 3, UnbondingTime_V = 120,
      MinSelfDelegation = 1\<rparr>"

definition exampleDelegation :: Delegation where
  "exampleDelegation =
     \<lparr>DelegatorAddress_D = AccBech32 [1], ValidatorAddress_D = ValBech32 [2],
      Shares = 100 * Precision\<rparr>"

definition stakeLedger :: "BondStatus \<Rightarrow> Context" where
  "stakeLedger st =
     emptyLedger\<lparr>
       delegations := [(([1], [2]), exampleDelegation)],
       validators := [([2], exampleValidator [2] st 100), ([3], exampleValidator [3] Bonded 1000)]\<rparr>"

text \<open>
  The ledger that \<^verbatim>\<open>SetDelegation\<close> leaves when it writes the example delegation to the
  empty ledger: the delegation is in the store and no validator is.
\<close>

definition orphanLedger :: Context where
  "orphanLedger = emptyLedger\<lparr>delegations := [(([1], [2]), exampleDelegation)]\<rparr>"

section \<open>Properties\<close>

lemmas ubd_defs =
  GetUnbondingDelegationByUnbondingOpId_def unbondingDelegationEntryArrayIndex_def
  IsMature_def RemoveEntry_def slice_of_def index_def elems_def releaseBalance_def NewCoin_def
  UndelegateCoinsFromModuleToAccount_def SetOrRemoveUnbondingDelegation_def
  SetUnbondingDelegation_def RemoveUnbondingDelegation_def DeleteUBDByUnbondingOpIndex_def
  UnbondingDelegationCanComplete_finish_def GetUnbondingDelegation_def GetBalance_def

lemmas red_defs =
  GetRedelegationByUnbondingOpId_def redelegationEntryArrayIndex_def IsMature_R_def
  redelegationAddresses_def SetRedelegation_def RemoveRedelegation_def
  DeleteREDByUnbondingOpIndex_def GetRedelegation_def

lemmas example_defs =
  emptyLedger_def entryA_def entryB_def ubdLedger_def rentryA_def rentryB_def
  redLedger_def exampleValidator_def exampleDelegation_def stakeLedger_def

subsection \<open>Guards that fail before any write\<close>

text \<open>
  Claim C7. \<^verbatim>\<open>BeginRedelegation\<close> with equal source and destination validator addresses
  fails with \<^verbatim>\<open>ErrSelfRedelegation\<close>, for every delegator, share amount and context, and
  the context it leaves is the context it was given: nothing was written.
\<close>

theorem BeginRedelegation_self_redelegation:
  "BeginRedelegation ctx delAddr valAddr valAddr sharesAmount = (Inl ErrSelfRedelegation, ctx)"
  by (simp add: BeginRedelegation_def)

text \<open>
  Claim C10. When no validator record exists for the validator address, \<^verbatim>\<open>Undelegate\<close>
  fails with \<^verbatim>\<open>ErrNoDelegatorForAddress\<close>, which is not \<^verbatim>\<open>ErrNoValidatorFound\<close>, and
  leaves the context as it was: no shares were unbonded.
\<close>

theorem Undelegate_without_validator:
  "GetValidator ctx valAddr = None \<Longrightarrow>
   Undelegate ctx delAddr valAddr sharesAmount = (Inl ErrNoDelegatorForAddress, ctx) \<and>
   fst (Undelegate ctx delAddr valAddr sharesAmount) \<noteq> Inl ErrNoValidatorFound"
  by (simp add: Undelegate_def)

theorem Undelegate_without_validator_witness:
  "GetValidator (ubdLedger [entryA]) [2] = None \<and>
   Undelegate (ubdLedger [entryA]) [1] [2] (5 * Precision) =
     (Inl ErrNoDelegatorForAddress, ubdLedger [entryA])"
  using Undelegate_without_validator [of "ubdLedger [entryA]" "[2]" "[1]" "5 * Precision"]
  by (simp add: GetValidator_def example_defs)

subsection \<open>Completion by operation ID\<close>

text \<open>
  Claim C1, evaluated. The record of \<open>[1]\<close> with \<open>[2]\<close> holds the mature entry 1 only:
  \<^verbatim>\<open>UnbondingDelegationCanComplete\<close> removes the entry and then reads
  \<^verbatim>\<open>ubd.Entries[0]\<close> of the emptied slice, a panic; nothing is released and the record is
  not removed. With the mature entry 1 (balance 10) before entry 2 (balance 20), the
  call returns found, having removed entry 1, deleted the index key of entry 2 and
  released the balance 20 of entry 2.
\<close>

theorem UnbondingDelegationCanComplete_reads_after_removal:
  "UnbondingDelegationCanComplete (ubdLedger [entryA]) 1 =
     ((False, Some Panic), ubdLedger [entryA]) \<and>
   UnbondingDelegationCanComplete (ubdLedger [entryA, entryB]) 1 =
     ((True, None),
      (ubdLedger [entryB])\<lparr>
        unbondingOpIndex := [(1, UBDKey [1] [2])],
        bank := \<lparr>BondedPool = 1100, NotBondedPool = 80, Accounts = [([1], 20)],
                 Released = [([1], 20)]\<rparr>\<rparr>)"
  by (simp add: UnbondingDelegationCanComplete_def ubd_defs example_defs)

text \<open>
  Claim C4, evaluated. Entry 1 is mature and is followed by entry 2. After
  \<^verbatim>\<open>UnbondingDelegationCanComplete\<close> and after \<^verbatim>\<open>RedelegationCanComplete\<close> for the ID 1
  the record holds entry 2 only, and the reverse index holds the key of the removed
  entry 1 and no key for entry 2, which remains: the key deleted is that of the entry
  found at the index after the removal.
\<close>

theorem CanComplete_deletes_index_key_of_next_entry:
  "(case UnbondingDelegationCanComplete (ubdLedger [entryA, entryB]) 1 of
      (r, ctx) \<Rightarrow>
        r = (True, None) \<and>
        map_option (map Id \<circ> Entries) (GetUnbondingDelegation ctx [1] [2]) = Some [2] \<and>
        map fst (unbondingOpIndex ctx) = [1]) \<and>
   (case RedelegationCanComplete (redLedger [rentryA, rentryB]) 1 of
      (r, ctx) \<Rightarrow>
        r = (True, None) \<and>
        map_option (map Id_R \<circ> Entries_R) (GetRedelegation ctx [1] [2] [3]) = Some [2] \<and>
        map fst (unbondingOpIndex ctx) = [1])"
  by (simp add: UnbondingDelegationCanComplete_def RedelegationCanComplete_def
        ubd_defs red_defs example_defs)

subsection \<open>The sweep of CompleteUnbonding\<close>

text \<open>
  Claim C2, evaluated. \<^verbatim>\<open>CompleteUnbonding\<close> on the record with the mature entry 1
  (balance 10) before the immature entry 2 (balance 20) removes entry 1 and keeps entry
  2, and releases 20 to the delegator: the balance is read through the pointer to slot 0
  after the removal has moved entry 2 into that slot.
\<close>

theorem CompleteUnbonding_releases_shifted_balance:
  "CompleteUnbonding (ubdLedger [entryA, entryB]) [1] [2] =
     (Inr 20,
      (ubdLedger [entryB])\<lparr>
        bank := \<lparr>BondedPool = 1100, NotBondedPool = 80, Accounts = [([1], 20)],
                 Released = [([1], 20)]\<rparr>\<rparr>)"
  by (simp add: CompleteUnbonding_def CompleteUnbonding_loop.simps ubd_defs example_defs)

text \<open>
  The sweep in general, for a well-keyed record and a call that returns its balances.
  The record is left with exactly the entries that are kept, in their order, and is
  removed when none is kept: an entry that moves into the slot of a removed entry is
  examined in its turn, consecutive mature entries are all removed. The releases made
  are the non-zero balances read, each read after the removal from the slot of the
  removed entry.
\<close>

lemma CompleteUnbonding_loop_done:
  "\<not> i < snd s \<Longrightarrow> CompleteUnbonding_loop t a s i ctx bal = (Inr (s, bal), ctx)"
  by (subst CompleteUnbonding_loop.simps) simp

lemma CompleteUnbonding_loop_keep:
  "i < snd s \<Longrightarrow> \<not> (IsMature (fst s ! i) t \<and> \<not> OnHold (fst s ! i)) \<Longrightarrow>
   CompleteUnbonding_loop t a s i ctx bal = CompleteUnbonding_loop t a s (Suc i) ctx bal"
  by (subst CompleteUnbonding_loop.simps) auto

lemma CompleteUnbonding_loop_remove:
  "i < snd s \<Longrightarrow> IsMature (fst s ! i) t \<and> \<not> OnHold (fst s ! i) \<Longrightarrow>
   RemoveEntry s i = Some s1 \<Longrightarrow>
   CompleteUnbonding_loop t a s i ctx bal =
     (case releaseBalance ctx a (Balance (fst s1 ! i)) of
        Inl e \<Rightarrow> (Inl e, ctx)
      | Inr ctx1 \<Rightarrow> CompleteUnbonding_loop t a s1 i ctx1 (bal + Balance (fst s1 ! i)))"
  by (subst CompleteUnbonding_loop.simps) simp

lemma RemoveEntry_elems:
  assumes "i < snd s" and "snd s \<le> length (fst s)"
  shows "\<exists>s1. RemoveEntry s i = Some s1 \<and> snd s1 \<le> length (fst s1) \<and>
           elems s1 = take i (elems s) @ drop (Suc i) (elems s)"
proof -
  obtain arr n where s: "s = (arr, n)" by (cases s)
  let ?arr' = "take i arr @ drop (Suc i) (take n arr) @ drop (n - 1) arr"
  from assms s have i: "i < n" and n: "n \<le> length arr" by simp_all
  have r: "RemoveEntry s i = Some (?arr', n - 1)"
    using i s by (simp add: RemoveEntry_def)
  have l: "length (take i arr @ drop (Suc i) (take n arr)) = n - 1"
    using i n by simp
  have len: "length ?arr' = length arr"
    using i n by simp
  have "take (n - 1) ?arr' = take i arr @ drop (Suc i) (take n arr)"
    using l by (metis append.assoc append_eq_conv_conj)
  moreover have "take i (take n arr) = take i arr"
    using i by (simp add: min_def)
  ultimately have "elems (?arr', n - 1) = take i (elems s) @ drop (Suc i) (elems s)"
    by (simp add: elems_def s)
  with r len n show ?thesis by simp
qed

lemma CompleteUnbonding_loop_entries:
  "snd s \<le> length (fst s) \<Longrightarrow>
   CompleteUnbonding_loop t a s i ctx bal = (Inr (s', bal'), ctx') \<Longrightarrow>
   elems s' = take i (elems s) @ filter (keepEntry t) (drop i (elems s))"
proof (induction t a s i ctx bal rule: CompleteUnbonding_loop.induct)
  case (1 ctxTime delegatorAddress s i ctx balances)
  note inv = "1.prems"(1)
  have len: "length (elems s) = snd s"
    using inv by (simp add: elems_def)
  show ?case
  proof (cases "i < snd s")
    case False
    with "1.prems"(2) have "s' = s"
      by (simp add: CompleteUnbonding_loop_done)
    with False len show ?thesis by simp
  next
    case True
    then have nth: "elems s ! i = fst s ! i"
      by (simp add: elems_def)
    show ?thesis
    proof (cases "IsMature (fst s ! i) ctxTime \<and> \<not> OnHold (fst s ! i)")
      case False
      from "1.prems"(2) have run:
        "CompleteUnbonding_loop ctxTime delegatorAddress s (Suc i) ctx balances =
           (Inr (s', bal'), ctx')"
        by (simp add: CompleteUnbonding_loop_keep [OF True False])
      from "1.IH"(2) [OF True False inv run]
      have "elems s' = take (Suc i) (elems s) @ filter (keepEntry ctxTime) (drop (Suc i) (elems s))" .
      moreover have "keepEntry ctxTime (elems s ! i)"
        using False nth by (simp add: keepEntry_def)
      moreover have "i < length (elems s)"
        using True len by simp
      ultimately show ?thesis
        by (simp add: take_Suc_conv_app_nth Cons_nth_drop_Suc [symmetric])
    next
      case mature: True
      from RemoveEntry_elems [OF True inv] obtain s1 where
        r: "RemoveEntry s i = Some s1" and inv1: "snd s1 \<le> length (fst s1)" and
        el: "elems s1 = take i (elems s) @ drop (Suc i) (elems s)"
        by blast
      from "1.prems"(2) obtain ctx1 where
        rel: "releaseBalance ctx delegatorAddress (Balance (fst s1 ! i)) = Inr ctx1" and
        run: "CompleteUnbonding_loop ctxTime delegatorAddress s1 i ctx1
                (balances + Balance (fst s1 ! i)) = (Inr (s', bal'), ctx')"
        by (auto simp: CompleteUnbonding_loop_remove [OF True mature r] split: sum.splits)
      from "1.IH"(1) [OF True mature r rel inv1 run]
      have "elems s' = take i (elems s1) @ filter (keepEntry ctxTime) (drop i (elems s1))" .
      moreover have "\<not> keepEntry ctxTime (elems s ! i)"
        using mature nth by (simp add: keepEntry_def)
      moreover have "i < length (elems s)"
        using True len by simp
      ultimately show ?thesis
        using el by (simp add: Cons_nth_drop_Suc [symmetric] min_def)
    qed
  qed
qed

lemma releaseBalance_frame:
  "releaseBalance ctx a b = Inr ctx1 \<Longrightarrow> ctx1 = ctx\<lparr>bank := bank ctx1\<rparr>"
  by (auto simp: releaseBalance_def UndelegateCoinsFromModuleToAccount_def NewCoin_def
        split: if_splits sum.splits)

lemma CompleteUnbonding_loop_frame:
  "CompleteUnbonding_loop t a s i ctx bal = (r, ctx') \<Longrightarrow> ctx' = ctx\<lparr>bank := bank ctx'\<rparr>"
proof (induction t a s i ctx bal rule: CompleteUnbonding_loop.induct)
  case (1 ctxTime delegatorAddress s i ctx balances)
  show ?case
  proof (cases "i < snd s")
    case False
    with "1.prems" show ?thesis by (simp add: CompleteUnbonding_loop_done)
  next
    case True
    show ?thesis
    proof (cases "IsMature (fst s ! i) ctxTime \<and> \<not> OnHold (fst s ! i)")
      case False
      from "1.prems" have "CompleteUnbonding_loop ctxTime delegatorAddress s (Suc i) ctx balances = (r, ctx')"
        by (simp add: CompleteUnbonding_loop_keep [OF True False])
      from "1.IH"(2) [OF True False this] show ?thesis .
    next
      case mature: True
      from True obtain s1 where r: "RemoveEntry s i = Some s1"
        by (cases s) (simp add: RemoveEntry_def)
      show ?thesis
      proof (cases "releaseBalance ctx delegatorAddress (Balance (fst s1 ! i))")
        case (Inl e)
        with "1.prems" have "ctx' = ctx"
          by (simp add: CompleteUnbonding_loop_remove [OF True mature r])
        then show ?thesis by simp
      next
        case (Inr ctx1)
        with "1.prems" have run:
          "CompleteUnbonding_loop ctxTime delegatorAddress s1 i ctx1
             (balances + Balance (fst s1 ! i)) = (r, ctx')"
          by (simp add: CompleteUnbonding_loop_remove [OF True mature r])
        from "1.IH"(1) [OF True mature r Inr run] have a: "ctx' = ctx1\<lparr>bank := bank ctx'\<rparr>" .
        from releaseBalance_frame [OF Inr] have b: "ctx1 = ctx\<lparr>bank := bank ctx1\<rparr>" .
        have "ctx1\<lparr>bank := bank ctx'\<rparr> = ctx\<lparr>bank := bank ctx'\<rparr>"
          by (subst b) simp
        with a show ?thesis by simp
      qed
    qed
  qed
qed

lemma CompleteUnbonding_remaining_entries:
  assumes rec: "GetUnbondingDelegation ctx delAddr valAddr = Some ubd"
      and keyed: "DelegatorAddress ubd = AccBech32 delAddr" "ValidatorAddress ubd = ValBech32 valAddr"
      and ok: "CompleteUnbonding ctx delAddr valAddr = (Inr balances, ctx')"
  shows "GetUnbondingDelegation ctx' delAddr valAddr =
           (if filter (keepEntry (BlockTime ctx)) (Entries ubd) = [] then None
            else Some (ubd\<lparr>Entries := filter (keepEntry (BlockTime ctx)) (Entries ubd)\<rparr>))"
proof -
  obtain r ctx1 where l: "CompleteUnbonding_loop (BlockTime ctx) delAddr (slice_of (Entries ubd)) 0 ctx 0 = (r, ctx1)"
    by (cases "CompleteUnbonding_loop (BlockTime ctx) delAddr (slice_of (Entries ubd)) 0 ctx 0")
  from ok rec keyed l obtain s where rs: "r = Inr (s, balances)" and
    fin: "SetOrRemoveUnbondingDelegation ctx1 (ubd\<lparr>Entries := elems s\<rparr>) = Inr ctx'"
    by (auto simp: CompleteUnbonding_def split: sum.splits prod.splits)
  have "snd (slice_of (Entries ubd)) \<le> length (fst (slice_of (Entries ubd)))"
    by (simp add: slice_of_def)
  from CompleteUnbonding_loop_entries [OF this l [unfolded rs]]
  have el: "elems s = filter (keepEntry (BlockTime ctx)) (Entries ubd)"
    by (simp add: slice_of_def elems_def)
  from fin keyed show ?thesis
    unfolding el
    by (auto simp: SetOrRemoveUnbondingDelegation_def SetUnbondingDelegation_def
          RemoveUnbondingDelegation_def GetUnbondingDelegation_def
          AList.update_conv' AList.delete_conv' split: if_splits)
qed


lemma RemoveEntry_nth:
  assumes "i < snd s" and "snd s \<le> length (fst s)" and "RemoveEntry s i = Some s1"
  shows "fst s1 ! i = (if Suc i < snd s then fst s ! Suc i else fst s ! i)"
proof -
  obtain arr n where s: "s = (arr, n)" by (cases s)
  from assms s have i: "i < n" and n: "n \<le> length arr" by simp_all
  from assms(3) i s
  have s1: "fst s1 = take i arr @ drop (Suc i) (take n arr) @ drop (n - 1) arr"
    by (auto simp: RemoveEntry_def)
  show ?thesis
  proof (cases "Suc i < n")
    case True
    with n s1 s show ?thesis by (simp add: nth_append)
  next
    case False
    with i have "n - 1 = i" by arith
    with False i n s1 s show ?thesis by (simp add: nth_append)
  qed
qed

lemma releaseBalance_Released:
  "releaseBalance ctx a b = Inr ctx1 \<Longrightarrow>
   Released (bank ctx1) = Released (bank ctx) @ (if b = 0 then [] else [(a, b)])"
  by (auto simp: releaseBalance_def UndelegateCoinsFromModuleToAccount_def NewCoin_def
        split: if_splits sum.splits)

lemma balancesRead_drop_keep:
  "i < length xs \<Longrightarrow> keepEntry t (xs ! i) \<Longrightarrow>
   balancesRead t (drop i xs) = balancesRead t (drop (Suc i) xs)"
proof -
  assume i: "i < length xs" and k: "keepEntry t (xs ! i)"
  have d: "drop i xs = xs ! i # drop (Suc i) xs"
    using i by (simp add: Cons_nth_drop_Suc)
  show ?thesis
    using k by (cases "drop (Suc i) xs") (simp_all add: d)
qed

lemma balancesRead_drop_remove:
  "i < length xs \<Longrightarrow> \<not> keepEntry t (xs ! i) \<Longrightarrow>
   balancesRead t (drop i xs) =
     Balance (if Suc i < length xs then xs ! Suc i else xs ! i) # balancesRead t (drop (Suc i) xs)"
proof -
  assume i: "i < length xs" and k: "\<not> keepEntry t (xs ! i)"
  have d: "drop i xs = xs ! i # drop (Suc i) xs"
    using i by (simp add: Cons_nth_drop_Suc)
  show ?thesis
  proof (cases "Suc i < length xs")
    case True
    then have "drop (Suc i) xs = xs ! Suc i # drop (Suc (Suc i)) xs"
      by (simp add: Cons_nth_drop_Suc)
    with k d True show ?thesis by simp
  next
    case False
    with k d show ?thesis by simp
  qed
qed

lemma CompleteUnbonding_loop_Released:
  "snd s \<le> length (fst s) \<Longrightarrow>
   CompleteUnbonding_loop t a s i ctx bal = (Inr (s', bal'), ctx') \<Longrightarrow>
   Released (bank ctx') =
     Released (bank ctx) @ map (Pair a) (filter (\<lambda>b. b \<noteq> 0) (balancesRead t (drop i (elems s))))"
proof (induction t a s i ctx bal rule: CompleteUnbonding_loop.induct)
  case (1 ctxTime delegatorAddress s i ctx balances)
  note inv = "1.prems"(1)
  have len: "length (elems s) = snd s"
    using inv by (simp add: elems_def)
  show ?case
  proof (cases "i < snd s")
    case False
    with "1.prems"(2) have "ctx' = ctx"
      by (simp add: CompleteUnbonding_loop_done)
    with False len show ?thesis by simp
  next
    case True
    then have nth: "elems s ! i = fst s ! i"
      by (simp add: elems_def)
    have il: "i < length (elems s)"
      using True len by simp
    show ?thesis
    proof (cases "IsMature (fst s ! i) ctxTime \<and> \<not> OnHold (fst s ! i)")
      case False
      from "1.prems"(2) have run:
        "CompleteUnbonding_loop ctxTime delegatorAddress s (Suc i) ctx balances =
           (Inr (s', bal'), ctx')"
        by (simp add: CompleteUnbonding_loop_keep [OF True False])
      have "keepEntry ctxTime (elems s ! i)"
        using False nth by (simp add: keepEntry_def)
      from "1.IH"(2) [OF True False inv run] balancesRead_drop_keep [OF il this]
      show ?thesis by simp
    next
      case mature: True
      from RemoveEntry_elems [OF True inv] obtain s1 where
        r: "RemoveEntry s i = Some s1" and inv1: "snd s1 \<le> length (fst s1)" and
        el: "elems s1 = take i (elems s) @ drop (Suc i) (elems s)"
        by blast
      from "1.prems"(2) obtain ctx1 where
        rel: "releaseBalance ctx delegatorAddress (Balance (fst s1 ! i)) = Inr ctx1" and
        run: "CompleteUnbonding_loop ctxTime delegatorAddress s1 i ctx1
                (balances + Balance (fst s1 ! i)) = (Inr (s', bal'), ctx')"
        by (auto simp: CompleteUnbonding_loop_remove [OF True mature r] split: sum.splits)
      have rd: "fst s1 ! i = (if Suc i < length (elems s) then elems s ! Suc i else elems s ! i)"
        using RemoveEntry_nth [OF True inv r] len True by (auto simp: elems_def)
      have nk: "\<not> keepEntry ctxTime (elems s ! i)"
        using mature nth by (simp add: keepEntry_def)
      have dr: "drop i (elems s1) = drop (Suc i) (elems s)"
        using el il by (simp add: min_def)
      from "1.IH"(1) [OF True mature r rel inv1 run]
      have "Released (bank ctx') =
              Released (bank ctx1) @
              map (Pair delegatorAddress)
                (filter (\<lambda>b. b \<noteq> 0) (balancesRead ctxTime (drop (Suc i) (elems s))))"
        by (simp add: dr)
      with releaseBalance_Released [OF rel] balancesRead_drop_remove [OF il nk] rd
      show ?thesis by simp
    qed
  qed
qed

lemma CompleteUnbonding_Released:
  assumes rec: "GetUnbondingDelegation ctx delAddr valAddr = Some ubd"
      and keyed: "DelegatorAddress ubd = AccBech32 delAddr" "ValidatorAddress ubd = ValBech32 valAddr"
      and ok: "CompleteUnbonding ctx delAddr valAddr = (Inr balances, ctx')"
  shows "Released (bank ctx') =
           Released (bank ctx) @
           map (Pair delAddr) (filter (\<lambda>b. b \<noteq> 0) (balancesRead (BlockTime ctx) (Entries ubd)))"
proof -
  obtain r ctx1 where l: "CompleteUnbonding_loop (BlockTime ctx) delAddr (slice_of (Entries ubd)) 0 ctx 0 = (r, ctx1)"
    by (cases "CompleteUnbonding_loop (BlockTime ctx) delAddr (slice_of (Entries ubd)) 0 ctx 0")
  from ok rec keyed l obtain s where rs: "r = Inr (s, balances)" and
    fin: "SetOrRemoveUnbondingDelegation ctx1 (ubd\<lparr>Entries := elems s\<rparr>) = Inr ctx'"
    by (auto simp: CompleteUnbonding_def split: sum.splits prod.splits)
  have "snd (slice_of (Entries ubd)) \<le> length (fst (slice_of (Entries ubd)))"
    by (simp add: slice_of_def)
  from CompleteUnbonding_loop_Released [OF this l [unfolded rs]]
  have "Released (bank ctx1) =
          Released (bank ctx) @
          map (Pair delAddr) (filter (\<lambda>b. b \<noteq> 0) (balancesRead (BlockTime ctx) (Entries ubd)))"
    by (simp add: slice_of_def elems_def)
  moreover from fin have "bank ctx' = bank ctx1"
    by (auto simp: SetOrRemoveUnbondingDelegation_def SetUnbondingDelegation_def
          RemoveUnbondingDelegation_def split: if_splits option.splits)
  ultimately show ?thesis by simp
qed

subsection \<open>The hold protocol\<close>

lemma arrayIndex_SomeD: "arrayIndex P xs = Some i \<Longrightarrow> i < length xs \<and> P (xs ! i)"
  by (induction xs arbitrary: i) (auto split: if_splits)

lemma arrayIndex_map_cong: "map P xs = map Q ys \<Longrightarrow> arrayIndex P xs = arrayIndex Q ys"
proof (induction xs arbitrary: ys)
  case Nil
  then show ?case by simp
next
  case (Cons x xs)
  then obtain y ys' where ys: "ys = y # ys'" by (cases ys) auto
  with Cons.prems have "P x = Q y" "map P xs = map Q ys'" by auto
  with Cons.IH [of ys'] ys show ?case by simp
qed

lemma arrayIndex_set_OnHold:
  "arrayIndex (\<lambda>entry. Id entry = k) (es[i := (es ! i)\<lparr>OnHold := b\<rparr>]) =
   arrayIndex (\<lambda>entry. Id entry = k) es"
proof (cases "i < length es")
  case True
  have "map (\<lambda>entry. Id entry = k) (es[i := (es ! i)\<lparr>OnHold := b\<rparr>]) =
        (map (\<lambda>entry. Id entry = k) es)[i := (Id (es ! i) = k)]"
    by (simp add: map_update)
  also have "\<dots> = map (\<lambda>entry. Id entry = k) es"
    using True by (simp add: list_update_same_conv)
  finally show ?thesis by (rule arrayIndex_map_cong)
next
  case False
  then show ?thesis by (simp add: list_update_beyond not_less)
qed

lemma UnbondingDelegationCanComplete_finish_nonempty:
  "Entries u \<noteq> [] \<Longrightarrow> DelegatorAddress u = AccBech32 d \<Longrightarrow> ValidatorAddress u = ValBech32 v \<Longrightarrow>
   UnbondingDelegationCanComplete_finish ctx u =
     ((True, None),
      ctx\<lparr>ubds := AList.update (d, v) u (ubds ctx),
          ubdsByValIndex := List.insert (d, v) (ubdsByValIndex ctx)\<rparr>)"
  by (simp add: UnbondingDelegationCanComplete_finish_def
        SetOrRemoveUnbondingDelegation_def SetUnbondingDelegation_def)

lemma RemoveEntry_slice_of:
  assumes "i < length xs"
  shows "\<exists>s. RemoveEntry (slice_of xs) i = Some s \<and>
             elems s = take i xs @ drop (Suc i) xs \<and>
             index s i = (if Suc i < length xs then Some (xs ! Suc i) else None)"
proof -
  let ?s = "(take i xs @ drop (Suc i) xs @ drop (length xs - 1) xs, length xs - 1)"
  have r: "RemoveEntry (slice_of xs) i = Some ?s"
    using assms by (simp add: RemoveEntry_def slice_of_def)
  have len: "length (take i xs @ drop (Suc i) xs) = length xs - 1"
    using assms by simp
  have e: "elems ?s = take i xs @ drop (Suc i) xs"
    unfolding elems_def fst_conv snd_conv
    using len by (metis append.assoc append_eq_conv_conj)
  have x: "index ?s i = (if Suc i < length xs then Some (xs ! Suc i) else None)"
  proof (cases "Suc i < length xs")
    case True
    then have "(take i xs @ drop (Suc i) xs @ drop (length xs - 1) xs) ! i = xs ! Suc i"
      by (simp add: nth_append)
    with True show ?thesis by (simp add: index_def)
  next
    case False
    with assms have "\<not> i < length xs - 1" by arith
    with False show ?thesis by (simp add: index_def)
  qed
  from r e x show ?thesis by blast
qed

lemma PutUnbondingOpOnHold_entry:
  assumes "map_of (unbondingOpIndex ctx) k = Some (UBDKey d v)"
      and "map_of (ubds ctx) (d, v) = Some ubd"
      and "DelegatorAddress ubd = AccBech32 d" and "ValidatorAddress ubd = ValBech32 v"
      and "unbondingDelegationEntryArrayIndex ubd k = Some i"
  shows "PutUnbondingOpOnHold ctx k =
           (Inr True,
            ctx\<lparr>ubds := AList.update (d, v)
                    (ubd\<lparr>Entries := (Entries ubd)[i := (Entries ubd ! i)\<lparr>OnHold := True\<rparr>]\<rparr>) (ubds ctx),
                ubdsByValIndex := List.insert (d, v) (ubdsByValIndex ctx)\<rparr>)"
  using assms
  by (simp add: PutUnbondingOpOnHold_def PutUnbondingDelegationEntryOnHold_def
        GetUnbondingDelegationByUnbondingOpId_def SetUnbondingDelegation_def)

lemma UnbondingOpCanComplete_immature:
  assumes "map_of (unbondingOpIndex ctx) k = Some (UBDKey d v)"
      and "map_of (ubds ctx) (d, v) = Some ubd"
      and "DelegatorAddress ubd = AccBech32 d" and "ValidatorAddress ubd = ValBech32 v"
      and "unbondingDelegationEntryArrayIndex ubd k = Some i"
      and "\<not> IsMature (Entries ubd ! i) (BlockTime ctx)"
  shows "UnbondingOpCanComplete ctx k =
           ((True, None),
            ctx\<lparr>ubds := AList.update (d, v)
                    (ubd\<lparr>Entries := (Entries ubd)[i := (Entries ubd ! i)\<lparr>OnHold := False\<rparr>]\<rparr>) (ubds ctx),
                ubdsByValIndex := List.insert (d, v) (ubdsByValIndex ctx)\<rparr>)"
proof -
  have "i < length (Entries ubd)"
    using assms(5) by (auto simp: unbondingDelegationEntryArrayIndex_def dest: arrayIndex_SomeD)
  then have "Entries ubd \<noteq> []" by auto
  with assms show ?thesis
    by (simp add: UnbondingOpCanComplete_def UnbondingDelegationCanComplete_def
          GetUnbondingDelegationByUnbondingOpId_def UnbondingDelegationCanComplete_finish_def
          SetOrRemoveUnbondingDelegation_def SetUnbondingDelegation_def)
qed

lemma UnbondingOpCanComplete_mature:
  assumes "map_of (unbondingOpIndex ctx) k = Some (UBDKey d v)"
      and "map_of (ubds ctx) (d, v) = Some ubd"
      and "DelegatorAddress ubd = AccBech32 d" and "ValidatorAddress ubd = ValBech32 v"
      and "unbondingDelegationEntryArrayIndex ubd k = Some i"
      and "IsMature (Entries ubd ! i) (BlockTime ctx)"
      and "UnbondingOpCanComplete ctx k = ((found, err), ctx2)"
  shows "err \<noteq> None \<or>
         (found \<and> GetUnbondingDelegation ctx2 d v =
            Some (ubd\<lparr>Entries := take i (Entries ubd) @ drop (Suc i) (Entries ubd)\<rparr>))"
proof -
  have i: "i < length (Entries ubd)"
    using assms(5) by (auto simp: unbondingDelegationEntryArrayIndex_def dest: arrayIndex_SomeD)
  from RemoveEntry_slice_of [OF i] obtain s where
    s: "RemoveEntry (slice_of (Entries ubd)) i = Some s"
       "elems s = take i (Entries ubd) @ drop (Suc i) (Entries ubd)"
       "index s i = (if Suc i < length (Entries ubd) then Some (Entries ubd ! Suc i) else None)"
    by blast
  have run: "UnbondingOpCanComplete ctx k =
      (case index s i of
         None \<Rightarrow> ((False, Some Panic), ctx)
       | Some entry \<Rightarrow>
           (let ctx1 = DeleteUBDByUnbondingOpIndex ctx (Id entry)
            in case releaseBalance ctx1 d (Balance entry) of
                 Inl e \<Rightarrow> ((False, Some e), ctx1)
               | Inr ctx2 \<Rightarrow>
                   UnbondingDelegationCanComplete_finish ctx2 (ubd\<lparr>Entries := elems s\<rparr>)))"
    using assms(1-6) s(1)
    by (simp add: UnbondingOpCanComplete_def UnbondingDelegationCanComplete_def
          GetUnbondingDelegationByUnbondingOpId_def)
  show ?thesis
  proof (cases "Suc i < length (Entries ubd)")
    case False
    with run s(3) assms(7) show ?thesis by simp
  next
    case True
    define es' where "es' = take i (Entries ubd) @ drop (Suc i) (Entries ubd)"
    have ne: "es' \<noteq> []" using True by (auto simp: es'_def)
    let ?ctx1 = "DeleteUBDByUnbondingOpIndex ctx (Id (Entries ubd ! Suc i))"
    show ?thesis
    proof (cases "releaseBalance ?ctx1 d (Balance (Entries ubd ! Suc i))")
      case (Inl e)
      with run s(3) True assms(7) show ?thesis by (simp add: Let_def)
    next
      case (Inr ctx3)
      have fin: "UnbondingDelegationCanComplete_finish ctx3 (ubd\<lparr>Entries := es'\<rparr>) =
                 ((True, None),
                  ctx3\<lparr>ubds := AList.update (d, v) (ubd\<lparr>Entries := es'\<rparr>) (ubds ctx3),
                       ubdsByValIndex := List.insert (d, v) (ubdsByValIndex ctx3)\<rparr>)"
        using ne assms(3,4) by (intro UnbondingDelegationCanComplete_finish_nonempty) simp_all
      from run s(2,3) True Inr fin assms(7) show ?thesis
        unfolding es'_def [symmetric]
        by (auto simp: Let_def GetUnbondingDelegation_def AList.update_conv')
    qed
  qed
qed


text \<open>
  Completion of a mature entry by its operation ID, in general. Once the entry at index
  \<^verbatim>\<open>i\<close> has been removed in place, the reads \<^verbatim>\<open>Entries[i].Id\<close> and
  \<^verbatim>\<open>Entries[i].Balance\<close> see the entry that stood at index \<^verbatim>\<open>i + 1\<close>: the call
  runs out of range when the entry was the last one, and otherwise it deletes the index
  key of the following entry and releases the balance of the following entry.
\<close>

lemma UnbondingDelegationCanComplete_mature_run:
  assumes "map_of (unbondingOpIndex ctx) k = Some (UBDKey d v)"
      and "map_of (ubds ctx) (d, v) = Some ubd"
      and "DelegatorAddress ubd = AccBech32 d"
      and "unbondingDelegationEntryArrayIndex ubd k = Some i"
      and "IsMature (Entries ubd ! i) (BlockTime ctx)"
  shows "UnbondingDelegationCanComplete ctx k =
           (if Suc i < length (Entries ubd)
            then (let ctx1 = DeleteUBDByUnbondingOpIndex ctx (Id (Entries ubd ! Suc i))
                  in case releaseBalance ctx1 d (Balance (Entries ubd ! Suc i)) of
                       Inl e \<Rightarrow> ((False, Some e), ctx1)
                     | Inr ctx2 \<Rightarrow>
                         UnbondingDelegationCanComplete_finish ctx2
                           (ubd\<lparr>Entries := take i (Entries ubd) @ drop (Suc i) (Entries ubd)\<rparr>))
            else ((False, Some Panic), ctx))"
proof -
  have i: "i < length (Entries ubd)"
    using assms(4) by (auto simp: unbondingDelegationEntryArrayIndex_def dest: arrayIndex_SomeD)
  from RemoveEntry_slice_of [OF i] obtain s where
    s: "RemoveEntry (slice_of (Entries ubd)) i = Some s"
       "elems s = take i (Entries ubd) @ drop (Suc i) (Entries ubd)"
       "index s i = (if Suc i < length (Entries ubd) then Some (Entries ubd ! Suc i) else None)"
    by blast
  with assms show ?thesis
    by (simp add: UnbondingDelegationCanComplete_def GetUnbondingDelegationByUnbondingOpId_def
          Let_def split: sum.split)
qed

lemma UnbondingDelegationCanComplete_last_entry:
  assumes "map_of (unbondingOpIndex ctx) k = Some (UBDKey d v)"
      and "map_of (ubds ctx) (d, v) = Some ubd"
      and "DelegatorAddress ubd = AccBech32 d"
      and "unbondingDelegationEntryArrayIndex ubd k = Some i"
      and "IsMature (Entries ubd ! i) (BlockTime ctx)"
      and "Suc i = length (Entries ubd)"
  shows "UnbondingDelegationCanComplete ctx k = ((False, Some Panic), ctx)"
  using UnbondingDelegationCanComplete_mature_run [OF assms(1-5)] assms(6) by simp

lemma UnbondingDelegationCanComplete_next_entry:
  assumes "map_of (unbondingOpIndex ctx) k = Some (UBDKey d v)"
      and "map_of (ubds ctx) (d, v) = Some ubd"
      and "DelegatorAddress ubd = AccBech32 d"
      and "unbondingDelegationEntryArrayIndex ubd k = Some i"
      and "IsMature (Entries ubd ! i) (BlockTime ctx)"
      and "Suc i < length (Entries ubd)"
      and "UnbondingDelegationCanComplete ctx k = ((True, None), ctx')"
  shows "unbondingOpIndex ctx' = AList.delete (Id (Entries ubd ! Suc i)) (unbondingOpIndex ctx) \<and>
         Released (bank ctx') =
           Released (bank ctx) @
           (if Balance (Entries ubd ! Suc i) = 0 then []
            else [(d, Balance (Entries ubd ! Suc i))])"
proof -
  let ?ctx1 = "DeleteUBDByUnbondingOpIndex ctx (Id (Entries ubd ! Suc i))"
  let ?b = "Balance (Entries ubd ! Suc i)"
  from UnbondingDelegationCanComplete_mature_run [OF assms(1-5)] assms(6,7)
  obtain ctx2 where
    rel: "releaseBalance ?ctx1 d ?b = Inr ctx2" and
    fin: "UnbondingDelegationCanComplete_finish ctx2
            (ubd\<lparr>Entries := take i (Entries ubd) @ drop (Suc i) (Entries ubd)\<rparr>) =
          ((True, None), ctx')"
    by (cases "releaseBalance ?ctx1 d ?b") (simp_all add: Let_def)
  from fin have same: "unbondingOpIndex ctx' = unbondingOpIndex ctx2 \<and> bank ctx' = bank ctx2"
    by (auto simp: UnbondingDelegationCanComplete_finish_def SetOrRemoveUnbondingDelegation_def
          SetUnbondingDelegation_def RemoveUnbondingDelegation_def
          split: sum.splits if_splits option.splits)
  from releaseBalance_frame [OF rel] have "unbondingOpIndex ctx2 = unbondingOpIndex ?ctx1"
    by (metis Context.select_convs(14) Context.surjective Context.update_convs(16))
  with releaseBalance_Released [OF rel] same show ?thesis
    by (simp add: DeleteUBDByUnbondingOpIndex_def)
qed


text \<open>
  Claim C3, as the code has it. An entry of a well-keyed record is put on hold by
  \<^verbatim>\<open>PutUnbondingOpOnHold\<close>. If the entry is not mature, the next
  \<^verbatim>\<open>UnbondingOpCanComplete\<close> returns found without an error, the record is persisted with
  the flag of the entry cleared and every entry in place, and neither the bank nor the
  reverse index has changed. If the entry is mature, the hold does not defer anything:
  the same call takes the completion branch, and when it returns without an error it
  has found the entry and persisted the record without it.
\<close>

theorem hold_then_UnbondingOpCanComplete:
  assumes idx: "map_of (unbondingOpIndex ctx) k = Some (UBDKey d v)"
      and rec: "map_of (ubds ctx) (d, v) = Some ubd"
      and keyed: "DelegatorAddress ubd = AccBech32 d" "ValidatorAddress ubd = ValBech32 v"
      and pos: "unbondingDelegationEntryArrayIndex ubd k = Some i"
      and hold: "PutUnbondingOpOnHold ctx k = (r, ctx1)"
      and run: "UnbondingOpCanComplete ctx1 k = ((found, err), ctx2)"
  shows "r = Inr True \<and>
         (\<not> IsMature (Entries ubd ! i) (BlockTime ctx) \<longrightarrow>
            found \<and> err = None \<and>
            GetUnbondingDelegation ctx2 d v =
              Some (ubd\<lparr>Entries := (Entries ubd)[i := (Entries ubd ! i)\<lparr>OnHold := False\<rparr>]\<rparr>) \<and>
            bank ctx2 = bank ctx \<and> unbondingOpIndex ctx2 = unbondingOpIndex ctx) \<and>
         (IsMature (Entries ubd ! i) (BlockTime ctx) \<longrightarrow>
            err \<noteq> None \<or>
            (found \<and> GetUnbondingDelegation ctx2 d v =
               Some (ubd\<lparr>Entries := take i (Entries ubd) @ drop (Suc i) (Entries ubd)\<rparr>)))"
proof -
  define ubd1 where
    "ubd1 = ubd\<lparr>Entries := (Entries ubd)[i := (Entries ubd ! i)\<lparr>OnHold := True\<rparr>]\<rparr>"
  have i: "i < length (Entries ubd)"
    using pos by (auto simp: unbondingDelegationEntryArrayIndex_def dest: arrayIndex_SomeD)
  from PutUnbondingOpOnHold_entry [OF idx rec keyed pos] hold
  have r: "r = Inr True"
    and ctx1: "ctx1 = ctx\<lparr>ubds := AList.update (d, v) ubd1 (ubds ctx),
                           ubdsByValIndex := List.insert (d, v) (ubdsByValIndex ctx)\<rparr>"
    by (simp_all add: ubd1_def)
  have idx1: "map_of (unbondingOpIndex ctx1) k = Some (UBDKey d v)"
    using idx by (simp add: ctx1)
  have rec1: "map_of (ubds ctx1) (d, v) = Some ubd1"
    by (simp add: ctx1 AList.update_conv')
  have keyed1: "DelegatorAddress ubd1 = AccBech32 d" "ValidatorAddress ubd1 = ValBech32 v"
    using keyed by (simp_all add: ubd1_def)
  have pos1: "unbondingDelegationEntryArrayIndex ubd1 k = Some i"
    using pos by (simp add: unbondingDelegationEntryArrayIndex_def ubd1_def arrayIndex_set_OnHold)
  have mat1: "IsMature (Entries ubd1 ! i) (BlockTime ctx1) = IsMature (Entries ubd ! i) (BlockTime ctx)"
    using i by (simp add: ubd1_def ctx1 IsMature_def)
  have immature: "found \<and> err = None \<and>
            GetUnbondingDelegation ctx2 d v =
              Some (ubd\<lparr>Entries := (Entries ubd)[i := (Entries ubd ! i)\<lparr>OnHold := False\<rparr>]\<rparr>) \<and>
            bank ctx2 = bank ctx \<and> unbondingOpIndex ctx2 = unbondingOpIndex ctx"
    if "\<not> IsMature (Entries ubd ! i) (BlockTime ctx)"
  proof -
    from that mat1 have "\<not> IsMature (Entries ubd1 ! i) (BlockTime ctx1)" by simp
    from UnbondingOpCanComplete_immature [OF idx1 rec1 keyed1 pos1 this] run
    have "found" "err = None"
      and c2: "ctx2 = ctx1\<lparr>ubds := AList.update (d, v)
                 (ubd1\<lparr>Entries := (Entries ubd1)[i := (Entries ubd1 ! i)\<lparr>OnHold := False\<rparr>]\<rparr>) (ubds ctx1),
                 ubdsByValIndex := List.insert (d, v) (ubdsByValIndex ctx1)\<rparr>"
      by simp_all
    moreover have "ubd1\<lparr>Entries := (Entries ubd1)[i := (Entries ubd1 ! i)\<lparr>OnHold := False\<rparr>]\<rparr> =
                   ubd\<lparr>Entries := (Entries ubd)[i := (Entries ubd ! i)\<lparr>OnHold := False\<rparr>]\<rparr>"
      using i by (simp add: ubd1_def)
    ultimately show ?thesis
      by (simp add: GetUnbondingDelegation_def AList.update_conv' ctx1)
  qed
  have mature: "err \<noteq> None \<or>
            (found \<and> GetUnbondingDelegation ctx2 d v =
               Some (ubd\<lparr>Entries := take i (Entries ubd) @ drop (Suc i) (Entries ubd)\<rparr>))"
    if "IsMature (Entries ubd ! i) (BlockTime ctx)"
  proof -
    from that mat1 have "IsMature (Entries ubd1 ! i) (BlockTime ctx1)" by simp
    from UnbondingOpCanComplete_mature [OF idx1 rec1 keyed1 pos1 this run]
    have "err \<noteq> None \<or>
         (found \<and> GetUnbondingDelegation ctx2 d v =
            Some (ubd1\<lparr>Entries := take i (Entries ubd1) @ drop (Suc i) (Entries ubd1)\<rparr>))" .
    moreover have "ubd1\<lparr>Entries := take i (Entries ubd1) @ drop (Suc i) (Entries ubd1)\<rparr> =
                   ubd\<lparr>Entries := take i (Entries ubd) @ drop (Suc i) (Entries ubd)\<rparr>"
      by (simp add: ubd1_def)
    ultimately show ?thesis by simp
  qed
  from r immature mature show ?thesis by blast
qed

theorem hold_then_UnbondingOpCanComplete_witness:
  "fst (PutUnbondingOpOnHold (ubdLedger [entryA, entryB]) 2) = Inr True \<and>
   fst (UnbondingOpCanComplete (snd (PutUnbondingOpOnHold (ubdLedger [entryA, entryB]) 2)) 2) =
     (True, None) \<and>
   GetUnbondingDelegation
     (snd (UnbondingOpCanComplete (snd (PutUnbondingOpOnHold (ubdLedger [entryA, entryB]) 2)) 2))
     [1] [2] =
     Some \<lparr>DelegatorAddress = AccBech32 [1], ValidatorAddress = ValBech32 [2],
           Entries = [entryA, entryB]\<rparr> \<and>
   bank (snd (UnbondingOpCanComplete (snd (PutUnbondingOpOnHold (ubdLedger [entryA, entryB]) 2)) 2)) =
     bank (ubdLedger [entryA, entryB]) \<and>
   snd (fst (UnbondingOpCanComplete (snd (PutUnbondingOpOnHold (ubdLedger [entryA, entryB]) 1)) 1)) = None \<and>
   GetUnbondingDelegation
     (snd (UnbondingOpCanComplete (snd (PutUnbondingOpOnHold (ubdLedger [entryA, entryB]) 1)) 1))
     [1] [2] =
     Some \<lparr>DelegatorAddress = AccBech32 [1], ValidatorAddress = ValBech32 [2],
           Entries = [entryB]\<rparr>"
proof -
  let ?L = "ubdLedger [entryA, entryB]"
  let ?u = "\<lparr>DelegatorAddress = AccBech32 [1], ValidatorAddress = ValBech32 [2],
             Entries = [entryA, entryB]\<rparr>"
  have idx: "map_of (unbondingOpIndex ?L) 2 = Some (UBDKey [1] [2])"
            "map_of (unbondingOpIndex ?L) 1 = Some (UBDKey [1] [2])"
    by (simp_all add: ubdLedger_def emptyLedger_def)
  have rec: "map_of (ubds ?L) ([1], [2]) = Some ?u"
    by (simp add: ubdLedger_def emptyLedger_def)
  have keyed: "DelegatorAddress ?u = AccBech32 [1]" "ValidatorAddress ?u = ValBech32 [2]"
    by simp_all
  have pos: "unbondingDelegationEntryArrayIndex ?u 2 = Some 1"
            "unbondingDelegationEntryArrayIndex ?u 1 = Some 0"
    by (simp_all add: unbondingDelegationEntryArrayIndex_def entryA_def entryB_def)
  have time: "BlockTime (ubdLedger es) = 100" for es
    by (simp add: ubdLedger_def emptyLedger_def)
  have B: "\<not> IsMature (Entries ?u ! 1) (BlockTime ?L)"
    by (simp add: time IsMature_def entryB_def)
  have A: "IsMature (Entries ?u ! 0) (BlockTime ?L)"
    by (simp add: time IsMature_def entryA_def)
  have same: "?u\<lparr>Entries := (Entries ?u)[1 := (Entries ?u ! 1)\<lparr>OnHold := False\<rparr>]\<rparr> = ?u"
    by (simp add: entryB_def)
  have gone: "?u\<lparr>Entries := take 0 (Entries ?u) @ drop (Suc 0) (Entries ?u)\<rparr> =
              \<lparr>DelegatorAddress = AccBech32 [1], ValidatorAddress = ValBech32 [2],
               Entries = [entryB]\<rparr>"
    by simp
  from hold_then_UnbondingOpCanComplete
         [OF idx(1) rec keyed pos(1) prod.collapse [symmetric]
             trans [OF prod.collapse [symmetric]
                       arg_cong2 [OF prod.collapse [symmetric] refl, of Pair]]] B
  have two: "fst (PutUnbondingOpOnHold ?L 2) = Inr True \<and>
     fst (UnbondingOpCanComplete (snd (PutUnbondingOpOnHold ?L 2)) 2) = (True, None) \<and>
     GetUnbondingDelegation (snd (UnbondingOpCanComplete (snd (PutUnbondingOpOnHold ?L 2)) 2)) [1] [2] = Some ?u \<and>
     bank (snd (UnbondingOpCanComplete (snd (PutUnbondingOpOnHold ?L 2)) 2)) = bank ?L"
    unfolding same by (simp add: prod_eq_iff)
  from hold_then_UnbondingOpCanComplete
         [OF idx(2) rec keyed pos(2) prod.collapse [symmetric]
             trans [OF prod.collapse [symmetric]
                       arg_cong2 [OF prod.collapse [symmetric] refl, of Pair]]] A
  have mature: "snd (fst (UnbondingOpCanComplete (snd (PutUnbondingOpOnHold ?L 1)) 1)) \<noteq> None \<or>
     GetUnbondingDelegation (snd (UnbondingOpCanComplete (snd (PutUnbondingOpOnHold ?L 1)) 1)) [1] [2] =
       Some (?u\<lparr>Entries := take 0 (Entries ?u) @ drop (Suc 0) (Entries ?u)\<rparr>)"
    by blast
  have ok: "snd (fst (UnbondingOpCanComplete (snd (PutUnbondingOpOnHold ?L 1)) 1)) = None"
    by (simp add: PutUnbondingOpOnHold_def PutUnbondingDelegationEntryOnHold_def
          UnbondingOpCanComplete_def UnbondingDelegationCanComplete_def ubd_defs example_defs)
  with mature
  have one: "GetUnbondingDelegation (snd (UnbondingOpCanComplete (snd (PutUnbondingOpOnHold ?L 1)) 1)) [1] [2] =
       Some \<lparr>DelegatorAddress = AccBech32 [1], ValidatorAddress = ValBech32 [2],
             Entries = [entryB]\<rparr>"
    unfolding gone by blast
  from two ok one show ?thesis by blast
qed

text \<open>
  Claim C3 as stated fails on the ledger with the mature entry 1 before entry 2: after
  \<^verbatim>\<open>PutUnbondingOpOnHold\<close> the entry is on hold, and the first
  \<^verbatim>\<open>UnbondingOpCanComplete\<close> does not leave it in place with the flag cleared and
  nothing released: it removes the entry and a release is made; the second call finds no
  entry and releases nothing.
\<close>

theorem hold_on_mature_entry_counterexample:
  "IsMature entryA (BlockTime (ubdLedger [entryA, entryB])) \<and>
   (case PutUnbondingOpOnHold (ubdLedger [entryA, entryB]) 1 of
      (r, ctx1) \<Rightarrow>
        r = Inr True \<and>
        map_option Entries (GetUnbondingDelegation ctx1 [1] [2]) =
          Some [entryA\<lparr>OnHold := True\<rparr>, entryB] \<and>
        (case UnbondingOpCanComplete ctx1 1 of
           (r1, ctx2) \<Rightarrow>
             r1 = (True, None) \<and>
             map_option Entries (GetUnbondingDelegation ctx2 [1] [2]) = Some [entryB] \<and>
             Released (bank ctx2) = [([1], 20)] \<and>
             (case UnbondingOpCanComplete ctx2 1 of
                (r2, ctx3) \<Rightarrow> r2 = (False, None) \<and> Released (bank ctx3) = [([1], 20)])))"
  by (simp add: PutUnbondingOpOnHold_def PutUnbondingDelegationEntryOnHold_def
        UnbondingOpCanComplete_def UnbondingDelegationCanComplete_def ubd_defs example_defs)


subsection \<open>The time queues\<close>

text \<open>
  Claim C9, evaluated. The block time is 100 and the queues hold a bucket at time 90
  and one at time 200. \<^verbatim>\<open>DequeueAllMatureUBDQueue\<close> and
  \<^verbatim>\<open>DequeueAllMatureRedelegationQueue\<close> called with \<open>currTime = 50\<close> return the content of
  the bucket at 90 and delete that bucket: the range ends at the time of the block
  header, not at \<open>currTime\<close>.
\<close>

theorem DequeueAllMature_ignores_currTime:
  "DequeueAllMatureUBDQueue (ubdLedger []) 50 =
     ([(AccBech32 [1], ValBech32 [2])],
      (ubdLedger [])\<lparr>ubdQueue := [(200, [(AccBech32 [1], ValBech32 [2])])]\<rparr>) \<and>
   DequeueAllMatureRedelegationQueue (redLedger []) 50 =
     ([(AccBech32 [1], ValBech32 [2], ValBech32 [3])],
      (redLedger [])\<lparr>redQueue := [(200, [(AccBech32 [1], ValBech32 [2], ValBech32 [3])])]\<rparr>)"
  by (simp add: DequeueAllMatureUBDQueue_def UBDQueueIterator_def queueIterator_def
        DequeueAllMatureRedelegationQueue_def RedelegationQueueIterator_def example_defs)

text \<open>
  The two functions in general: whatever \<open>currTime\<close> is, the result is the concatenation
  of the buckets up to the time of the block header, in ascending order of their
  timestamps, and exactly those buckets are deleted.
\<close>

lemma queueIterator_eq_map:
  "queueIterator q T =
     map (\<lambda>t. (t, the (map_of q t))) (sort (remdups (filter (\<lambda>t. t \<le> T) (map fst q))))"
proof -
  have "concat (map (\<lambda>t. case map_of q t of None \<Rightarrow> [] | Some v \<Rightarrow> [(t, v)]) ts) =
        map (\<lambda>t. (t, the (map_of q t))) ts" if "set ts \<subseteq> fst ` set q" for ts
    using that
  proof (induction ts)
    case Nil
    then show ?case by simp
  next
    case (Cons t ts)
    then have "t \<in> fst ` set q" by simp
    then obtain v where "map_of q t = Some v"
      by (metis map_of_eq_None_iff not_Some_eq)
    with Cons show ?case by simp
  qed
  moreover have "set (sort (remdups (filter (\<lambda>t. t \<le> T) (map fst q)))) \<subseteq> fst ` set q"
    by auto
  ultimately show ?thesis
    unfolding queueIterator_def by blast
qed

lemma queueIterator_keys:
  "map fst (queueIterator q T) = sort (remdups (filter (\<lambda>t. t \<le> T) (map fst q)))"
  by (simp add: queueIterator_eq_map comp_def)

lemma queueIterator_ascending:
  "sorted (map fst (queueIterator q T)) \<and> distinct (map fst (queueIterator q T))"
  by (simp add: queueIterator_keys)

lemma queueIterator_set:
  "set (queueIterator q T) = {(t, v). t \<le> T \<and> map_of q t = Some v}"
proof -
  have "(t, v) \<in> set (queueIterator q T) \<longleftrightarrow> t \<le> T \<and> map_of q t = Some v" for t v
  proof
    assume "(t, v) \<in> set (queueIterator q T)"
    then have "t \<in> fst ` set q" "t \<le> T" "v = the (map_of q t)"
      by (auto simp: queueIterator_eq_map)
    moreover from this(1) obtain w where "map_of q t = Some w"
      by (metis map_of_eq_None_iff not_Some_eq)
    ultimately show "t \<le> T \<and> map_of q t = Some v" by simp
  next
    assume a: "t \<le> T \<and> map_of q t = Some v"
    then have "t \<in> fst ` set q"
      by (metis map_of_eq_None_iff option.distinct(1))
    with a show "(t, v) \<in> set (queueIterator q T)"
      by (auto simp: queueIterator_eq_map image_iff)
  qed
  then show ?thesis by auto
qed

lemma DequeueAllMatureUBDQueue_loop_result:
  "DequeueAllMatureUBDQueue_loop it ctx acc =
     (acc @ concat (map snd it),
      ctx\<lparr>ubdQueue := filter (\<lambda>(t, _). t \<notin> set (map fst it)) (ubdQueue ctx)\<rparr>)"
proof (induction it arbitrary: ctx acc)
  case Nil
  then show ?case by simp
next
  case (Cons kv it)
  obtain key timeslice where kv: "kv = (key, timeslice)" by (cases kv)
  have "filter (\<lambda>(t, _). t \<notin> set (map fst it)) (AList.delete key (ubdQueue ctx)) =
        filter (\<lambda>(t, _). t \<notin> set (map fst (kv # it))) (ubdQueue ctx)"
    by (auto simp: kv AList.delete_eq intro: filter_cong)
  with Cons.IH [of "ctx\<lparr>ubdQueue := AList.delete key (ubdQueue ctx)\<rparr>" "acc @ timeslice"]
  show ?case by (simp add: kv)
qed

lemma DequeueAllMatureUBDQueue_block_time:
  "DequeueAllMatureUBDQueue ctx currTime =
     (concat (map snd (UBDQueueIterator ctx (BlockTime ctx))),
      ctx\<lparr>ubdQueue := filter (\<lambda>(t, _). \<not> t \<le> BlockTime ctx) (ubdQueue ctx)\<rparr>)"
proof -
  have "filter (\<lambda>(t, _). t \<notin> set (map fst (queueIterator (ubdQueue ctx) (BlockTime ctx)))) (ubdQueue ctx) =
        filter (\<lambda>(t, _). \<not> t \<le> BlockTime ctx) (ubdQueue ctx)"
    by (rule filter_cong) (auto simp: queueIterator_keys image_iff)
  then show ?thesis
    by (simp add: DequeueAllMatureUBDQueue_def DequeueAllMatureUBDQueue_loop_result
          UBDQueueIterator_def)
qed

lemma DequeueAllMatureRedelegationQueue_loop_result:
  "DequeueAllMatureRedelegationQueue_loop it ctx acc =
     (acc @ concat (map snd it),
      ctx\<lparr>redQueue := filter (\<lambda>(t, _). t \<notin> set (map fst it)) (redQueue ctx)\<rparr>)"
proof (induction it arbitrary: ctx acc)
  case Nil
  then show ?case by simp
next
  case (Cons kv it)
  obtain key timeslice where kv: "kv = (key, timeslice)" by (cases kv)
  have "filter (\<lambda>(t, _). t \<notin> set (map fst it)) (AList.delete key (redQueue ctx)) =
        filter (\<lambda>(t, _). t \<notin> set (map fst (kv # it))) (redQueue ctx)"
    by (auto simp: kv AList.delete_eq intro: filter_cong)
  with Cons.IH [of "ctx\<lparr>redQueue := AList.delete key (redQueue ctx)\<rparr>" "acc @ timeslice"]
  show ?case by (simp add: kv)
qed

lemma DequeueAllMatureRedelegationQueue_block_time:
  "DequeueAllMatureRedelegationQueue ctx currTime =
     (concat (map snd (RedelegationQueueIterator ctx (BlockTime ctx))),
      ctx\<lparr>redQueue := filter (\<lambda>(t, _). \<not> t \<le> BlockTime ctx) (redQueue ctx)\<rparr>)"
proof -
  have "filter (\<lambda>(t, _). t \<notin> set (map fst (queueIterator (redQueue ctx) (BlockTime ctx)))) (redQueue ctx) =
        filter (\<lambda>(t, _). \<not> t \<le> BlockTime ctx) (redQueue ctx)"
    by (rule filter_cong) (auto simp: queueIterator_keys image_iff)
  then show ?thesis
    by (simp add: DequeueAllMatureRedelegationQueue_def
          DequeueAllMatureRedelegationQueue_loop_result RedelegationQueueIterator_def)
qed

subsection \<open>Undelegate at the maximum number of entries\<close>

text \<open>
  Claim C5, as the code has it. When the validator record exists and the unbonding
  delegation of the delegator with the validator holds at least \<^verbatim>\<open>MaxEntries\<close> entries,
  \<^verbatim>\<open>Undelegate\<close> fails with \<^verbatim>\<open>ErrMaxUnbondingDelegationEntries\<close> and leaves the context as
  it was.
\<close>

theorem Undelegate_max_entries:
  "GetValidator ctx valAddr = Some validator \<Longrightarrow>
   GetUnbondingDelegation ctx delAddr valAddr = Some ubd \<Longrightarrow>
   unat (MaxEntries ctx) \<le> length (Entries ubd) \<Longrightarrow>
   Undelegate ctx delAddr valAddr sharesAmount = (Inl ErrMaxUnbondingDelegationEntries, ctx)"
  by (simp add: Undelegate_def HasMaxUnbondingDelegationEntries_def)

theorem Undelegate_max_entries_witness:
  "GetValidator ((ubdLedger [entryA, entryB])\<lparr>validators := [([2], exampleValidator [2] Bonded 100)]\<rparr>) [2] =
     Some (exampleValidator [2] Bonded 100) \<and>
   GetUnbondingDelegation
     ((ubdLedger [entryA, entryB])\<lparr>validators := [([2], exampleValidator [2] Bonded 100)]\<rparr>) [1] [2] =
     Some \<lparr>DelegatorAddress = AccBech32 [1], ValidatorAddress = ValBech32 [2],
           Entries = [entryA, entryB]\<rparr> \<and>
   unat (MaxEntries ((ubdLedger [entryA, entryB])\<lparr>validators := [([2], exampleValidator [2] Bonded 100)]\<rparr>))
     \<le> length [entryA, entryB] \<and>
   Undelegate ((ubdLedger [entryA, entryB])\<lparr>validators := [([2], exampleValidator [2] Bonded 100)]\<rparr>)
       [1] [2] (5 * Precision) =
     (Inl ErrMaxUnbondingDelegationEntries,
      (ubdLedger [entryA, entryB])\<lparr>validators := [([2], exampleValidator [2] Bonded 100)]\<rparr>)"
  using Undelegate_max_entries
          [of "(ubdLedger [entryA, entryB])\<lparr>validators := [([2], exampleValidator [2] Bonded 100)]\<rparr>"
              "[2]" "exampleValidator [2] Bonded 100" "[1]"
              "\<lparr>DelegatorAddress = AccBech32 [1], ValidatorAddress = ValBech32 [2],
                Entries = [entryA, entryB]\<rparr>" "5 * Precision"]
  by (simp add: GetValidator_def GetUnbondingDelegation_def ubdLedger_def emptyLedger_def)

text \<open>
  Claim C5 as stated fails where the record holds the maximum of two entries and the
  validator record does not exist: \<^verbatim>\<open>Undelegate\<close> fails with
  \<^verbatim>\<open>ErrNoDelegatorForAddress\<close>, not with \<^verbatim>\<open>ErrMaxUnbondingDelegationEntries\<close>.
\<close>

theorem Undelegate_max_entries_counterexample:
  "GetUnbondingDelegation (ubdLedger [entryA, entryB]) [1] [2] =
     Some \<lparr>DelegatorAddress = AccBech32 [1], ValidatorAddress = ValBech32 [2],
           Entries = [entryA, entryB]\<rparr> \<and>
   unat (MaxEntries (ubdLedger [entryA, entryB])) \<le> length [entryA, entryB] \<and>
   Undelegate (ubdLedger [entryA, entryB]) [1] [2] (5 * Precision) =
     (Inl ErrNoDelegatorForAddress, ubdLedger [entryA, entryB]) \<and>
   Inl ErrNoDelegatorForAddress \<noteq> (Inl ErrMaxUnbondingDelegationEntries :: error + time)"
  by (simp add: Undelegate_def GetValidator_def GetUnbondingDelegation_def ubdLedger_def
        emptyLedger_def)

subsection \<open>Unbond and the delegation record\<close>

lemmas stake_defs =
  Unbond_def GetDelegation_def callHook_def GetValidator_def GetOperator_def Unbond_jail_def
  TokensFromShares_def rdiv_def TruncateInt_def tdiv_def Precision_def jailValidator_def
  mustGetValidator_def Unbond_store_def RemoveDelegation_def SetDelegation_def
  GetValidatorAddr_def Unbond_validator_def RemoveValidatorTokensAndShares_def
  RemoveDelShares_def SetValidator_def RemoveValidator_def IsUnbonded_def IsBonded_def
  IsUnbonding_def

lemma SetValidator_frame:
  "SetValidator ctx v = Inr ctx1 \<Longrightarrow>
   delegations ctx1 = delegations ctx \<and> hooks ctx1 = hooks ctx"
  by (auto simp: SetValidator_def split: option.splits)

lemma Unbond_jail_frame:
  "Unbond_jail ctx validator delegation b = Inr (v1, ctx1) \<Longrightarrow>
   delegations ctx1 = delegations ctx \<and> hooks ctx1 = hooks ctx"
  by (auto simp: Unbond_jail_def jailValidator_def mustGetValidator_def
        dest: SetValidator_frame split: if_splits sum.splits option.splits)

lemma Unbond_validator_frame:
  "Unbond_validator ctx validator shares = Inr (amount, ctx1) \<Longrightarrow>
   delegations ctx1 = delegations ctx \<and> hooks ctx1 = hooks ctx"
  by (auto simp: Unbond_validator_def RemoveValidatorTokensAndShares_def RemoveValidator_def
        dest: SetValidator_frame split: if_splits sum.splits option.splits prod.splits)

lemma Unbond_store_keyed:
  assumes "DelegatorAddress_D d = AccBech32 delAddr" "ValidatorAddress_D d = ValBech32 valAddr"
  shows "Unbond_store ctx d delAddr =
           Inr (if Shares d = 0
                then (callHook (BeforeDelegationRemoved delAddr valAddr) ctx)\<lparr>
                       delegations := AList.delete (delAddr, valAddr) (delegations ctx)\<rparr>
                else callHook (AfterDelegationModified delAddr valAddr)
                       (ctx\<lparr>delegations := AList.update (delAddr, valAddr) d (delegations ctx)\<rparr>))"
  using assms
  by (simp add: Unbond_store_def RemoveDelegation_def SetDelegation_def GetValidatorAddr_def
        callHook_def)

text \<open>
  \<^verbatim>\<open>Unbond\<close> returns on a consistent ledger. The tokens that the shares of a delegation
  are worth are at most the tokens of the validator, so that the removal of the shares
  from the validator does not run below zero; jailing the operator and writing the
  validator back succeed for a validator stored under its operator address.
\<close>

lemma rdiv_le:
  assumes b: "0 < b" and n: "0 \<le> n" and a: "a \<le> b * n"
  shows "rdiv a b \<le> n"
proof (cases "0 < a")
  case False
  then have "sgn a = 0 \<or> sgn a = - 1" by (auto simp: sgn_if)
  moreover have "0 \<le> \<bar>a\<bar> div \<bar>b\<bar>" by (simp add: div_int_pos_iff)
  ultimately have "rdiv a b \<le> 0"
    using b by (auto simp: rdiv_def Let_def sgn_if)
  with n show ?thesis by simp
next
  case True
  define q where "q = a div b"
  define r where "r = a mod b"
  have ab: "a = b * q + r" by (simp add: q_def r_def)
  have r0: "0 \<le> r" "r < b" using b by (simp_all add: r_def)
  have qn: "q \<le> n"
  proof (rule ccontr)
    assume "\<not> q \<le> n"
    then have "n + 1 \<le> q" by simp
    with b have "b * (n + 1) \<le> b * q" by (simp add: mult_left_mono)
    with ab r0 a show False by (simp add: algebra_simps)
  qed
  have q1: "q + 1 \<le> n" if "0 < r"
  proof (rule ccontr)
    assume "\<not> q + 1 \<le> n"
    with qn have "q = n" by simp
    with ab a that show False by simp
  qed
  have "rdiv a b = (if 2 * r < b then q else if b < 2 * r then q + 1
                     else if even q then q else q + 1)"
    using True b by (simp add: rdiv_def Let_def q_def r_def)
  moreover have "0 < r" if "\<not> 2 * r < b" using that b by simp
  ultimately show ?thesis using qn q1 by auto
qed

lemma tdiv_le:
  assumes p: "0 < p" and n: "0 \<le> n" and a: "a \<le> n * p"
  shows "tdiv a p \<le> n"
proof (cases "0 < a")
  case False
  have "0 \<le> \<bar>a\<bar> div \<bar>p\<bar>" by (simp add: div_int_pos_iff)
  with False p have "tdiv a p \<le> 0" by (auto simp: tdiv_def sgn_if)
  with n show ?thesis by simp
next
  case True
  then have "tdiv a p = a div p" using p by (simp add: tdiv_def)
  also have "\<dots> \<le> (n * p) div p" using a p by (intro zdiv_mono1) simp_all
  also have "\<dots> = n" using p by simp
  finally show ?thesis .
qed

lemma RemoveDelShares_returns:
  assumes "0 < DelegatorShares v" and "s \<le> DelegatorShares v" and "0 \<le> Tokens v"
  shows "\<exists>v2 amount. RemoveDelShares v s = Inr (v2, amount) \<and>
                      OperatorAddress v2 = OperatorAddress v"
proof (cases "DelegatorShares v - s = 0")
  case True
  then show ?thesis by (simp add: RemoveDelShares_def)
next
  case False
  have "s * Tokens v * Precision \<le> DelegatorShares v * (Tokens v * Precision)"
    using assms by (simp add: Precision_def mult_right_mono)
  with assms have "rdiv (s * Tokens v * Precision) (DelegatorShares v) \<le> Tokens v * Precision"
    by (intro rdiv_le) (simp_all add: Precision_def)
  with assms have "tdiv (rdiv (s * Tokens v * Precision) (DelegatorShares v)) Precision \<le> Tokens v"
    by (intro tdiv_le) (simp_all add: Precision_def)
  with False assms show ?thesis
    by (simp add: RemoveDelShares_def TokensFromShares_def TruncateInt_def Let_def)
qed

lemma Unbond_validator_returns:
  assumes "OperatorAddress v = ValBech32 a"
      and "0 < DelegatorShares v" and "s \<le> DelegatorShares v" and "0 \<le> Tokens v"
  shows "\<exists>amount ctx1. Unbond_validator ctx v s = Inr (amount, ctx1)"
proof -
  from RemoveDelShares_returns [OF assms(2-4)] obtain v2 amount where
    r: "RemoveDelShares v s = Inr (v2, amount)" and o: "OperatorAddress v2 = OperatorAddress v"
    by blast
  with assms(1) show ?thesis
    by (simp add: Unbond_validator_def RemoveValidatorTokensAndShares_def SetValidator_def
          GetOperator_def)
qed

lemma Unbond_jail_returns:
  assumes "OperatorAddress v = ValBech32 a" and "DelegatorShares v \<noteq> 0"
  shows "\<exists>v1 ctx1. Unbond_jail ctx v d b = Inr (v1, ctx1) \<and>
                   (v1 = v \<or> v1 = v\<lparr>Jailed := True\<rparr>)"
  using assms
  by (auto simp: Unbond_jail_def TokensFromShares_def jailValidator_def SetValidator_def
        GetOperator_def mustGetValidator_def GetValidator_def AList.update_conv')

text \<open>
  Claim C8, as the code has it. The delegation of the delegator with the validator
  exists and holds at least the shares to unbond. If no validator record exists,
  \<^verbatim>\<open>Unbond\<close> fails with \<^verbatim>\<open>ErrNoValidatorFound\<close>, having called the before-modification
  hook only, and the delegation record stays as it was. If the validator record exists
  and the ledger is consistent (the delegation and the validator are stored under their
  own addresses, the validator holds a positive amount of delegator shares, at least the
  shares of the delegation, and no negative amount of tokens), \<^verbatim>\<open>Unbond\<close> returns an
  amount without an error: with the shares equal to the shares of the delegation the
  delegation record is gone from the store and the removal hook was called; with fewer
  shares the record is present with its shares reduced by exactly the shares unbonded,
  and the after-modification hook was called.
\<close>

theorem Unbond_delegation_record:
  assumes del: "GetDelegation ctx delAddr valAddr = Some d"
      and enough: "shares \<le> Shares d"
  shows "case GetValidator ctx valAddr of
           None \<Rightarrow>
             Unbond ctx delAddr valAddr shares =
               (Inl ErrNoValidatorFound,
                callHook (BeforeDelegationSharesModified delAddr valAddr) ctx) \<and>
             GetDelegation (snd (Unbond ctx delAddr valAddr shares)) delAddr valAddr = Some d
         | Some validator \<Rightarrow>
             DelegatorAddress_D d = AccBech32 delAddr \<and> ValidatorAddress_D d = ValBech32 valAddr \<and>
             OperatorAddress validator = ValBech32 valAddr \<and>
             Shares d \<le> DelegatorShares validator \<and> 0 < DelegatorShares validator \<and>
             0 \<le> Tokens validator \<longrightarrow>
             (\<exists>amount. fst (Unbond ctx delAddr valAddr shares) = Inr amount) \<and>
             (if shares = Shares d
              then GetDelegation (snd (Unbond ctx delAddr valAddr shares)) delAddr valAddr = None \<and>
                   hooks (snd (Unbond ctx delAddr valAddr shares)) =
                     hooks ctx @ [BeforeDelegationSharesModified delAddr valAddr,
                                  BeforeDelegationRemoved delAddr valAddr]
              else GetDelegation (snd (Unbond ctx delAddr valAddr shares)) delAddr valAddr =
                     Some (d\<lparr>Shares := Shares d - shares\<rparr>) \<and>
                   hooks (snd (Unbond ctx delAddr valAddr shares)) =
                     hooks ctx @ [BeforeDelegationSharesModified delAddr valAddr,
                                  AfterDelegationModified delAddr valAddr])"
proof (cases "GetValidator ctx valAddr")
  case None
  define ctx1 where "ctx1 = callHook (BeforeDelegationSharesModified delAddr valAddr) ctx"
  have "GetValidator ctx1 valAddr = None"
    using None by (simp add: ctx1_def callHook_def GetValidator_def)
  with del enough
  have "Unbond ctx delAddr valAddr shares = (Inl ErrNoValidatorFound, ctx1)"
    by (simp add: Unbond_def Let_def ctx1_def [symmetric])
  moreover have "GetDelegation ctx1 delAddr valAddr = Some d"
    using del by (simp add: ctx1_def callHook_def GetDelegation_def)
  ultimately show ?thesis using None by (simp add: ctx1_def)
next
  case (Some validator)
  have "(\<exists>amount. fst (Unbond ctx delAddr valAddr shares) = Inr amount) \<and>
        (if shares = Shares d
         then GetDelegation (snd (Unbond ctx delAddr valAddr shares)) delAddr valAddr = None \<and>
              hooks (snd (Unbond ctx delAddr valAddr shares)) =
                hooks ctx @ [BeforeDelegationSharesModified delAddr valAddr,
                             BeforeDelegationRemoved delAddr valAddr]
         else GetDelegation (snd (Unbond ctx delAddr valAddr shares)) delAddr valAddr =
                Some (d\<lparr>Shares := Shares d - shares\<rparr>) \<and>
              hooks (snd (Unbond ctx delAddr valAddr shares)) =
                hooks ctx @ [BeforeDelegationSharesModified delAddr valAddr,
                             AfterDelegationModified delAddr valAddr])"
    if keyed: "DelegatorAddress_D d = AccBech32 delAddr" "ValidatorAddress_D d = ValBech32 valAddr"
      and vkeyed: "OperatorAddress validator = ValBech32 valAddr"
      and part: "Shares d \<le> DelegatorShares validator"
      and pos: "0 < DelegatorShares validator"
      and tok: "0 \<le> Tokens validator"
  proof -
    define ctx1 where "ctx1 = callHook (BeforeDelegationSharesModified delAddr valAddr) ctx"
    define d1 where "d1 = d\<lparr>Shares := Shares d - shares\<rparr>"
    have val1: "GetValidator ctx1 valAddr = Some validator"
      using Some by (simp add: ctx1_def callHook_def GetValidator_def)
    have keyed1: "DelegatorAddress_D d1 = AccBech32 delAddr"
                 "ValidatorAddress_D d1 = ValBech32 valAddr"
      using keyed by (simp_all add: d1_def)
    have run: "Unbond ctx delAddr valAddr shares =
        (case Unbond_jail ctx1 validator d1 (delAddr = valAddr) of
           Inl e \<Rightarrow> (Inl e, ctx1)
         | Inr (validator1, ctx2) \<Rightarrow>
             (case Unbond_store ctx2 d1 delAddr of
                Inl e \<Rightarrow> (Inl e, ctx2)
              | Inr ctx3 \<Rightarrow>
                  (case Unbond_validator ctx3 validator1 shares of
                     Inl e \<Rightarrow> (Inl e, ctx3)
                   | Inr (amount, ctx4) \<Rightarrow> (Inr amount, ctx4))))"
      using del enough val1 keyed1 vkeyed
      by (simp add: Unbond_def Let_def GetOperator_def ctx1_def [symmetric] d1_def [symmetric])
    from pos have "DelegatorShares validator \<noteq> 0" by simp
    from Unbond_jail_returns [OF vkeyed this] obtain validator1 ctx2 where
      jail: "Unbond_jail ctx1 validator d1 (delAddr = valAddr) = Inr (validator1, ctx2)" and
      v1: "validator1 = validator \<or> validator1 = validator\<lparr>Jailed := True\<rparr>"
      by blast
    note jf = Unbond_jail_frame [OF jail]
    define ctx3 where "ctx3 =
        (if Shares d1 = 0
         then (callHook (BeforeDelegationRemoved delAddr valAddr) ctx2)\<lparr>
                delegations := AList.delete (delAddr, valAddr) (delegations ctx2)\<rparr>
         else callHook (AfterDelegationModified delAddr valAddr)
                (ctx2\<lparr>delegations := AList.update (delAddr, valAddr) d1 (delegations ctx2)\<rparr>))"
    have store: "Unbond_store ctx2 d1 delAddr = Inr ctx3"
      unfolding ctx3_def by (rule Unbond_store_keyed [OF keyed1])
    from v1 vkeyed pos part enough tok
    have "OperatorAddress validator1 = ValBech32 valAddr" "0 < DelegatorShares validator1"
         "shares \<le> DelegatorShares validator1" "0 \<le> Tokens validator1"
      by auto
    from Unbond_validator_returns [OF this] obtain amount ctx4 where
      uv: "Unbond_validator ctx3 validator1 shares = Inr (amount, ctx4)"
      by blast
    note fr = Unbond_validator_frame [OF uv]
    have res: "Unbond ctx delAddr valAddr shares = (Inr amount, ctx4)"
      using run jail store uv by simp
    have zero: "Shares d1 = 0 \<longleftrightarrow> shares = Shares d"
      by (auto simp: d1_def)
    have h1: "hooks ctx2 = hooks ctx @ [BeforeDelegationSharesModified delAddr valAddr]"
      using jf by (simp add: ctx1_def callHook_def)
    have full: "GetDelegation ctx4 delAddr valAddr = None \<and>
                hooks ctx4 = hooks ctx @ [BeforeDelegationSharesModified delAddr valAddr,
                                          BeforeDelegationRemoved delAddr valAddr]"
      if "shares = Shares d"
      using that fr zero h1
      by (simp add: GetDelegation_def ctx3_def callHook_def AList.delete_conv')
    have less: "GetDelegation ctx4 delAddr valAddr = Some d1 \<and>
                hooks ctx4 = hooks ctx @ [BeforeDelegationSharesModified delAddr valAddr,
                                          AfterDelegationModified delAddr valAddr]"
      if "shares \<noteq> Shares d"
      using that fr zero h1
      by (simp add: GetDelegation_def ctx3_def callHook_def AList.update_conv')
    from res have "fst (Unbond ctx delAddr valAddr shares) = Inr amount"
      and "snd (Unbond ctx delAddr valAddr shares) = ctx4"
      by simp_all
    then show ?thesis
      unfolding d1_def [symmetric] using full less by auto
  qed
  then show ?thesis unfolding Some option.case by blast
qed

theorem Unbond_delegation_record_witness:
  "fst (Unbond (stakeLedger Bonded) [1] [2] (100 * Precision)) = Inr 100 \<and>
   GetDelegation (snd (Unbond (stakeLedger Bonded) [1] [2] (100 * Precision))) [1] [2] = None \<and>
   hooks (snd (Unbond (stakeLedger Bonded) [1] [2] (100 * Precision))) =
     [BeforeDelegationSharesModified [1] [2], BeforeDelegationRemoved [1] [2]] \<and>
   fst (Unbond (stakeLedger Bonded) [1] [2] (30 * Precision)) = Inr 30 \<and>
   GetDelegation (snd (Unbond (stakeLedger Bonded) [1] [2] (30 * Precision))) [1] [2] =
     Some (exampleDelegation\<lparr>Shares := 70 * Precision\<rparr>) \<and>
   hooks (snd (Unbond (stakeLedger Bonded) [1] [2] (30 * Precision))) =
     [BeforeDelegationSharesModified [1] [2], AfterDelegationModified [1] [2]] \<and>
   Unbond orphanLedger [1] [2] (30 * Precision) =
     (Inl ErrNoValidatorFound, callHook (BeforeDelegationSharesModified [1] [2]) orphanLedger) \<and>
   GetDelegation (snd (Unbond orphanLedger [1] [2] (30 * Precision))) [1] [2] =
     Some exampleDelegation"
proof -
  let ?L = "stakeLedger Bonded"
  let ?v = "exampleValidator [2] Bonded 100"
  have del: "GetDelegation ?L [1] [2] = Some exampleDelegation"
    by (simp add: GetDelegation_def stakeLedger_def emptyLedger_def)
  have sh: "Shares exampleDelegation = 100 * Precision"
    by (simp add: exampleDelegation_def)
  have val: "GetValidator ?L [2] = Some ?v"
    by (simp add: GetValidator_def stakeLedger_def emptyLedger_def)
  have ok: "DelegatorAddress_D exampleDelegation = AccBech32 [1] \<and>
            ValidatorAddress_D exampleDelegation = ValBech32 [2] \<and>
            OperatorAddress ?v = ValBech32 [2] \<and>
            Shares exampleDelegation \<le> DelegatorShares ?v \<and> 0 < DelegatorShares ?v \<and>
            0 \<le> Tokens ?v"
    by (simp add: exampleDelegation_def exampleValidator_def Precision_def)
  have h0: "hooks ?L = []"
    by (simp add: stakeLedger_def emptyLedger_def)
  have full: "fst (Unbond ?L [1] [2] (100 * Precision)) = Inr 100"
    by (simp add: stake_defs example_defs)
  have part: "fst (Unbond ?L [1] [2] (30 * Precision)) = Inr 30"
    by (simp add: stake_defs example_defs)
  have le: "100 * Precision \<le> Shares exampleDelegation" "30 * Precision \<le> Shares exampleDelegation"
    by (simp_all add: sh Precision_def)
  have ne: "30 * Precision \<noteq> Shares exampleDelegation"
    by (simp add: sh Precision_def)
  have diff: "Shares exampleDelegation - 30 * Precision = 70 * Precision"
    by (simp add: sh Precision_def)
  from Unbond_delegation_record [OF del le(1)] val ok sh h0
  have a: "GetDelegation (snd (Unbond ?L [1] [2] (100 * Precision))) [1] [2] = None \<and>
           hooks (snd (Unbond ?L [1] [2] (100 * Precision))) =
             [BeforeDelegationSharesModified [1] [2], BeforeDelegationRemoved [1] [2]]"
    by simp
  from Unbond_delegation_record [OF del le(2)] val ok ne diff h0
  have b: "GetDelegation (snd (Unbond ?L [1] [2] (30 * Precision))) [1] [2] =
             Some (exampleDelegation\<lparr>Shares := 70 * Precision\<rparr>) \<and>
           hooks (snd (Unbond ?L [1] [2] (30 * Precision))) =
             [BeforeDelegationSharesModified [1] [2], AfterDelegationModified [1] [2]]"
    by simp
  have odel: "GetDelegation orphanLedger [1] [2] = Some exampleDelegation"
    by (simp add: GetDelegation_def orphanLedger_def emptyLedger_def)
  have oval: "GetValidator orphanLedger [2] = None"
    by (simp add: GetValidator_def orphanLedger_def emptyLedger_def)
  have c: "Unbond orphanLedger [1] [2] (30 * Precision) =
             (Inl ErrNoValidatorFound, callHook (BeforeDelegationSharesModified [1] [2]) orphanLedger) \<and>
           GetDelegation (snd (Unbond orphanLedger [1] [2] (30 * Precision))) [1] [2] =
             Some exampleDelegation"
    using Unbond_delegation_record [OF odel le(2)] unfolding oval option.case .
  from full a part b c show ?thesis by blast
qed

text \<open>
  Claim C8 as stated fails for an existing delegation with enough shares whose validator
  record does not exist. \<^verbatim>\<open>SetDelegation\<close> writes a delegation without reading the
  validator registry; on the ledger that it leaves, \<^verbatim>\<open>Unbond\<close> of all the shares fails
  with \<^verbatim>\<open>ErrNoValidatorFound\<close> and the delegation record stays in the store.
\<close>

theorem Unbond_without_validator_counterexample:
  "SetDelegation emptyLedger exampleDelegation = Inr orphanLedger \<and>
   GetDelegation orphanLedger [1] [2] = Some exampleDelegation \<and>
   Shares exampleDelegation = 100 * Precision \<and>
   fst (Unbond orphanLedger [1] [2] (100 * Precision)) = Inl ErrNoValidatorFound \<and>
   GetDelegation (snd (Unbond orphanLedger [1] [2] (100 * Precision))) [1] [2] =
     Some exampleDelegation"
  by (simp add: Unbond_def GetDelegation_def GetValidator_def callHook_def SetDelegation_def
        GetValidatorAddr_def orphanLedger_def example_defs)


subsection \<open>BeginRedelegation and the status of the source validator\<close>

lemmas redelegate_defs =
  BeginRedelegation_def HasReceivingRedelegation_def HasMaxRedelegationEntries_def
  GetRedelegation_def Delegate_def Delegate_store_def InvalidExRate_def NewDelegation_def
  Delegate_transfer_def notBondedTokensToBonded_def bondedTokensToNotBonded_def NewCoin_def
  AddValidatorTokensAndShares_def AddTokensFromDel_def getBeginInfo_def
  SetRedelegationEntry_def IncrementUnbondingOpId_def NewRedelegation_def
  NewRedelegationEntry_def AddEntry_R_def SetRedelegation_def redelegationAddresses_def
  SetREDByUnbondingOpIndex_def InsertRedelegationQueue_def GetRedelegationQueueTimeSlice_def
  SetRedelegationQueueTimeSlice_def

lemma stakeOnly_refl: "stakeOnly ctx ctx"
  by (simp add: stakeOnly_def)

lemma stakeOnly_trans: "stakeOnly a b \<Longrightarrow> stakeOnly b c \<Longrightarrow> stakeOnly a c"
  by (simp add: stakeOnly_def)

lemma stakeOnly_callHook: "stakeOnly ctx (callHook h ctx)"
  by (simp add: stakeOnly_def callHook_def)

lemma SetValidator_stakeOnly: "SetValidator ctx v = Inr ctx1 \<Longrightarrow> stakeOnly ctx ctx1"
  by (auto simp: SetValidator_def stakeOnly_def split: option.splits)

lemma SetValidator_get:
  "SetValidator ctx v = Inr ctx1 \<Longrightarrow> OperatorAddress v = ValBech32 a \<Longrightarrow>
   GetValidator ctx1 b = (if b = a then Some v else GetValidator ctx b)"
  by (auto simp: SetValidator_def GetOperator_def GetValidator_def AList.update_conv')

lemma Unbond_jail_stakeOnly:
  "Unbond_jail ctx v d b = Inr (v1, ctx1) \<Longrightarrow> stakeOnly ctx ctx1"
  by (auto simp: Unbond_jail_def jailValidator_def mustGetValidator_def stakeOnly_refl
        dest: SetValidator_stakeOnly split: if_splits sum.splits option.splits)

lemma Unbond_jail_validator:
  assumes "Unbond_jail ctx v d b = Inr (v1, ctx1)" and "OperatorAddress v = ValBech32 a"
  shows "OperatorAddress v1 = ValBech32 a \<and> Status v1 = Status v \<and>
         DelegatorShares v1 = DelegatorShares v \<and>
         UnbondingTime_V v1 = UnbondingTime_V v \<and> UnbondingHeight v1 = UnbondingHeight v"
proof (cases "b \<and> \<not> Jailed v \<and>
             (case TokensFromShares v (Shares d) of Inl e \<Rightarrow> False
              | Inr t \<Rightarrow> TruncateInt t < MinSelfDelegation v)")
  case False
  with assms show ?thesis
    by (auto simp: Unbond_jail_def split: if_splits sum.splits)
next
  case True
  with assms(1) obtain ctxj where
    j: "SetValidator ctx (v\<lparr>Jailed := True\<rparr>) = Inr ctxj"
    and g: "mustGetValidator ctxj a = Inr v1"
    using assms(2)
    by (auto simp: Unbond_jail_def jailValidator_def GetOperator_def
          split: if_splits sum.splits option.splits)
  from SetValidator_get [OF j, of a a] assms(2)
  have "GetValidator ctxj a = Some (v\<lparr>Jailed := True\<rparr>)" by simp
  with g have "v1 = v\<lparr>Jailed := True\<rparr>"
    by (simp add: mustGetValidator_def)
  with assms(2) show ?thesis by simp
qed

lemma Unbond_store_stakeOnly:
  "Unbond_store ctx d a = Inr ctx1 \<Longrightarrow> stakeOnly ctx ctx1 \<and> validators ctx1 = validators ctx"
  by (auto simp: Unbond_store_def RemoveDelegation_def SetDelegation_def callHook_def stakeOnly_def
        split: if_splits sum.splits option.splits)

lemma RemoveDelShares_result:
  "RemoveDelShares v s = Inr (v2, amount) \<Longrightarrow>
   OperatorAddress v2 = OperatorAddress v \<and> Status v2 = Status v \<and>
   DelegatorShares v2 = DelegatorShares v - s \<and>
   UnbondingTime_V v2 = UnbondingTime_V v \<and> UnbondingHeight v2 = UnbondingHeight v"
  by (auto simp: RemoveDelShares_def Let_def split: if_splits sum.splits)

lemma Unbond_validator_stakeOnly:
  "Unbond_validator ctx v s = Inr (amount, ctx1) \<Longrightarrow> stakeOnly ctx ctx1"
  by (auto simp: Unbond_validator_def RemoveValidatorTokensAndShares_def RemoveValidator_def
        stakeOnly_def SetValidator_def
        split: if_splits sum.splits option.splits prod.splits)

lemma Unbond_validator_result:
  assumes "Unbond_validator ctx v s = Inr (amount, ctx1)" and "OperatorAddress v = ValBech32 a"
  shows "if DelegatorShares v - s = 0 \<and> Status v = Unbonded
         then GetValidator ctx1 a = None
         else (\<exists>v2. GetValidator ctx1 a = Some v2 \<and> Status v2 = Status v \<and>
                 UnbondingTime_V v2 = UnbondingTime_V v \<and> UnbondingHeight v2 = UnbondingHeight v)"
proof -
  from assms(1) obtain v2 ctxs where
    r: "RemoveDelShares v s = Inr (v2, amount)" and
    sv: "SetValidator ctx v2 = Inr ctxs" and
    fin: "ctx1 = (if DelegatorShares v2 = 0 \<and> IsUnbonded v2 then RemoveValidator ctxs a else ctxs)"
    using assms(2) RemoveDelShares_result [of v s]
    by (auto simp: Unbond_validator_def RemoveValidatorTokensAndShares_def GetOperator_def
          split: if_splits sum.splits option.splits prod.splits)
  note p = RemoveDelShares_result [OF r]
  from SetValidator_get [OF sv, of a a] p assms(2)
  have g: "GetValidator ctxs a = Some v2" by simp
  show ?thesis
  proof (cases "DelegatorShares v - s = 0 \<and> Status v = Unbonded")
    case True
    with p fin have "ctx1 = RemoveValidator ctxs a" by (simp add: IsUnbonded_def)
    then have "GetValidator ctx1 a = None"
      by (simp add: RemoveValidator_def GetValidator_def AList.delete_conv')
    with True show ?thesis by simp
  next
    case False
    with p fin have "ctx1 = ctxs" by (auto simp: IsUnbonded_def)
    with g p False show ?thesis by auto
  qed
qed

lemma Unbond_InrE:
  assumes "Unbond ctx delAddr valAddr shares = (Inr amount, ctx4)"
  obtains d validator delegatorAddress operator validator1 ctx2 ctx3 where
    "GetValidator ctx valAddr = Some validator"
    "GetOperator validator = Some operator"
    "Unbond_jail (callHook (BeforeDelegationSharesModified delAddr valAddr) ctx) validator d
       (delegatorAddress = operator) = Inr (validator1, ctx2)"
    "Unbond_store ctx2 d delegatorAddress = Inr ctx3"
    "Unbond_validator ctx3 validator1 shares = Inr (amount, ctx4)"
  using assms
  by (auto simp: Unbond_def Let_def GetValidator_def callHook_def
        split: option.splits if_splits sum.splits prod.splits)

lemma Unbond_stakeOnly_Inr:
  assumes "Unbond ctx delAddr valAddr shares = (Inr amount, ctx4)"
  shows "stakeOnly ctx ctx4"
proof -
  from assms obtain d validator delegatorAddress operator validator1 ctx2 ctx3 where
    j: "Unbond_jail (callHook (BeforeDelegationSharesModified delAddr valAddr) ctx) validator d
       (delegatorAddress = operator) = Inr (validator1, ctx2)" and
    s: "Unbond_store ctx2 d delegatorAddress = Inr ctx3" and
    v: "Unbond_validator ctx3 validator1 shares = Inr (amount, ctx4)"
    by (rule Unbond_InrE)
  from stakeOnly_callHook Unbond_jail_stakeOnly [OF j] Unbond_store_stakeOnly [OF s]
    Unbond_validator_stakeOnly [OF v]
  show ?thesis by (blast intro: stakeOnly_trans)
qed

lemma Unbond_source_validator:
  assumes ok: "Unbond ctx delAddr valAddr shares = (Inr amount, ctx4)"
      and val: "GetValidator ctx valAddr = Some v"
      and keyed: "OperatorAddress v = ValBech32 valAddr"
  shows "if DelegatorShares v - shares = 0 \<and> Status v = Unbonded
         then GetValidator ctx4 valAddr = None
         else (\<exists>v2. GetValidator ctx4 valAddr = Some v2 \<and> Status v2 = Status v \<and>
                 UnbondingTime_V v2 = UnbondingTime_V v \<and> UnbondingHeight v2 = UnbondingHeight v)"
proof -
  from ok obtain d validator delegatorAddress operator validator1 ctx2 ctx3 where
    gv: "GetValidator ctx valAddr = Some validator" and
    j: "Unbond_jail (callHook (BeforeDelegationSharesModified delAddr valAddr) ctx) validator d
       (delegatorAddress = operator) = Inr (validator1, ctx2)" and
    s: "Unbond_store ctx2 d delegatorAddress = Inr ctx3" and
    u: "Unbond_validator ctx3 validator1 shares = Inr (amount, ctx4)"
    by (rule Unbond_InrE)
  from gv val have "validator = v" by simp
  with Unbond_jail_validator [OF j] keyed
  have v1: "OperatorAddress validator1 = ValBech32 valAddr" "Status validator1 = Status v"
    "DelegatorShares validator1 = DelegatorShares v"
    "UnbondingTime_V validator1 = UnbondingTime_V v" "UnbondingHeight validator1 = UnbondingHeight v"
    by simp_all
  from Unbond_validator_result [OF u v1(1)] v1 show ?thesis by (auto split: if_splits)
qed


lemma Delegate_transfer_stakeOnly:
  "Delegate_transfer ctx a amt st v sub = Inr ctx1 \<Longrightarrow>
   stakeOnly ctx ctx1 \<and> validators ctx1 = validators ctx"
  by (auto simp: Delegate_transfer_def DelegateCoinsFromAccountToModule_def
        notBondedTokensToBonded_def bondedTokensToNotBonded_def NewCoin_def stakeOnly_def
        split: if_splits sum.splits)

lemma AddValidatorTokensAndShares_result:
  assumes "AddValidatorTokensAndShares ctx v amt = Inr (v1, sh, ctx1)"
      and "OperatorAddress v = ValBech32 b"
  shows "stakeOnly ctx ctx1 \<and> (\<forall>a. a \<noteq> b \<longrightarrow> GetValidator ctx1 a = GetValidator ctx a)"
proof -
  from assms(1) obtain v2 where
    a: "AddTokensFromDel v amt = Inr (v2, sh)" and sv: "SetValidator ctx v2 = Inr ctx1"
    by (auto simp: AddValidatorTokensAndShares_def split: sum.splits prod.splits)
  from a assms(2) have "OperatorAddress v2 = ValBech32 b"
    by (auto simp: AddTokensFromDel_def Let_def split: if_splits)
  from SetValidator_get [OF sv this] SetValidator_stakeOnly [OF sv] show ?thesis by simp
qed

lemma SetDelegation_stakeOnly:
  "SetDelegation ctx d = Inr ctx1 \<Longrightarrow> stakeOnly ctx ctx1 \<and> validators ctx1 = validators ctx"
  by (auto simp: SetDelegation_def stakeOnly_def split: option.splits)

lemma Delegate_store_result:
  assumes ok: "Delegate_store ctx2 delegation da v amt = (Inr sh, ctx')"
      and keyed: "OperatorAddress v = ValBech32 b"
  shows "stakeOnly ctx2 ctx' \<and> (\<forall>a. a \<noteq> b \<longrightarrow> GetValidator ctx' a = GetValidator ctx2 a)"
proof -
  from ok obtain v1 ctx3 where a: "AddValidatorTokensAndShares ctx2 v amt = Inr (v1, sh, ctx3)"
    by (cases "AddValidatorTokensAndShares ctx2 v amt")
       (auto simp: Delegate_store_def Let_def split: sum.splits option.splits)
  from ok a obtain ctx4 where
    d: "SetDelegation ctx3 (delegation\<lparr>Shares := Shares delegation + sh\<rparr>) = Inr ctx4"
    by (cases "SetDelegation ctx3 (delegation\<lparr>Shares := Shares delegation + sh\<rparr>)")
       (auto simp: Delegate_store_def Let_def split: option.splits)
  from ok a d obtain h3 where c: "ctx' = callHook h3 ctx4"
    by (cases "GetValidatorAddr (delegation\<lparr>Shares := Shares delegation + sh\<rparr>)")
       (auto simp: Delegate_store_def Let_def)
  note A = AddValidatorTokensAndShares_result [OF a keyed]
  note D = SetDelegation_stakeOnly [OF d]
  have "stakeOnly ctx2 ctx'"
    using A D stakeOnly_callHook [of ctx4 h3] c
    by (blast intro: stakeOnly_trans)
  moreover have "GetValidator ctx' a = GetValidator ctx2 a" if "a \<noteq> b" for a
  proof -
    have "GetValidator ctx' a = GetValidator ctx4 a"
      by (simp add: c callHook_def GetValidator_def)
    also have "\<dots> = GetValidator ctx3 a" using D by (simp add: GetValidator_def)
    also have "\<dots> = GetValidator ctx2 a" using A that by simp
    finally show ?thesis .
  qed
  ultimately show ?thesis by blast
qed

lemma Delegate_result:
  assumes ok: "Delegate ctx delAddr amt st v sub = (Inr sh, ctx')"
      and keyed: "OperatorAddress v = ValBech32 b"
  shows "stakeOnly ctx ctx' \<and> (\<forall>a. a \<noteq> b \<longrightarrow> GetValidator ctx' a = GetValidator ctx a)"
proof -
  have op: "GetOperator v = Some b"
    using keyed by (simp add: GetOperator_def)
  from ok op obtain h delegation da ctx2 where
    t: "Delegate_transfer (callHook h ctx) da amt st v sub = Inr ctx2" and
    s: "Delegate_store ctx2 delegation da v amt = (Inr sh, ctx')"
    by (auto simp: Delegate_def Let_def split: if_splits option.splits sum.splits)
  note T = Delegate_transfer_stakeOnly [OF t]
  note S = Delegate_store_result [OF s keyed]
  have "stakeOnly ctx ctx'"
    using stakeOnly_callHook [of ctx h] T S by (blast intro: stakeOnly_trans)
  moreover have "GetValidator ctx' a = GetValidator ctx a" if "a \<noteq> b" for a
  proof -
    have "GetValidator ctx' a = GetValidator ctx2 a" using S that by simp
    also have "\<dots> = GetValidator (callHook h ctx) a" using T by (simp add: GetValidator_def)
    also have "\<dots> = GetValidator ctx a" by (simp add: callHook_def GetValidator_def)
    finally show ?thesis .
  qed
  ultimately show ?thesis by blast
qed

lemma redelegationEntryCreated_cong:
  "reds ctx = reds ctx0 \<Longrightarrow> redQueue ctx = redQueue ctx0 \<Longrightarrow>
   redelegationEntryCreated ctx ctx1 d a b t h = redelegationEntryCreated ctx0 ctx1 d a b t h"
  unfolding redelegationEntryCreated_def GetRedelegation_def GetRedelegationQueueTimeSlice_def
  by (auto split: option.splits)

lemma SetRedelegationEntry_created:
  assumes set: "SetRedelegationEntry ctx d a b h t bal ssrc sdst = (Inr red, ctx3)"
      and keyed: "\<And>red0. GetRedelegation ctx d a b = Some red0 \<Longrightarrow>
                   DelegatorAddress_R red0 = AccBech32 d \<and> ValidatorSrcAddress red0 = ValBech32 a \<and>
                   ValidatorDstAddress red0 = ValBech32 b"
  shows "redelegationEntryCreated ctx (InsertRedelegationQueue ctx3 red t) d a b t h"
proof -
  define old where "old = (case GetRedelegation ctx d a b of None \<Rightarrow> [] | Some red0 \<Rightarrow> Entries_R red0)"
  define e where "e = NewRedelegationEntry h t bal sdst"
  have addr: "DelegatorAddress_R red = AccBech32 d \<and> ValidatorSrcAddress red = ValBech32 a \<and>
              ValidatorDstAddress red = ValBech32 b \<and> Entries_R red = old @ [e]"
    using set keyed
    by (auto simp: SetRedelegationEntry_def Let_def IncrementUnbondingOpId_def old_def e_def
          NewRedelegation_def AddEntry_R_def
          split: option.splits sum.splits prod.splits)
  then have ra: "redelegationAddresses red = Some (d, a, b)"
    by (simp add: redelegationAddresses_def)
  have c3: "map_of (reds ctx3) (d, a, b) = Some red \<and> redQueue ctx3 = redQueue ctx"
    using set ra
    by (auto simp: SetRedelegationEntry_def Let_def IncrementUnbondingOpId_def
          SetRedelegation_def SetREDByUnbondingOpIndex_def callHook_def AList.update_conv'
          split: option.splits sum.splits prod.splits)
  have q: "GetRedelegationQueueTimeSlice (InsertRedelegationQueue ctx3 red t) t =
           GetRedelegationQueueTimeSlice ctx t @ [(AccBech32 d, ValBech32 a, ValBech32 b)]"
    using c3 addr
    by (auto simp: InsertRedelegationQueue_def Let_def GetRedelegationQueueTimeSlice_def
          SetRedelegationQueueTimeSlice_def AList.update_conv' split: option.splits)
  have g: "GetRedelegation (InsertRedelegationQueue ctx3 red t) d a b = Some red"
    using c3
    by (simp add: InsertRedelegationQueue_def Let_def SetRedelegationQueueTimeSlice_def
          GetRedelegation_def)
  from g q addr show ?thesis
    by (simp add: redelegationEntryCreated_def old_def e_def NewRedelegationEntry_def)
qed

lemma BeginRedelegation_InrE:
  assumes ok: "BeginRedelegation ctx delAddr src dst sharesAmount = (Inr t, ctx')"
  obtains dstV srcV returnAmount ctx1 sharesCreated ctx2 h completeNow where
    "src \<noteq> dst" "GetValidator ctx dst = Some dstV" "GetValidator ctx src = Some srcV"
    "Unbond ctx delAddr src sharesAmount = (Inr returnAmount, ctx1)"
    "Delegate ctx1 delAddr returnAmount (Status srcV) dstV False = (Inr sharesCreated, ctx2)"
    "getBeginInfo ctx2 src = Inr (t, h, completeNow)"
    "completeNow \<longrightarrow> ctx' = ctx2"
    "\<not> completeNow \<longrightarrow> (\<exists>red ctx3.
        SetRedelegationEntry ctx2 delAddr src dst h t returnAmount sharesAmount sharesCreated =
          (Inr red, ctx3) \<and> ctx' = InsertRedelegationQueue ctx3 red t)"
proof -
  have ne: "src \<noteq> dst"
    using ok by (cases "src = dst") (simp_all add: BeginRedelegation_def)
  obtain dstV where dv: "GetValidator ctx dst = Some dstV"
    using ok ne by (cases "GetValidator ctx dst") (simp_all add: BeginRedelegation_def)
  obtain srcV where sv: "GetValidator ctx src = Some srcV"
    using ok ne dv by (cases "GetValidator ctx src") (simp_all add: BeginRedelegation_def)
  have g1: "\<not> HasReceivingRedelegation ctx delAddr src"
    using ok ne dv sv
    by (cases "HasReceivingRedelegation ctx delAddr src") (simp_all add: BeginRedelegation_def)
  have g2: "\<not> HasMaxRedelegationEntries ctx delAddr src dst"
    using ok ne dv sv g1
    by (cases "HasMaxRedelegationEntries ctx delAddr src dst") (simp_all add: BeginRedelegation_def)
  have run: "BeginRedelegation ctx delAddr src dst sharesAmount =
      (case Unbond ctx delAddr src sharesAmount of
         (Inl e, ctx1) \<Rightarrow> (Inl e, ctx1)
       | (Inr returnAmount, ctx1) \<Rightarrow>
           if returnAmount = 0 then (Inl ErrTinyRedelegationAmount, ctx1)
           else
             (case Delegate ctx1 delAddr returnAmount (Status srcV) dstV False of
                (Inl e, ctx2) \<Rightarrow> (Inl e, ctx2)
              | (Inr sharesCreated, ctx2) \<Rightarrow>
                  (case getBeginInfo ctx2 src of
                     Inl e \<Rightarrow> (Inl e, ctx2)
                   | Inr (completionTime, height, completeNow) \<Rightarrow>
                       if completeNow then (Inr completionTime, ctx2)
                       else
                         (case SetRedelegationEntry ctx2 delAddr src dst
                                 height completionTime returnAmount sharesAmount sharesCreated of
                            (Inl e, ctx3) \<Rightarrow> (Inl e, ctx3)
                          | (Inr red, ctx3) \<Rightarrow>
                              (Inr completionTime,
                               InsertRedelegationQueue ctx3 red completionTime)))))"
    unfolding BeginRedelegation_def using ne dv sv g1 g2 by simp
  obtain r1 ctx1 where u0: "Unbond ctx delAddr src sharesAmount = (r1, ctx1)"
    by (cases "Unbond ctx delAddr src sharesAmount")
  from ok run u0 obtain returnAmount where r1: "r1 = Inr returnAmount" and nz: "returnAmount \<noteq> 0"
    by (cases r1) (auto split: if_splits)
  note u = u0 [unfolded r1]
  obtain r2 ctx2 where d0: "Delegate ctx1 delAddr returnAmount (Status srcV) dstV False = (r2, ctx2)"
    by (cases "Delegate ctx1 delAddr returnAmount (Status srcV) dstV False")
  from ok run u nz d0 obtain sharesCreated where r2: "r2 = Inr sharesCreated"
    by (cases r2) auto
  note d = d0 [unfolded r2]
  from ok run u nz d obtain bi where b0: "getBeginInfo ctx2 src = Inr bi"
    by (cases "getBeginInfo ctx2 src") auto
  obtain t' h completeNow where bi: "bi = (t', h, completeNow)" by (cases bi)
  note b = b0 [unfolded bi]
  have now: "t' = t \<and> ctx' = ctx2" if completeNow
    using ok run u nz d b that by simp
  have later: "t' = t \<and> (\<exists>red ctx3.
        SetRedelegationEntry ctx2 delAddr src dst h t' returnAmount sharesAmount sharesCreated =
          (Inr red, ctx3) \<and> ctx' = InsertRedelegationQueue ctx3 red t')" if "\<not> completeNow"
  proof -
    obtain r3 ctx3 where s0: "SetRedelegationEntry ctx2 delAddr src dst h t' returnAmount
        sharesAmount sharesCreated = (r3, ctx3)"
      by (cases "SetRedelegationEntry ctx2 delAddr src dst h t' returnAmount sharesAmount sharesCreated")
    from ok run u nz d b that s0 show ?thesis
      by (cases r3) auto
  qed
  have tt: "t' = t" using now later by blast
  have n: "completeNow \<longrightarrow> ctx' = ctx2" using now by blast
  have l: "\<not> completeNow \<longrightarrow> (\<exists>red ctx3.
        SetRedelegationEntry ctx2 delAddr src dst h t returnAmount sharesAmount sharesCreated =
          (Inr red, ctx3) \<and> ctx' = InsertRedelegationQueue ctx3 red t)"
    using later tt by blast
  show thesis
    by (rule that [OF ne dv sv u d b [unfolded tt] n l])
qed

lemma wellKeyed_validator:
  "wellKeyed ctx \<Longrightarrow> GetValidator ctx a = Some v \<Longrightarrow> OperatorAddress v = ValBech32 a"
  by (auto simp: wellKeyed_def GetValidator_def list_all_iff dest: map_of_SomeD)

lemma wellKeyed_redelegation:
  "wellKeyed ctx \<Longrightarrow> GetRedelegation ctx d a b = Some red \<Longrightarrow>
   DelegatorAddress_R red = AccBech32 d \<and> ValidatorSrcAddress red = ValBech32 a \<and>
   ValidatorDstAddress red = ValBech32 b"
  by (auto simp: wellKeyed_def GetRedelegation_def list_all_iff dest: map_of_SomeD)


text \<open>
  Claim C6, as the code has it. \<^verbatim>\<open>BeginRedelegation\<close> has succeeded on a well-keyed
  store, so the unbond on the source side and the delegate on the destination side have
  succeeded. The source validator is the record at the call. If it is bonded, an entry
  is created and queued with the block time plus the unbonding period as its completion
  time and the block height as its height. If it is unbonding, the entry created has the
  validator's own unbonding completion time and height. If it is unbonded and the unbond
  leaves it shares, the redelegation completes at once: the completion time is the zero
  time and neither a redelegation entry, nor a queue element, nor an operation ID is
  created. If it is unbonded and the unbond takes all its shares, the unbond has removed
  the validator record, \<^verbatim>\<open>getBeginInfo\<close> does not find it, and an entry is created and
  queued with the block time plus the unbonding period.
\<close>

theorem BeginRedelegation_completion:
  assumes ok: "BeginRedelegation ctx delAddr valSrcAddr valDstAddr sharesAmount =
                 (Inr completionTime, ctx')"
      and wk: "wellKeyed ctx"
      and src: "GetValidator ctx valSrcAddr = Some srcValidator"
  shows "(Status srcValidator = Bonded \<longrightarrow>
            completionTime = BlockTime ctx + UnbondingTime ctx \<and>
            redelegationEntryCreated ctx ctx' delAddr valSrcAddr valDstAddr
              completionTime (BlockHeight ctx)) \<and>
         (Status srcValidator = Unbonding \<longrightarrow>
            completionTime = UnbondingTime_V srcValidator \<and>
            redelegationEntryCreated ctx ctx' delAddr valSrcAddr valDstAddr
              completionTime (UnbondingHeight srcValidator)) \<and>
         (Status srcValidator = Unbonded \<and> DelegatorShares srcValidator \<noteq> sharesAmount \<longrightarrow>
            completionTime = 0 \<and> reds ctx' = reds ctx \<and> redQueue ctx' = redQueue ctx \<and>
            unbondingOpIndex ctx' = unbondingOpIndex ctx \<and>
            unbondingOpId ctx' = unbondingOpId ctx) \<and>
         (Status srcValidator = Unbonded \<and> DelegatorShares srcValidator = sharesAmount \<longrightarrow>
            completionTime = BlockTime ctx + UnbondingTime ctx \<and>
            redelegationEntryCreated ctx ctx' delAddr valSrcAddr valDstAddr
              completionTime (BlockHeight ctx))"
proof -
  from ok obtain dstV srcV returnAmount ctx1 sharesCreated ctx2 h completeNow where
    ne: "valSrcAddr \<noteq> valDstAddr" and
    dv: "GetValidator ctx valDstAddr = Some dstV" and
    sv: "GetValidator ctx valSrcAddr = Some srcV" and
    u: "Unbond ctx delAddr valSrcAddr sharesAmount = (Inr returnAmount, ctx1)" and
    d: "Delegate ctx1 delAddr returnAmount (Status srcV) dstV False = (Inr sharesCreated, ctx2)" and
    b: "getBeginInfo ctx2 valSrcAddr = Inr (completionTime, h, completeNow)" and
    now: "completeNow \<longrightarrow> ctx' = ctx2" and
    later: "\<not> completeNow \<longrightarrow> (\<exists>red ctx3.
        SetRedelegationEntry ctx2 delAddr valSrcAddr valDstAddr h completionTime returnAmount
          sharesAmount sharesCreated = (Inr red, ctx3) \<and>
        ctx' = InsertRedelegationQueue ctx3 red completionTime)"
    by (rule BeginRedelegation_InrE)
  from sv src have [simp]: "srcV = srcValidator" by simp
  note ksrc = wellKeyed_validator [OF wk src]
  note kdst = wellKeyed_validator [OF wk dv]
  note after_unbond = Unbond_source_validator [OF u src ksrc]
  note D = Delegate_result [OF d kdst]
  from D ne have same: "GetValidator ctx2 valSrcAddr = GetValidator ctx1 valSrcAddr" by simp
  have fr: "stakeOnly ctx ctx2"
    using Unbond_stakeOnly_Inr [OF u] D by (blast intro: stakeOnly_trans)
  then have eqs: "BlockTime ctx2 = BlockTime ctx" "BlockHeight ctx2 = BlockHeight ctx"
    "UnbondingTime ctx2 = UnbondingTime ctx" "reds ctx2 = reds ctx" "redQueue ctx2 = redQueue ctx"
    "unbondingOpIndex ctx2 = unbondingOpIndex ctx" "unbondingOpId ctx2 = unbondingOpId ctx"
    by (simp_all add: stakeOnly_def)
  have created: "redelegationEntryCreated ctx ctx' delAddr valSrcAddr valDstAddr completionTime h"
    if "\<not> completeNow"
  proof -
    from later that obtain red ctx3 where
      s: "SetRedelegationEntry ctx2 delAddr valSrcAddr valDstAddr h completionTime returnAmount
            sharesAmount sharesCreated = (Inr red, ctx3)" and
      c: "ctx' = InsertRedelegationQueue ctx3 red completionTime"
      by blast
    have k: "DelegatorAddress_R red0 = AccBech32 delAddr \<and>
             ValidatorSrcAddress red0 = ValBech32 valSrcAddr \<and>
             ValidatorDstAddress red0 = ValBech32 valDstAddr"
      if "GetRedelegation ctx2 delAddr valSrcAddr valDstAddr = Some red0" for red0
      using that wellKeyed_redelegation [OF wk, of delAddr valSrcAddr valDstAddr red0] eqs(4)
      by (simp add: GetRedelegation_def)
    from SetRedelegationEntry_created [OF s k]
    have "redelegationEntryCreated ctx2 ctx' delAddr valSrcAddr valDstAddr completionTime h"
      by (simp add: c)
    then show ?thesis
      using redelegationEntryCreated_cong [OF eqs(4,5) [symmetric]] by simp
  qed
  show ?thesis
  proof (cases "DelegatorShares srcValidator - sharesAmount = 0 \<and> Status srcValidator = Unbonded")
    case True
    with after_unbond same have "GetValidator ctx2 valSrcAddr = None" by simp
    with b eqs have bi: "completionTime = BlockTime ctx + UnbondingTime ctx"
      "h = BlockHeight ctx" "\<not> completeNow"
      by (simp_all add: getBeginInfo_def)
    from created [OF bi(3)] bi True show ?thesis by auto
  next
    case False
    with after_unbond same obtain v2 where
      g: "GetValidator ctx2 valSrcAddr = Some v2" and
      st: "Status v2 = Status srcValidator" "UnbondingTime_V v2 = UnbondingTime_V srcValidator"
          "UnbondingHeight v2 = UnbondingHeight srcValidator"
      by auto
    show ?thesis
    proof (cases "Status srcValidator")
      case Unspecified
      with b g st show ?thesis
        by (simp add: getBeginInfo_def IsBonded_def IsUnbonded_def IsUnbonding_def)
    next
      case Unbonded
      with b g st have bi: "completionTime = 0" "completeNow"
        by (simp_all add: getBeginInfo_def IsBonded_def IsUnbonded_def)
      from now bi eqs Unbonded False show ?thesis by auto
    next
      case Unbonding
      with b g st have bi: "completionTime = UnbondingTime_V srcValidator"
        "h = UnbondingHeight srcValidator" "\<not> completeNow"
        by (simp_all add: getBeginInfo_def IsBonded_def IsUnbonded_def IsUnbonding_def)
      from created [OF bi(3)] bi Unbonding show ?thesis by auto
    next
      case Bonded
      with b g st eqs have bi: "completionTime = BlockTime ctx + UnbondingTime ctx"
        "h = BlockHeight ctx" "\<not> completeNow"
        by (simp_all add: getBeginInfo_def IsBonded_def)
      from created [OF bi(3)] bi Bonded show ?thesis by auto
    qed
  qed
qed


theorem BeginRedelegation_completion_witness:
  "wellKeyed (stakeLedger Bonded) \<and>
   fst (BeginRedelegation (stakeLedger Bonded) [1] [2] [3] (40 * Precision)) = Inr 150 \<and>
   redelegationEntryCreated (stakeLedger Bonded)
     (snd (BeginRedelegation (stakeLedger Bonded) [1] [2] [3] (40 * Precision))) [1] [2] [3] 150 7 \<and>
   fst (BeginRedelegation (stakeLedger Unbonding) [1] [2] [3] (40 * Precision)) = Inr 120 \<and>
   redelegationEntryCreated (stakeLedger Unbonding)
     (snd (BeginRedelegation (stakeLedger Unbonding) [1] [2] [3] (40 * Precision))) [1] [2] [3] 120 3 \<and>
   fst (BeginRedelegation (stakeLedger Unbonded) [1] [2] [3] (40 * Precision)) = Inr 0 \<and>
   reds (snd (BeginRedelegation (stakeLedger Unbonded) [1] [2] [3] (40 * Precision))) =
     reds (stakeLedger Unbonded) \<and>
   redQueue (snd (BeginRedelegation (stakeLedger Unbonded) [1] [2] [3] (40 * Precision))) =
     redQueue (stakeLedger Unbonded) \<and>
   fst (BeginRedelegation (stakeLedger Unbonded) [1] [2] [3] (100 * Precision)) = Inr 150 \<and>
   redelegationEntryCreated (stakeLedger Unbonded)
     (snd (BeginRedelegation (stakeLedger Unbonded) [1] [2] [3] (100 * Precision))) [1] [2] [3] 150 7"
proof -
  have wk: "wellKeyed (stakeLedger st)" for st
    by (simp add: wellKeyed_def example_defs)
  have src: "GetValidator (stakeLedger st) [2] = Some (exampleValidator [2] st 100)" for st
    by (simp add: GetValidator_def stakeLedger_def emptyLedger_def)
  have hdr: "BlockTime (stakeLedger st) + UnbondingTime (stakeLedger st) = 150"
            "BlockHeight (stakeLedger st) = 7" for st
    by (simp_all add: stakeLedger_def emptyLedger_def)
  have v: "Status (exampleValidator [2] st 100) = st"
          "DelegatorShares (exampleValidator [2] st 100) = 100 * Precision"
          "UnbondingTime_V (exampleValidator [2] st 100) = 120"
          "UnbondingHeight (exampleValidator [2] st 100) = 3" for st
    by (simp_all add: exampleValidator_def)
  have ne: "100 * Precision \<noteq> 40 * Precision" by (simp add: Precision_def)
  have b: "fst (BeginRedelegation (stakeLedger Bonded) [1] [2] [3] (40 * Precision)) = Inr 150"
    by (simp add: redelegate_defs stake_defs example_defs Let_def)
  have u: "fst (BeginRedelegation (stakeLedger Unbonding) [1] [2] [3] (40 * Precision)) = Inr 120"
    by (simp add: redelegate_defs stake_defs example_defs Let_def)
  have n: "fst (BeginRedelegation (stakeLedger Unbonded) [1] [2] [3] (40 * Precision)) = Inr 0"
    by (simp add: redelegate_defs stake_defs example_defs Let_def)
  have e: "fst (BeginRedelegation (stakeLedger Unbonded) [1] [2] [3] (100 * Precision)) = Inr 150"
    by (simp add: redelegate_defs stake_defs example_defs Let_def)
  have pair: "x = (fst x, snd x)" for x :: "(error + time) \<times> Context" by simp
  from BeginRedelegation_completion [OF pair [of "BeginRedelegation (stakeLedger Bonded) [1] [2] [3] (40 * Precision)", unfolded b] wk src]
  have B: "redelegationEntryCreated (stakeLedger Bonded)
     (snd (BeginRedelegation (stakeLedger Bonded) [1] [2] [3] (40 * Precision))) [1] [2] [3] 150 7"
    by (simp add: v hdr)
  from BeginRedelegation_completion [OF pair [of "BeginRedelegation (stakeLedger Unbonding) [1] [2] [3] (40 * Precision)", unfolded u] wk src]
  have U: "redelegationEntryCreated (stakeLedger Unbonding)
     (snd (BeginRedelegation (stakeLedger Unbonding) [1] [2] [3] (40 * Precision))) [1] [2] [3] 120 3"
    by (simp add: v hdr)
  from BeginRedelegation_completion [OF pair [of "BeginRedelegation (stakeLedger Unbonded) [1] [2] [3] (40 * Precision)", unfolded n] wk src] ne
  have N: "reds (snd (BeginRedelegation (stakeLedger Unbonded) [1] [2] [3] (40 * Precision))) =
             reds (stakeLedger Unbonded) \<and>
           redQueue (snd (BeginRedelegation (stakeLedger Unbonded) [1] [2] [3] (40 * Precision))) =
             redQueue (stakeLedger Unbonded)"
    by (simp add: v hdr)
  from BeginRedelegation_completion [OF pair [of "BeginRedelegation (stakeLedger Unbonded) [1] [2] [3] (100 * Precision)", unfolded e] wk src]
  have E: "redelegationEntryCreated (stakeLedger Unbonded)
     (snd (BeginRedelegation (stakeLedger Unbonded) [1] [2] [3] (100 * Precision))) [1] [2] [3] 150 7"
    by (simp add: v hdr)
  from wk [of Bonded] b B u U n N e E show ?thesis by blast
qed

text \<open>
  Claim C6 as stated fails for an unbonded source validator all of whose shares are
  redelegated: the redelegation does not complete at once, the call returns the block
  time plus the unbonding period, 150, and a redelegation entry is created and queued.
\<close>

theorem BeginRedelegation_unbonded_source_counterexample:
  "GetValidator (stakeLedger Unbonded) [2] = Some (exampleValidator [2] Unbonded 100) \<and>
   Status (exampleValidator [2] Unbonded 100) = Unbonded \<and>
   fst (BeginRedelegation (stakeLedger Unbonded) [1] [2] [3] (100 * Precision)) = Inr 150 \<and>
   map_option Entries_R
     (GetRedelegation (snd (BeginRedelegation (stakeLedger Unbonded) [1] [2] [3] (100 * Precision)))
        [1] [2] [3]) =
     Some [\<lparr>CreationHeight_R = 7, CompletionTime_R = 150, InitialBalance_R = 100,
            SharesDst = 100 * Precision, Id_R = 0, OnHold_R = False\<rparr>] \<and>
   GetRedelegationQueueTimeSlice
     (snd (BeginRedelegation (stakeLedger Unbonded) [1] [2] [3] (100 * Precision))) 150 =
     [(AccBech32 [1], ValBech32 [2], ValBech32 [3])]"
  by (simp add: redelegate_defs stake_defs example_defs Let_def)


end
